theory Spec2Isabelle
  imports Complex_Main "HOL-Library.Sublist"
begin

section \<open>Python values and operations used by the test scripts\<close>

text \<open>
  The repository is a set of eleven Python scripts under \<^verbatim>\<open>testsprite_tests/\<close>. Each one
  sends HTTP requests with the \<^verbatim>\<open>requests\<close> library and asserts on the status code and
  on the value that \<^verbatim>\<open>response.json()\<close> returns. The backend is external: it is a
  parameter of every definition below.

  Text is modelled as \<^typ>\<open>string\<close> and is faithful for ASCII text; \<open>lower\<close> maps
  \<^verbatim>\<open>A-Z\<close> to \<^verbatim>\<open>a-z\<close> and leaves every other character alone. Assertions are taken to
  be enabled (no \<^verbatim>\<open>python -O\<close>).
\<close>

subsection \<open>Strings\<close>

definition lower_char :: "char \<Rightarrow> char" where
  "lower_char c =
     (case map_of (zip ''ABCDEFGHIJKLMNOPQRSTUVWXYZ'' ''abcdefghijklmnopqrstuvwxyz'') c of
        Some l \<Rightarrow> l
      | None \<Rightarrow> c)"

text \<open>\<^verbatim>\<open>s.lower()\<close>\<close>

definition lower :: "string \<Rightarrow> string" where
  "lower s = map lower_char s"

text \<open>\<^verbatim>\<open>a in b\<close> for two strings: \<open>a\<close> occurs in \<open>b\<close> as a contiguous run.\<close>

definition str_in :: "string \<Rightarrow> string \<Rightarrow> bool" where
  "str_in a b = sublist a b"

text \<open>\<^verbatim>\<open>str(n)\<close> for an integer, as the f-strings of the assertion messages print it.\<close>

fun digits :: "nat \<Rightarrow> string" where
  "digits n =
     (if n < 10 then [''0123456789'' ! n]
      else digits (n div 10) @ [''0123456789'' ! (n mod 10)])"

definition str_int :: "int \<Rightarrow> string" where
  "str_int i = (if i < 0 then CHR ''-'' # digits (nat (- i)) else digits (nat i))"

definition hex2 :: "char \<Rightarrow> string" where
  "hex2 c = (let n = (of_char c :: nat) in
     [''0123456789abcdef'' ! (n div 16), ''0123456789abcdef'' ! (n mod 16)])"

text \<open>
  \<^verbatim>\<open>repr(s)\<close> for a string: double quotes when the text has a single quote and no
  double quote, single quotes otherwise; backslash, the chosen quote, tab, newline,
  carriage return and the other control characters are escaped.
\<close>

definition repr_char :: "char \<Rightarrow> char \<Rightarrow> string" where
  "repr_char q c =
     (if c = CHR 0x5C then [CHR 0x5C, CHR 0x5C]
      else if c = q then [CHR 0x5C, q]
      else if c = CHR 0x09 then [CHR 0x5C, CHR ''t'']
      else if c = CHR 0x0A then [CHR 0x5C, CHR ''n'']
      else if c = CHR 0x0D then [CHR 0x5C, CHR ''r'']
      else if (of_char c :: nat) < 32 \<or> (of_char c :: nat) = 127
        then [CHR 0x5C, CHR ''x''] @ hex2 c
      else [c])"

definition repr_str :: "string \<Rightarrow> string" where
  "repr_str s =
     (let q = (if CHR 0x27 \<in> set s \<and> CHR 0x22 \<notin> set s then CHR 0x22 else CHR 0x27)
      in [q] @ concat (map (repr_char q) s) @ [q])"

text \<open>\<^verbatim>\<open>", ".join(parts)\<close>\<close>

fun join_comma :: "string list \<Rightarrow> string" where
  "join_comma [] = []"
| "join_comma [p] = p"
| "join_comma (p # ps) = p @ '', '' @ join_comma ps"

subsection \<open>The values \<^verbatim>\<open>response.json()\<close> can return\<close>

text \<open>
  \<^verbatim>\<open>None\<close>, \<^verbatim>\<open>bool\<close>, \<^verbatim>\<open>int\<close>, \<^verbatim>\<open>float\<close>, \<^verbatim>\<open>str\<close>, \<^verbatim>\<open>list\<close> and \<^verbatim>\<open>dict\<close>. A float is
  carried by the text \<^verbatim>\<open>repr\<close> gives it (the scripts only print floats of a body, test
  their truth value and compare them with strings). A dict is the list of its items in
  insertion order; its keys are strings and do not repeat.
\<close>

datatype json =
    JNull
  | JBool bool
  | JInt int
  | JFloat string
  | JStr string
  | JArr "json list"
  | JObj "(string \<times> json) list"

text \<open>The exceptions a script can end with; each carries the text \<^verbatim>\<open>str(e)\<close> prints.\<close>

datatype exn =
    AssertionError string
  | RequestException string
  | HTTPError string
  | JSONDecodeError string
  | TypeError string
  | AttributeError string
  | KeyError string
  | Failed string

fun exn_str :: "exn \<Rightarrow> string" where
  "exn_str (AssertionError t) = t"
| "exn_str (RequestException t) = t"
| "exn_str (HTTPError t) = t"
| "exn_str (JSONDecodeError t) = t"
| "exn_str (TypeError t) = t"
| "exn_str (AttributeError t) = t"
| "exn_str (KeyError t) = t"
| "exn_str (Failed t) = t"

text \<open>
  \<^verbatim>\<open>except requests.RequestException\<close>: connection errors and timeouts, the
  \<^verbatim>\<open>HTTPError\<close> of \<^verbatim>\<open>raise_for_status()\<close>, and the \<^verbatim>\<open>JSONDecodeError\<close> of
  \<^verbatim>\<open>response.json()\<close> (a \<^verbatim>\<open>RequestException\<close> since requests 2.27).
\<close>

fun is_RequestException :: "exn \<Rightarrow> bool" where
  "is_RequestException (RequestException t) = True"
| "is_RequestException (HTTPError t) = True"
| "is_RequestException (JSONDecodeError t) = True"
| "is_RequestException x = False"

text \<open>\<^verbatim>\<open>except Exception\<close> catches every exception of this model but \<^verbatim>\<open>pytest.fail\<close>'s
  (\<^verbatim>\<open>Failed\<close> derives from \<^verbatim>\<open>BaseException\<close>).\<close>

fun is_Exception :: "exn \<Rightarrow> bool" where
  "is_Exception (Failed t) = False"
| "is_Exception x = True"

fun type_name :: "json \<Rightarrow> string" where
  "type_name JNull = ''NoneType''"
| "type_name (JBool b) = ''bool''"
| "type_name (JInt i) = ''int''"
| "type_name (JFloat t) = ''float''"
| "type_name (JStr s) = ''str''"
| "type_name (JArr xs) = ''list''"
| "type_name (JObj kvs) = ''dict''"

text \<open>\<^verbatim>\<open>isinstance(v, dict)\<close>, \<^verbatim>\<open>isinstance(v, list)\<close>\<close>

fun is_dict :: "json \<Rightarrow> bool" where
  "is_dict (JObj kvs) = True"
| "is_dict v = False"

fun is_list :: "json \<Rightarrow> bool" where
  "is_list (JArr xs) = True"
| "is_list v = False"

text \<open>The truth value of a value, as \<^verbatim>\<open>or\<close> and \<^verbatim>\<open>any\<close> take it.\<close>

fun truthy :: "json \<Rightarrow> bool" where
  "truthy JNull = False"
| "truthy (JBool b) = b"
| "truthy (JInt i) = (i \<noteq> 0)"
| "truthy (JFloat t) = (t \<noteq> ''0.0'' \<and> t \<noteq> ''-0.0'')"
| "truthy (JStr s) = (s \<noteq> [])"
| "truthy (JArr xs) = (xs \<noteq> [])"
| "truthy (JObj kvs) = (kvs \<noteq> [])"

text \<open>\<^verbatim>\<open>repr(v)\<close> and \<^verbatim>\<open>str(v)\<close>: they differ on strings only.\<close>

fun py_repr :: "json \<Rightarrow> string"
and repr_elems :: "json list \<Rightarrow> string list"
and repr_items :: "(string \<times> json) list \<Rightarrow> string list" where
  "py_repr JNull = ''None''"
| "py_repr (JBool b) = (if b then ''True'' else ''False'')"
| "py_repr (JInt i) = str_int i"
| "py_repr (JFloat t) = t"
| "py_repr (JStr s) = repr_str s"
| "py_repr (JArr xs) = ''['' @ join_comma (repr_elems xs) @ '']''"
| "py_repr (JObj kvs) = ''{'' @ join_comma (repr_items kvs) @ ''}''"
| "repr_elems [] = []"
| "repr_elems (x # xs) = py_repr x # repr_elems xs"
| "repr_items [] = []"
| "repr_items ((k, v) # kvs) = (repr_str k @ '': '' @ py_repr v) # repr_items kvs"

definition py_str :: "json \<Rightarrow> string" where
  "py_str v = (case v of JStr s \<Rightarrow> s | _ \<Rightarrow> py_repr v)"

text \<open>
  \<^verbatim>\<open>key in v\<close> for a string \<open>key\<close>: a key of a dict, an element of a list, a substring
  of a string; a \<^verbatim>\<open>TypeError\<close> on anything else.
\<close>

fun py_in :: "string \<Rightarrow> json \<Rightarrow> exn + bool" where
  "py_in key (JObj kvs) = Inr (key \<in> set (map fst kvs))"
| "py_in key (JArr xs) = Inr (JStr key \<in> set xs)"
| "py_in key (JStr s) = Inr (str_in key s)"
| "py_in key v = Inl (TypeError (''argument of type '' @ repr_str (type_name v) @ '' is not iterable''))"

text \<open>\<^verbatim>\<open>v.get(key, dflt)\<close>; \<^verbatim>\<open>v.get(key)\<close> is \<open>py_get v key JNull\<close>.\<close>

fun py_get :: "json \<Rightarrow> string \<Rightarrow> json \<Rightarrow> exn + json" where
  "py_get (JObj kvs) key dflt = Inr (case map_of kvs key of Some x \<Rightarrow> x | None \<Rightarrow> dflt)"
| "py_get v key dflt =
     Inl (AttributeError (repr_str (type_name v) @ '' object has no attribute '' @ repr_str ''get''))"

text \<open>\<^verbatim>\<open>v[key]\<close> for a string \<open>key\<close>\<close>

fun py_getitem :: "json \<Rightarrow> string \<Rightarrow> exn + json" where
  "py_getitem (JObj kvs) key =
     (case map_of kvs key of Some x \<Rightarrow> Inr x | None \<Rightarrow> Inl (KeyError (repr_str key)))"
| "py_getitem (JArr xs) key = Inl (TypeError ''list indices must be integers or slices, not str'')"
| "py_getitem (JStr s) key = Inl (TypeError (''string indices must be integers, not '' @ repr_str ''str''))"
| "py_getitem v key = Inl (TypeError (repr_str (type_name v) @ '' object is not subscriptable''))"

text \<open>\<^verbatim>\<open>v.lower()\<close>: strings only.\<close>

fun py_lower :: "json \<Rightarrow> exn + string" where
  "py_lower (JStr s) = Inr (lower s)"
| "py_lower v =
     Inl (AttributeError (repr_str (type_name v) @ '' object has no attribute '' @ repr_str ''lower''))"

text \<open>\<^verbatim>\<open>len(v)\<close>\<close>

fun py_len :: "json \<Rightarrow> exn + nat" where
  "py_len (JObj kvs) = Inr (length kvs)"
| "py_len (JArr xs) = Inr (length xs)"
| "py_len (JStr s) = Inr (length s)"
| "py_len v = Inl (TypeError (''object of type '' @ repr_str (type_name v) @ '' has no len()''))"

text \<open>
  \<^verbatim>\<open>iter(v)\<close>, as a \<^verbatim>\<open>for\<close> clause walks it: the keys of a dict, the elements of a list,
  the characters of a string.
\<close>

fun py_iter :: "json \<Rightarrow> exn + json list" where
  "py_iter (JObj kvs) = Inr (map (\<lambda>kv. JStr (fst kv)) kvs)"
| "py_iter (JArr xs) = Inr xs"
| "py_iter (JStr s) = Inr (map (\<lambda>c. JStr [c]) s)"
| "py_iter v = Inl (TypeError (repr_str (type_name v) @ '' object is not iterable''))"

subsection \<open>Expressions that can raise\<close>

definition ebind :: "exn + 'a \<Rightarrow> ('a \<Rightarrow> exn + 'b) \<Rightarrow> exn + 'b" where
  "ebind m f = (case m of Inl e \<Rightarrow> Inl e | Inr a \<Rightarrow> f a)"

text \<open>\<^verbatim>\<open>a or b\<close> on conditions: \<open>b\<close> is evaluated only when \<open>a\<close> is false.\<close>

definition cond_or :: "exn + bool \<Rightarrow> exn + bool \<Rightarrow> exn + bool" where
  "cond_or a b = ebind a (\<lambda>x. if x then Inr True else b)"

text \<open>\<^verbatim>\<open>a and b\<close> on conditions.\<close>

definition cond_and :: "exn + bool \<Rightarrow> exn + bool \<Rightarrow> exn + bool" where
  "cond_and a b = ebind a (\<lambda>x. if x then b else Inr False)"

text \<open>\<^verbatim>\<open>a or b\<close> on values: \<open>a\<close> when it is true, else \<open>b\<close>.\<close>

definition value_or :: "exn + json \<Rightarrow> exn + json \<Rightarrow> exn + json" where
  "value_or a b = ebind a (\<lambda>x. if truthy x then Inr x else b)"

text \<open>\<^verbatim>\<open>any(c(x) for x in xs)\<close>: stops at the first true condition, or at the first one that raises.\<close>

fun py_any :: "('a \<Rightarrow> exn + bool) \<Rightarrow> 'a list \<Rightarrow> exn + bool" where
  "py_any c [] = Inr False"
| "py_any c (x # xs) = ebind (c x) (\<lambda>b. if b then Inr True else py_any c xs)"

text \<open>\<^verbatim>\<open>d.keys()\<close>: dicts only.\<close>

fun py_keys :: "json \<Rightarrow> exn + json list" where
  "py_keys (JObj kvs) = Inr (map (\<lambda>kv. JStr (fst kv)) kvs)"
| "py_keys v =
     Inl (AttributeError (repr_str (type_name v) @ '' object has no attribute '' @ repr_str ''keys''))"

text \<open>\<^verbatim>\<open>d.pop(key)\<close> and \<^verbatim>\<open>d[key] = v\<close> on the items of a dict literal of a script.\<close>

definition dict_pop :: "string \<Rightarrow> (string \<times> json) list \<Rightarrow> (string \<times> json) list" where
  "dict_pop key kvs = filter (\<lambda>kv. fst kv \<noteq> key) kvs"

fun dict_set :: "string \<Rightarrow> json \<Rightarrow> (string \<times> json) list \<Rightarrow> (string \<times> json) list" where
  "dict_set key v [] = [(key, v)]"
| "dict_set key v (kv # kvs) = (if fst kv = key then (key, v) # kvs else kv # dict_set key v kvs)"

section \<open>HTTP calls and the run of a script\<close>

datatype http_method = GET | POST

text \<open>What a script hands to \<^verbatim>\<open>requests.get\<close> or \<^verbatim>\<open>requests.post\<close>; the timeout is in seconds.\<close>

record request =
  http_method :: http_method
  url :: string
  headers :: "(string \<times> string) list"
  params :: "(string \<times> string) list"
  json_payload :: "json option"
  timeout :: nat

text \<open>
  A response: its status code, the reason phrase and final URL (they appear in the text
  of \<^verbatim>\<open>raise_for_status()\<close>), and what \<^verbatim>\<open>response.json()\<close> gives: the decoded value,
  or the message of the decoding error.
\<close>

record response =
  status_code :: int
  reason :: string
  final_url :: string
  body :: "string + json"

text \<open>A call either returns a response or fails in transport (connection error, timeout)
  with the text of the error.\<close>

datatype reply = Response response | TransportError string

text \<open>The backend, with a state of its own that the scripts never see.\<close>

type_synonym 'w backend = "request \<Rightarrow> 'w \<Rightarrow> reply \<times> 'w"

text \<open>The state of a run: the outside world and the calls issued so far, in order, each
  with its reply.\<close>

record 'w run =
  world :: 'w
  log :: "(request \<times> reply) list"

definition start :: "'w \<Rightarrow> 'w run" where
  "start w = \<lparr>world = w, log = []\<rparr>"

text \<open>A piece of a script: it runs from a state and ends with an exception or a value.\<close>

type_synonym ('w, 'a) prog = "'w run \<Rightarrow> (exn + 'a) \<times> 'w run"

definition return :: "'a \<Rightarrow> ('w, 'a) prog" where
  "return a = (\<lambda>s. (Inr a, s))"

definition lift :: "exn + 'a \<Rightarrow> ('w, 'a) prog" where
  "lift e = (\<lambda>s. (e, s))"

definition bind :: "('w, 'a) prog \<Rightarrow> ('a \<Rightarrow> ('w, 'b) prog) \<Rightarrow> ('w, 'b) prog" where
  "bind m f = (\<lambda>s. case m s of (Inl x, s') \<Rightarrow> (Inl x, s') | (Inr a, s') \<Rightarrow> f a s')"

text \<open>Two statements, one after the other.\<close>

definition seq :: "('w, unit) prog \<Rightarrow> ('w, 'b) prog \<Rightarrow> ('w, 'b) prog" where
  "seq m n = bind m (\<lambda>u. n)"

text \<open>
  \<^verbatim>\<open>try: blk except K as e: raise handler(e)\<close>. Every handler of the corpus ends by
  raising (\<^verbatim>\<open>assert False, msg\<close>, \<^verbatim>\<open>pytest.fail(msg)\<close>, \<^verbatim>\<open>raise AssertionError(msg)\<close>).
\<close>

definition try_except :: "(exn \<Rightarrow> bool) \<Rightarrow> (exn \<Rightarrow> exn) \<Rightarrow> ('w, 'a) prog \<Rightarrow> ('w, 'a) prog" where
  "try_except catches handler blk =
     (\<lambda>s. case blk s of
        (Inl x, s') \<Rightarrow> (Inl (if catches x then handler x else x), s')
      | (Inr a, s') \<Rightarrow> (Inr a, s'))"

text \<open>\<^verbatim>\<open>assert cond, msg\<close>: the condition itself may raise.\<close>

definition py_assert :: "exn + bool \<Rightarrow> string \<Rightarrow> ('w, unit) prog" where
  "py_assert cond msg = lift (ebind cond (\<lambda>b. if b then Inr () else Inl (AssertionError msg)))"

text \<open>\<^verbatim>\<open>for x in xs: body(x)\<close>\<close>

primrec for_each :: "'a list \<Rightarrow> ('a \<Rightarrow> ('w, unit) prog) \<Rightarrow> ('w, unit) prog" where
  "for_each [] f = return ()"
| "for_each (x # xs) f = seq (f x) (for_each xs f)"

text \<open>
  One HTTP call: it is logged with its reply; a transport failure is raised as a
  \<^verbatim>\<open>RequestException\<close> carrying the error's text. Every call of a script reaches the
  backend: what the \<^verbatim>\<open>requests\<close> library refuses to send (a header value with a line
  break, which the token of \<^verbatim>\<open>TC006\<close> could be) is outside this model.
\<close>

definition send :: "'w backend \<Rightarrow> request \<Rightarrow> ('w, response) prog" where
  "send srv q =
     (\<lambda>s. case srv q (world s) of
        (rep, w') \<Rightarrow>
          (case rep of Response r \<Rightarrow> Inr r | TransportError t \<Rightarrow> Inl (RequestException t),
           \<lparr>world = w', log = log s @ [(q, rep)]\<rparr>))"

text \<open>\<^verbatim>\<open>requests.post(url, json=payload, headers=headers, timeout=t)\<close>\<close>

definition requests_post ::
  "'w backend \<Rightarrow> string \<Rightarrow> (string \<times> json) list \<Rightarrow> (string \<times> string) list \<Rightarrow> nat \<Rightarrow> ('w, response) prog" where
  "requests_post srv u payload hs t =
     send srv \<lparr>http_method = POST, url = u, headers = hs, params = [],
               json_payload = Some (JObj payload), timeout = t\<rparr>"

text \<open>\<^verbatim>\<open>requests.get(url, headers=headers, params=params, timeout=t)\<close>\<close>

definition requests_get ::
  "'w backend \<Rightarrow> string \<Rightarrow> (string \<times> string) list \<Rightarrow> (string \<times> string) list \<Rightarrow> nat \<Rightarrow> ('w, response) prog" where
  "requests_get srv u hs ps t =
     send srv \<lparr>http_method = GET, url = u, headers = hs, params = ps,
               json_payload = None, timeout = t\<rparr>"

text \<open>\<^verbatim>\<open>response.json()\<close>\<close>

definition response_json :: "response \<Rightarrow> ('w, json) prog" where
  "response_json r = lift (case body r of Inl t \<Rightarrow> Inl (JSONDecodeError t) | Inr v \<Rightarrow> Inr v)"

text \<open>\<^verbatim>\<open>response.raise_for_status()\<close>\<close>

definition raise_for_status :: "response \<Rightarrow> ('w, unit) prog" where
  "raise_for_status r =
     (if 400 \<le> status_code r \<and> status_code r < 500
        then lift (Inl (HTTPError (str_int (status_code r) @ '' Client Error: '' @ reason r
                                   @ '' for url: '' @ final_url r)))
      else if 500 \<le> status_code r \<and> status_code r < 600
        then lift (Inl (HTTPError (str_int (status_code r) @ '' Server Error: '' @ reason r
                                   @ '' for url: '' @ final_url r)))
      else return ())"

definition BASE_URL :: string where
  "BASE_URL = ''http://localhost:3001''"

definition TIMEOUT :: nat where
  "TIMEOUT = 30"

text \<open>A single quote, for the messages that print one.\<close>

definition quote :: string where
  "quote = [CHR 0x27]"

section \<open>The scripts\<close>

subsection \<open>\<^verbatim>\<open>TC001_user_login_functionality.py\<close>\<close>

definition LOGIN_ENDPOINT :: string where
  "LOGIN_ENDPOINT = ''/api/v1/auth/login''"

definition login_headers :: "(string \<times> string) list" where
  "login_headers = [(''Content-Type'', ''application/json'')]"

definition login_valid_payload :: "(string \<times> json) list" where
  "login_valid_payload =
     [(''email'', JStr ''validuser@example.com''), (''password'', JStr ''ValidPassword123'')]"

definition login_invalid_payload :: "(string \<times> json) list" where
  "login_invalid_payload =
     [(''email'', JStr ''invaliduser@example.com''), (''password'', JStr ''WrongPassword'')]"

text \<open>Lines 25-33: successful login with valid credentials.\<close>

definition login_valid_check :: "'w backend \<Rightarrow> ('w, unit) prog" where
  "login_valid_check srv =
     try_except is_RequestException
       (\<lambda>e. AssertionError (''Request exception on valid login test: '' @ exn_str e))
       (bind (requests_post srv (BASE_URL @ LOGIN_ENDPOINT) login_valid_payload login_headers TIMEOUT)
          (\<lambda>response_valid.
        seq (py_assert (Inr (status_code response_valid = 200))
               (''Expected 200, got '' @ str_int (status_code response_valid)))
       (bind (response_json response_valid)
          (\<lambda>json_response.
        py_assert (cond_or (py_in ''token'' json_response) (py_in ''accessToken'' json_response))
          ''Missing token in successful login response''))))"

text \<open>Lines 35-43: login failure with invalid credentials.\<close>

definition login_invalid_check :: "'w backend \<Rightarrow> ('w, unit) prog" where
  "login_invalid_check srv =
     try_except is_RequestException
       (\<lambda>e. AssertionError (''Request exception on invalid login test: '' @ exn_str e))
       (bind (requests_post srv (BASE_URL @ LOGIN_ENDPOINT) login_invalid_payload login_headers TIMEOUT)
          (\<lambda>response_invalid.
        seq (py_assert (Inr (status_code response_invalid \<in> {400, 401}))
               (''Expected 400 or 401, got '' @ str_int (status_code response_invalid)))
       (bind (response_json response_invalid)
          (\<lambda>json_response_invalid.
        py_assert (cond_or (py_in ''error'' json_response_invalid)
                           (py_in ''message'' json_response_invalid))
          ''Error message expected in invalid login response''))))"

definition test_user_login_functionality :: "'w backend \<Rightarrow> ('w, unit) prog" where
  "test_user_login_functionality srv = seq (login_valid_check srv) (login_invalid_check srv)"

subsection \<open>\<^verbatim>\<open>TC002_user_registration_process.py\<close>\<close>

definition REGISTER_ENDPOINT :: string where
  "REGISTER_ENDPOINT = ''/api/v1/auth/register''"

definition register_headers :: "(string \<times> string) list" where
  "register_headers = [(''Content-Type'', ''application/json'')]"

text \<open>Line 13; \<open>uuid_hex\<close> is what \<^verbatim>\<open>uuid.uuid4().hex\<close> returned.\<close>

definition unique_email :: "string \<Rightarrow> string" where
  "unique_email uuid_hex = ''user_'' @ uuid_hex @ ''@example.com''"

definition register_valid_payload :: "string \<Rightarrow> (string \<times> json) list" where
  "register_valid_payload uuid_hex =
     [(''name'', JStr ''Test User''),
      (''email'', JStr (unique_email uuid_hex)),
      (''password'', JStr ''StrongP@ssw0rd!''),
      (''organizationName'', JStr ''Test Organization'')]"

text \<open>Lines 21-26: successful registration with valid data.\<close>

definition register_valid_check :: "'w backend \<Rightarrow> string \<Rightarrow> ('w, unit) prog" where
  "register_valid_check srv uuid_hex =
     bind (requests_post srv (BASE_URL @ REGISTER_ENDPOINT) (register_valid_payload uuid_hex)
             register_headers TIMEOUT)
       (\<lambda>response.
     seq (py_assert (Inr (status_code response = 201 \<or> status_code response = 200))
            (''Expected 201 or 200, got '' @ str_int (status_code response)))
    (bind (response_json response)
       (\<lambda>json_data.
     py_assert (cond_and (py_in ''email'' json_data)
                  (ebind (py_getitem json_data ''email'')
                     (\<lambda>v. Inr (v = JStr (unique_email uuid_hex)))))
       (''Response should contain registered user'' @ quote @ ''s email''))))"

text \<open>Lines 30-37: the body of the loop over the four required fields.\<close>

definition missing_field_check :: "'w backend \<Rightarrow> string \<Rightarrow> string \<Rightarrow> ('w, unit) prog" where
  "missing_field_check srv uuid_hex missing_field =
     bind (requests_post srv (BASE_URL @ REGISTER_ENDPOINT)
             (dict_pop missing_field (register_valid_payload uuid_hex)) register_headers TIMEOUT)
       (\<lambda>resp.
     seq (py_assert (Inr (status_code resp = 400 \<or> status_code resp = 422))
            (''Missing field '' @ quote @ missing_field @ quote
             @ '' should fail with 400 or 422, got '' @ str_int (status_code resp)))
    (bind (response_json resp)
       (\<lambda>err_json.
     py_assert (ebind (py_iter err_json)
                  (py_any (\<lambda>key. ebind (py_get err_json ''message'' (JStr []))
                                    (\<lambda>m. Inr (str_in missing_field (lower (py_str m)))))))
       (''Error message should mention missing '' @ missing_field))))"

text \<open>Lines 39-45: invalid email format.\<close>

definition invalid_email_check :: "'w backend \<Rightarrow> string \<Rightarrow> ('w, unit) prog" where
  "invalid_email_check srv uuid_hex =
     bind (requests_post srv (BASE_URL @ REGISTER_ENDPOINT)
             (dict_set ''email'' (JStr ''invalid-email-format'') (register_valid_payload uuid_hex))
             register_headers TIMEOUT)
       (\<lambda>resp.
     seq (py_assert (Inr (status_code resp = 400 \<or> status_code resp = 422))
            (''Invalid email should fail with 400 or 422, got '' @ str_int (status_code resp)))
    (bind (response_json resp)
       (\<lambda>err_json.
     py_assert (ebind (py_get err_json ''message'' (JStr []))
                  (\<lambda>m. Inr (str_in ''email'' (lower (py_str m)))))
       ''Error should indicate invalid email format'')))"

text \<open>Lines 47-53: short password.\<close>

definition short_password_check :: "'w backend \<Rightarrow> string \<Rightarrow> ('w, unit) prog" where
  "short_password_check srv uuid_hex =
     bind (requests_post srv (BASE_URL @ REGISTER_ENDPOINT)
             (dict_set ''password'' (JStr ''123'') (register_valid_payload uuid_hex))
             register_headers TIMEOUT)
       (\<lambda>resp.
     seq (py_assert (Inr (status_code resp = 400 \<or> status_code resp = 422))
            (''Short password should fail with 400 or 422, got '' @ str_int (status_code resp)))
    (bind (response_json resp)
       (\<lambda>err_json.
     py_assert (ebind (py_get err_json ''message'' (JStr []))
                  (\<lambda>m. Inr (str_in ''password'' (lower (py_str m)))))
       ''Error should indicate password validation failure'')))"

definition required_fields :: "string list" where
  "required_fields = [''name'', ''email'', ''password'', ''organizationName'']"

definition test_user_registration_process :: "'w backend \<Rightarrow> string \<Rightarrow> ('w, unit) prog" where
  "test_user_registration_process srv uuid_hex =
     seq (register_valid_check srv uuid_hex)
    (seq (for_each required_fields (missing_field_check srv uuid_hex))
    (seq (invalid_email_check srv uuid_hex)
         (short_password_check srv uuid_hex)))"

subsection \<open>\<^verbatim>\<open>TC003_utm_link_creation_and_validation.py\<close>\<close>

definition UTM_CREATE_URL :: string where
  "UTM_CREATE_URL = BASE_URL @ ''/api/v1/utm/create''"

definition utm_headers :: "(string \<times> string) list" where
  "utm_headers = [(''Content-Type'', ''application/json'')]"

definition valid_payload_minimal :: "(string \<times> json) list" where
  "valid_payload_minimal = [(''originalUrl'', JStr ''https://www.example.com'')]"

definition valid_payload_full :: "(string \<times> json) list" where
  "valid_payload_full =
     [(''originalUrl'', JStr ''https://www.example.com/page''),
      (''utmSource'', JStr ''newsletter''),
      (''utmMedium'', JStr ''email''),
      (''utmCampaign'', JStr ''launch''),
      (''utmTerm'', JStr ''testterm''),
      (''utmContent'', JStr ''contentA'')]"

text \<open>Line 21 and line 36: \<^verbatim>\<open>data.get("utmLink") or data.get("shortUrl") or data.get("url")\<close>\<close>

definition created_link :: "json \<Rightarrow> exn + json" where
  "created_link data =
     value_or (py_get data ''utmLink'' JNull)
       (value_or (py_get data ''shortUrl'' JNull) (py_get data ''url'' JNull))"

text \<open>Lines 12-22: test case 1, the minimal payload.\<close>

definition utm_minimal_check :: "'w backend \<Rightarrow> ('w, unit) prog" where
  "utm_minimal_check srv =
     bind (requests_post srv UTM_CREATE_URL valid_payload_minimal utm_headers TIMEOUT)
       (\<lambda>response.
     seq (py_assert (Inr (status_code response = 201 \<or> status_code response = 200))
            (''Expected 200 or 201, got '' @ str_int (status_code response)))
    (bind (response_json response)
       (\<lambda>data.
     seq (py_assert (cond_or (py_in ''utmLink'' data)
                      (cond_or (py_in ''shortUrl'' data) (py_in ''url'' data)))
            ''Response missing UTM link creation result'')
    (bind (lift (created_link data))
       (\<lambda>created_url.
     py_assert (py_in ''https://www.example.com'' created_url)
       ''Created link does not contain original URL'')))))"

definition utm_params :: "string list" where
  "utm_params =
     [''utm_source=newsletter'', ''utm_medium=email'', ''utm_campaign=launch'',
      ''utm_term=testterm'', ''utm_content=contentA'']"

text \<open>Lines 24-40: test case 2, all UTM parameters.\<close>

definition utm_full_check :: "'w backend \<Rightarrow> ('w, unit) prog" where
  "utm_full_check srv =
     bind (requests_post srv UTM_CREATE_URL valid_payload_full utm_headers TIMEOUT)
       (\<lambda>response.
     seq (py_assert (Inr (status_code response = 201 \<or> status_code response = 200))
            (''Expected 200 or 201, got '' @ str_int (status_code response)))
    (bind (response_json response)
       (\<lambda>data.
     bind (lift (created_link data))
       (\<lambda>created_url_full.
     seq (py_assert (Inr (created_url_full \<noteq> JNull)) ''Response missing UTM link'')
         (for_each utm_params
            (\<lambda>param. py_assert (ebind (py_lower created_url_full) (\<lambda>l. Inr (str_in param l)))
                        (''UTM parameter '' @ param @ '' missing in created URL'')))))))"

definition error_keys :: "string list" where
  "error_keys = [''error'', ''message'', ''detail'', ''errors'']"

text \<open>Lines 42-51: test case 3, invalid URL format.\<close>

definition utm_invalid_url_check :: "'w backend \<Rightarrow> ('w, unit) prog" where
  "utm_invalid_url_check srv =
     bind (requests_post srv UTM_CREATE_URL [(''originalUrl'', JStr ''htp://bad-url'')]
             utm_headers TIMEOUT)
       (\<lambda>response.
     seq (py_assert (Inr (status_code response \<ge> 400))
            (''Expected client error status for invalid URL, got ''
             @ str_int (status_code response)))
    (bind (response_json response)
       (\<lambda>data.
     py_assert (py_any (\<lambda>key. py_in key data) error_keys)
       ''No error message returned for invalid URL'')))"

text \<open>Lines 53-60: test case 4, missing \<^verbatim>\<open>originalUrl\<close>.\<close>

definition utm_missing_url_check :: "'w backend \<Rightarrow> ('w, unit) prog" where
  "utm_missing_url_check srv =
     bind (requests_post srv UTM_CREATE_URL [(''utmSource'', JStr ''newsletter'')]
             utm_headers TIMEOUT)
       (\<lambda>response.
     seq (py_assert (Inr (status_code response \<ge> 400))
            (''Expected client error status for missing originalUrl, got ''
             @ str_int (status_code response)))
    (bind (response_json response)
       (\<lambda>data.
     py_assert (py_any (\<lambda>key. py_in key data) error_keys)
       ''No error message returned for missing originalUrl'')))"

definition test_utm_link_creation_and_validation :: "'w backend \<Rightarrow> ('w, unit) prog" where
  "test_utm_link_creation_and_validation srv =
     seq (utm_minimal_check srv)
    (seq (utm_full_check srv)
    (seq (utm_invalid_url_check srv)
         (utm_missing_url_check srv)))"

subsection \<open>\<^verbatim>\<open>TC004_google_ads_oauth_flow_initiation.py\<close>\<close>

definition oauth_headers :: "(string \<times> string) list" where
  "oauth_headers = [(''Content-Type'', ''application/json'')]"

definition oauth_url :: string where
  "oauth_url = BASE_URL @ ''/api/v1/google-ads/auth''"

text \<open>Lines 13-25: valid \<^verbatim>\<open>redirect_uri\<close>. \<^verbatim>\<open>pytest.fail\<close> raises \<^verbatim>\<open>Failed\<close>.\<close>

definition oauth_valid_check :: "'w backend \<Rightarrow> ('w, unit) prog" where
  "oauth_valid_check srv =
     bind (try_except is_RequestException
             (\<lambda>e. Failed (''Request failed with exception: '' @ exn_str e))
             (requests_post srv oauth_url
                [(''redirect_uri'', JStr ''https://example.com/oauth/callback'')]
                oauth_headers TIMEOUT))
       (\<lambda>response.
     seq (py_assert (Inr (status_code response = 200 \<or> status_code response = 201))
            (''Expected 200 or 201 but got '' @ str_int (status_code response)))
    (bind (response_json response)
       (\<lambda>json_resp.
     seq (py_assert (Inr (is_dict json_resp)) ''Response should be a JSON object'')
         (py_assert (cond_or (py_in ''auth_url'' json_resp)
                      (cond_or (py_in ''url'' json_resp)
                         (ebind (py_keys json_resp) (py_any (\<lambda>k. Inr (truthy k))))))
            ''Response should contain an OAuth URL or token''))))"

text \<open>Lines 28-37: missing \<^verbatim>\<open>redirect_uri\<close>.\<close>

definition oauth_missing_check :: "'w backend \<Rightarrow> ('w, unit) prog" where
  "oauth_missing_check srv =
     bind (try_except is_RequestException
             (\<lambda>e. Failed (''Request failed with exception on missing param test: '' @ exn_str e))
             (requests_post srv oauth_url [] oauth_headers TIMEOUT))
       (\<lambda>response_missing.
     seq (py_assert (Inr (status_code response_missing \<in> {400, 422}))
            (''Expected 400 or 422 error for missing redirect_uri, got ''
             @ str_int (status_code response_missing)))
    (bind (response_json response_missing)
       (\<lambda>json_missing.
     py_assert (cond_or (py_in ''error'' json_missing) (py_in ''message'' json_missing))
       ''Error response should contain error or message field'')))"

text \<open>Lines 39-50: invalid \<^verbatim>\<open>redirect_uri\<close>.\<close>

definition oauth_invalid_check :: "'w backend \<Rightarrow> ('w, unit) prog" where
  "oauth_invalid_check srv =
     bind (try_except is_RequestException
             (\<lambda>e. Failed (''Request failed with exception on invalid param test: '' @ exn_str e))
             (requests_post srv oauth_url [(''redirect_uri'', JStr ''not-a-valid-url'')]
                oauth_headers TIMEOUT))
       (\<lambda>response_invalid.
     seq (py_assert (Inr (status_code response_invalid \<in> {400, 422}))
            (''Expected 400 or 422 error for invalid redirect_uri, got ''
             @ str_int (status_code response_invalid)))
    (bind (response_json response_invalid)
       (\<lambda>json_invalid.
     py_assert (cond_or (py_in ''error'' json_invalid) (py_in ''message'' json_invalid))
       ''Error response should contain error or message field'')))"

definition test_google_ads_oauth_flow_initiation :: "'w backend \<Rightarrow> ('w, unit) prog" where
  "test_google_ads_oauth_flow_initiation srv =
     seq (oauth_valid_check srv)
    (seq (oauth_missing_check srv)
         (oauth_invalid_check srv))"

subsection \<open>\<^verbatim>\<open>TC005_fetch_google_ads_campaigns.py\<close>\<close>

definition campaigns_endpoint :: string where
  "campaigns_endpoint = BASE_URL @ ''/api/v1/google-ads/campaigns''"

definition campaigns_headers :: "(string \<times> string) list" where
  "campaigns_headers = [(''Accept'', ''application/json'')]"

definition valid_customer_id :: string where
  "valid_customer_id = ''1234567890''"

definition invalid_customer_id :: string where
  "invalid_customer_id = ''invalid_id_!@#''"

text \<open>Lines 22-37: success case with a valid \<^verbatim>\<open>customer_id\<close>. The handler is
  \<^verbatim>\<open>except Exception\<close>: it also rewraps the assertion failures of the block.\<close>

definition campaigns_valid_check :: "'w backend \<Rightarrow> ('w, unit) prog" where
  "campaigns_valid_check srv =
     try_except is_Exception
       (\<lambda>e. AssertionError (''Exception during valid customer_id request: '' @ exn_str e))
       (bind (requests_get srv campaigns_endpoint campaigns_headers
                [(''customer_id'', valid_customer_id)] TIMEOUT)
          (\<lambda>response.
        seq (py_assert (Inr (status_code response = 200))
               (''Expected status 200, got '' @ str_int (status_code response)))
       (bind (response_json response)
          (\<lambda>data.
        seq (py_assert (Inr (is_dict data)) ''Response JSON should be an object'')
       (seq (py_assert (py_in ''campaigns'' data)
               (''Response JSON should contain '' @ quote @ ''campaigns'' @ quote @ '' key''))
            (py_assert (ebind (py_getitem data ''campaigns'') (\<lambda>c. Inr (is_list c)))
               (quote @ ''campaigns'' @ quote @ '' should be a list'')))))))"

text \<open>Lines 39-51: missing \<^verbatim>\<open>customer_id\<close>.\<close>

definition campaigns_missing_check :: "'w backend \<Rightarrow> ('w, unit) prog" where
  "campaigns_missing_check srv =
     try_except is_Exception
       (\<lambda>e. AssertionError (''Exception during missing customer_id request: '' @ exn_str e))
       (bind (requests_get srv campaigns_endpoint campaigns_headers [] TIMEOUT)
          (\<lambda>response.
        seq (py_assert (Inr (status_code response \<in> {400, 422}))
               (''Expected status 400 or 422 for missing customer_id, got ''
                @ str_int (status_code response)))
       (bind (response_json response)
          (\<lambda>error_data.
        py_assert (cond_or (py_in ''error'' error_data) (py_in ''message'' error_data))
          ''Error response should contain error description''))))"

text \<open>Lines 53-67: invalid \<^verbatim>\<open>customer_id\<close>.\<close>

definition campaigns_invalid_check :: "'w backend \<Rightarrow> ('w, unit) prog" where
  "campaigns_invalid_check srv =
     try_except is_Exception
       (\<lambda>e. AssertionError (''Exception during invalid customer_id request: '' @ exn_str e))
       (bind (requests_get srv campaigns_endpoint campaigns_headers
                [(''customer_id'', invalid_customer_id)] TIMEOUT)
          (\<lambda>response.
        seq (py_assert (Inr (status_code response \<in> {400, 404}))
               (''Expected status 400 or 404 for invalid customer_id, got ''
                @ str_int (status_code response)))
       (bind (response_json response)
          (\<lambda>error_data.
        py_assert (cond_or (py_in ''error'' error_data) (py_in ''message'' error_data))
          ''Error response should contain error description''))))"

definition test_fetch_google_ads_campaigns :: "'w backend \<Rightarrow> ('w, unit) prog" where
  "test_fetch_google_ads_campaigns srv =
     seq (campaigns_valid_check srv)
    (seq (campaigns_missing_check srv)
         (campaigns_invalid_check srv))"

subsection \<open>\<^verbatim>\<open>TC006_dashboard_metrics_retrieval.py\<close>\<close>

text \<open>Lines 7-18: log in and return the token.\<close>

definition get_auth_token :: "'w backend \<Rightarrow> string \<Rightarrow> string \<Rightarrow> ('w, json) prog" where
  "get_auth_token srv email password =
     try_except is_RequestException
       (\<lambda>e. AssertionError (''Login request failed: '' @ exn_str e))
       (bind (requests_post srv (BASE_URL @ ''/api/v1/auth/login'')
                [(''email'', JStr email), (''password'', JStr password)] [] TIMEOUT)
          (\<lambda>response.
        seq (raise_for_status response)
       (bind (response_json response)
          (\<lambda>data.
        bind (lift (value_or (py_get data ''accessToken'' JNull) (py_get data ''token'' JNull)))
          (\<lambda>token.
        seq (py_assert (Inr (token \<noteq> JNull)) ''No token found in login response'')
            (return token))))))"

definition dashboard_url :: string where
  "dashboard_url = BASE_URL @ ''/api/v1/metrics/dashboard''"

text \<open>Lines 27-30: the f-string prints the token with \<^verbatim>\<open>str\<close>.\<close>

definition dashboard_headers :: "json \<Rightarrow> (string \<times> string) list" where
  "dashboard_headers token =
     [(''Accept'', ''application/json''), (''Authorization'', ''Bearer '' @ py_str token)]"

text \<open>Lines 33-46: valid date range.\<close>

definition dashboard_valid_check :: "'w backend \<Rightarrow> json \<Rightarrow> ('w, unit) prog" where
  "dashboard_valid_check srv token =
     try_except is_RequestException
       (\<lambda>e. AssertionError (''Request failed for valid dates: '' @ exn_str e))
       (bind (requests_get srv dashboard_url (dashboard_headers token)
                [(''startDate'', ''2025-01-01''), (''endDate'', ''2025-01-31'')] TIMEOUT)
          (\<lambda>response.
        seq (raise_for_status response)
       (bind (response_json response)
          (\<lambda>data.
        seq (py_assert (Inr (is_dict data)) ''Response is not a JSON object'')
            (py_assert (ebind (py_len data) (\<lambda>n. Inr (n > 0))) ''Response data is empty'')))))"

text \<open>Lines 48-57: no dates.\<close>

definition dashboard_missing_check :: "'w backend \<Rightarrow> json \<Rightarrow> ('w, unit) prog" where
  "dashboard_missing_check srv token =
     try_except is_RequestException
       (\<lambda>e. AssertionError (''Request failed for missing dates: '' @ exn_str e))
       (bind (requests_get srv dashboard_url (dashboard_headers token) [] TIMEOUT)
          (\<lambda>response.
        if status_code response = 200
        then bind (response_json response)
               (\<lambda>data. py_assert (Inr (is_dict data))
                          ''Response is not a JSON object for missing dates'')
        else py_assert (Inr (status_code response \<in> {400, 422}))
               ''Expected client error status for missing dates''))"

text \<open>Lines 59-68: invalid start date.\<close>

definition dashboard_invalid_start_check :: "'w backend \<Rightarrow> json \<Rightarrow> ('w, unit) prog" where
  "dashboard_invalid_start_check srv token =
     try_except is_RequestException
       (\<lambda>e. AssertionError (''Request failed for invalid startDate: '' @ exn_str e))
       (bind (requests_get srv dashboard_url (dashboard_headers token)
                [(''startDate'', ''invalid-date''), (''endDate'', ''2025-01-31'')] TIMEOUT)
          (\<lambda>response.
        py_assert (Inr (status_code response \<in> {400, 422}))
          (''Expected client error for invalid startDate, got '' @ str_int (status_code response))))"

text \<open>Lines 70-78: invalid end date.\<close>

definition dashboard_invalid_end_check :: "'w backend \<Rightarrow> json \<Rightarrow> ('w, unit) prog" where
  "dashboard_invalid_end_check srv token =
     try_except is_RequestException
       (\<lambda>e. AssertionError (''Request failed for invalid endDate: '' @ exn_str e))
       (bind (requests_get srv dashboard_url (dashboard_headers token)
                [(''startDate'', ''2025-01-01''), (''endDate'', ''31-01-2025'')] TIMEOUT)
          (\<lambda>response.
        py_assert (Inr (status_code response \<in> {400, 422}))
          (''Expected client error for invalid endDate, got '' @ str_int (status_code response))))"

definition test_dashboard_metrics_retrieval :: "'w backend \<Rightarrow> ('w, unit) prog" where
  "test_dashboard_metrics_retrieval srv =
     bind (get_auth_token srv ''testuser@example.com'' ''testpassword'')
       (\<lambda>token.
     seq (dashboard_valid_check srv token)
    (seq (dashboard_missing_check srv token)
    (seq (dashboard_invalid_start_check srv token)
         (dashboard_invalid_end_check srv token))))"

subsection \<open>\<^verbatim>\<open>TC007_metrics_history_data_grouping.py\<close>\<close>

text \<open>
  Lines 4-44. \<open>start_date\<close> and \<open>end_date\<close> are the two texts the script formats from
  \<^verbatim>\<open>datetime.now()\<close>. The script has no \<^verbatim>\<open>TIMEOUT\<close> constant: the call passes
  \<^verbatim>\<open>timeout=10\<close>.
\<close>

definition grouping_url :: string where
  "grouping_url = ''http://localhost:3001/api/v1/metrics/history''"

definition grouping_headers :: "(string \<times> string) list" where
  "grouping_headers =
     [(''Content-Type'', ''application/json''), (''Authorization'', ''Bearer valid-test-token'')]"

definition grouping_params :: "string \<Rightarrow> string \<Rightarrow> (string \<times> string) list" where
  "grouping_params start_date end_date =
     [(''startDate'', start_date), (''endDate'', end_date), (''groupBy'', ''day'')]"

definition test_metrics_history_data_grouping ::
  "'w backend \<Rightarrow> string \<Rightarrow> string \<Rightarrow> ('w, unit) prog" where
  "test_metrics_history_data_grouping srv start_date end_date =
     try_except is_RequestException
       (\<lambda>e. AssertionError (''Request failed unexpectedly: '' @ exn_str e))
       (bind (requests_get srv grouping_url grouping_headers
                (grouping_params start_date end_date) 10)
          (\<lambda>response.
        seq (py_assert (Inr (status_code response \<in> set [200, 401]))
               (''Expected 200 or 401, got '' @ str_int (status_code response)))
            (if status_code response = 200
             then bind (response_json response)
                    (\<lambda>data.
                  seq (py_assert (Inr (is_dict data)) ''Response should be a JSON object'')
                 (seq (py_assert (py_in ''success'' data) ''Response should have success field'')
                 (seq (py_assert (py_in ''data'' data) ''Response should have data field'')
                      (py_assert (ebind (py_getitem data ''data'') (\<lambda>d. Inr (is_list d)))
                         ''Data should be an array of historical metrics''))))
             else if status_code response = 401
             then bind (response_json response)
                    (\<lambda>data.
                  seq (py_assert (py_in ''error'' data) ''Error response should have error field'')
                      (py_assert (ebind (py_getitem data ''error'')
                                    (\<lambda>err. ebind (py_getitem err ''code'')
                                    (\<lambda>code. Inr (code = JStr ''INVALID_TOKEN''))))
                         ''Should return INVALID_TOKEN error''))
             else return ())))"

subsection \<open>\<^verbatim>\<open>TC007_metrics_history_data_retrieval.py\<close>\<close>

definition history_endpoint :: string where
  "history_endpoint = BASE_URL @ ''/api/v1/metrics/history''"

definition history_headers :: "(string \<times> string) list" where
  "history_headers = [(''Content-Type'', ''application/json'')]"

definition valid_groupbys :: "string list" where
  "valid_groupbys = [''day'', ''week'', ''month'']"

definition invalid_groupby :: string where
  "invalid_groupby = ''year''"

text \<open>Lines 14-21: the body of the loop over the valid \<^verbatim>\<open>groupBy\<close> values.\<close>

definition history_valid_check :: "'w backend \<Rightarrow> string \<Rightarrow> ('w, unit) prog" where
  "history_valid_check srv groupby =
     try_except is_RequestException
       (\<lambda>e. AssertionError (''Request failed for groupBy='' @ groupby @ '': '' @ exn_str e))
       (bind (requests_get srv history_endpoint history_headers [(''groupBy'', groupby)] TIMEOUT)
          (\<lambda>response.
        seq (py_assert (Inr (status_code response = 200))
               (''Expected 200 OK for groupBy='' @ groupby @ '', got ''
                @ str_int (status_code response)))
       (bind (response_json response)
          (\<lambda>json_data.
        py_assert (Inr (is_dict json_data \<or> is_list json_data))
          (''Response for groupBy='' @ groupby @ '' should be dict or list'')))))"

text \<open>Lines 23-30: the invalid \<^verbatim>\<open>groupBy\<close> value.\<close>

definition history_invalid_check :: "'w backend \<Rightarrow> ('w, unit) prog" where
  "history_invalid_check srv =
     try_except is_RequestException
       (\<lambda>e. AssertionError (''Request failed for invalid groupBy='' @ invalid_groupby @ '': ''
                             @ exn_str e))
       (bind (requests_get srv history_endpoint history_headers
                [(''groupBy'', invalid_groupby)] TIMEOUT)
          (\<lambda>response.
        seq (py_assert (Inr (status_code response \<in> {400, 422}))
               (''Expected 400 or 422 for invalid groupBy, got ''
                @ str_int (status_code response)))
       (bind (response_json response)
          (\<lambda>json_data.
        py_assert (cond_or (py_in ''error'' json_data) (py_in ''message'' json_data))
          ''Error response should contain error or message field''))))"

definition test_metrics_history_data_retrieval :: "'w backend \<Rightarrow> ('w, unit) prog" where
  "test_metrics_history_data_retrieval srv =
     seq (for_each valid_groupbys (history_valid_check srv))
         (history_invalid_check srv)"

subsection \<open>\<^verbatim>\<open>TC008_roas_roi_analysis_report_generation.py\<close>\<close>

definition roas_endpoint :: string where
  "roas_endpoint = BASE_URL @ ''/api/v1/roas-roi/analysis''"

definition roas_headers :: "(string \<times> string) list" where
  "roas_headers = [(''Accept'', ''application/json''), (''Authorization'', ''Bearer testtoken'')]"

text \<open>Lines 13-26: valid date range.\<close>

definition roas_valid_check :: "'w backend \<Rightarrow> ('w, unit) prog" where
  "roas_valid_check srv =
     try_except is_RequestException
       (\<lambda>e. AssertionError (''Request with valid dates failed: '' @ exn_str e))
       (bind (requests_get srv roas_endpoint roas_headers
                [(''startDate'', ''2024-01-01''), (''endDate'', ''2024-01-31'')] TIMEOUT)
          (\<lambda>response.
        seq (raise_for_status response)
       (bind (response_json response)
          (\<lambda>data.
        seq (py_assert (Inr (is_dict data)) ''Response should be a JSON object'')
            (py_assert (cond_or (py_in ''report'' data) (py_in ''analysis'' data))
               ''Response should contain report or analysis data'')))))"

text \<open>Lines 28-57: the four calls with a missing or malformed date; \<open>what\<close> is the
  text the message names the case with.\<close>

definition roas_bad_dates_check ::
  "'w backend \<Rightarrow> (string \<times> string) list \<Rightarrow> string \<Rightarrow> ('w, unit) prog" where
  "roas_bad_dates_check srv ps what =
     bind (requests_get srv roas_endpoint roas_headers ps TIMEOUT)
       (\<lambda>response.
     py_assert (Inr (status_code response \<in> {400, 422}))
       (''Expected 400 or 422 for '' @ what @ '', got '' @ str_int (status_code response)))"

definition test_roas_roi_analysis_report_generation :: "'w backend \<Rightarrow> ('w, unit) prog" where
  "test_roas_roi_analysis_report_generation srv =
     seq (roas_valid_check srv)
    (seq (roas_bad_dates_check srv [(''endDate'', ''2024-01-31'')] ''missing startDate'')
    (seq (roas_bad_dates_check srv [(''startDate'', ''2024-01-01'')] ''missing endDate'')
    (seq (roas_bad_dates_check srv
            [(''startDate'', ''invalid-date''), (''endDate'', ''2024-01-31'')]
            ''invalid startDate format'')
         (roas_bad_dates_check srv
            [(''startDate'', ''2024-01-01''), (''endDate'', ''invalid-date'')]
            ''invalid endDate format''))))"

subsection \<open>\<^verbatim>\<open>TC009_billing_subscription_management.py\<close>\<close>

text \<open>
  The script reads the wall clock with \<^verbatim>\<open>time.time()\<close> and computes with Python floats.
  Neither is modelled: the clock is a function of the outside world, and the float
  operations the script uses are parameters, named after the expressions they stand for.
\<close>

type_synonym ('w, 'f) clock = "'w \<Rightarrow> 'f \<times> 'w"

record 'f float_ops =
  fsub :: "'f \<Rightarrow> 'f \<Rightarrow> 'f"
  fsum :: "'f list \<Rightarrow> 'f"
  fdiv_len :: "'f \<Rightarrow> nat \<Rightarrow> 'f"
  flt_int :: "'f \<Rightarrow> int \<Rightarrow> bool"
  fmt_2f :: "'f \<Rightarrow> string"

text \<open>\<^verbatim>\<open>time.time()\<close>\<close>

definition time_time :: "('w, 'f) clock \<Rightarrow> ('w, 'f) prog" where
  "time_time clk = (\<lambda>s. case clk (world s) of (t, w') \<Rightarrow> (Inr t, \<lparr>world = w', log = log s\<rparr>))"

definition SUBSCRIPTION_ENDPOINT :: string where
  "SUBSCRIPTION_ENDPOINT = BASE_URL @ ''/api/v1/billing/subscription''"

definition subscription_headers :: "(string \<times> string) list" where
  "subscription_headers = [(''Content-Type'', ''application/json'')]"

text \<open>Lines 12-17.\<close>

definition get_subscription :: "'w backend \<Rightarrow> ('w, response) prog" where
  "get_subscription srv =
     try_except is_RequestException
       (\<lambda>e. AssertionError (''Request to get subscription failed: '' @ exn_str e))
       (requests_get srv SUBSCRIPTION_ENDPOINT subscription_headers [] TIMEOUT)"

text \<open>Lines 19-24: the current subscription details.\<close>

definition subscription_details_check :: "'w backend \<Rightarrow> ('w, unit) prog" where
  "subscription_details_check srv =
     bind (get_subscription srv)
       (\<lambda>response_get.
     seq (py_assert (Inr (status_code response_get = 200))
            (''Expected 200, got '' @ str_int (status_code response_get)))
    (bind (response_json response_get)
       (\<lambda>json_get.
     seq (py_assert (py_in ''plan'' json_get)
            (''Missing '' @ quote @ ''plan'' @ quote @ '' in subscription details''))
         (py_assert (py_in ''status'' json_get)
            (''Missing '' @ quote @ ''status'' @ quote @ '' in subscription details'')))))"

text \<open>Lines 28-33: \<^verbatim>\<open>for _ in range(n)\<close>, with the list \<^verbatim>\<open>response_times\<close> so far.\<close>

primrec timed_calls ::
  "'w backend \<Rightarrow> ('w, 'f) clock \<Rightarrow> 'f float_ops \<Rightarrow> nat \<Rightarrow> 'f list \<Rightarrow> ('w, 'f list) prog" where
  "timed_calls srv clk fl 0 response_times = return response_times"
| "timed_calls srv clk fl (Suc n) response_times =
     bind (time_time clk)
       (\<lambda>start_time.
     bind (get_subscription srv)
       (\<lambda>resp.
     bind (time_time clk)
       (\<lambda>end_time.
     seq (py_assert (Inr (status_code resp = 200))
            (''Expected 200 during performance test, got '' @ str_int (status_code resp)))
         (timed_calls srv clk fl n (response_times @ [fsub fl end_time start_time])))))"

text \<open>Lines 26-35: the performance test.\<close>

definition performance_check ::
  "'w backend \<Rightarrow> ('w, 'f) clock \<Rightarrow> 'f float_ops \<Rightarrow> ('w, unit) prog" where
  "performance_check srv clk fl =
     bind (timed_calls srv clk fl 5 [])
       (\<lambda>response_times.
     py_assert
       (Inr (flt_int fl (fdiv_len fl (fsum fl response_times) (length response_times)) 2))
       (''Average response time too high: ''
        @ fmt_2f fl (fdiv_len fl (fsum fl response_times) (length response_times)) @ ''s''))"

definition test_billing_subscription_management ::
  "'w backend \<Rightarrow> ('w, 'f) clock \<Rightarrow> 'f float_ops \<Rightarrow> ('w, unit) prog" where
  "test_billing_subscription_management srv clk fl =
     seq (subscription_details_check srv) (performance_check srv clk fl)"

subsection \<open>\<^verbatim>\<open>TC010_whatsapp_message_sending.py\<close>\<close>

definition whatsapp_url :: string where
  "whatsapp_url = BASE_URL @ ''/api/v1/whatsapp/send''"

definition AUTH_TOKEN :: string where
  "AUTH_TOKEN = ''Bearer sample_valid_token''"

definition whatsapp_headers :: "(string \<times> string) list" where
  "whatsapp_headers = [(''Content-Type'', ''application/json''), (''Authorization'', AUTH_TOKEN)]"

text \<open>Lines 13-23: a valid message.\<close>

definition whatsapp_valid_check :: "'w backend \<Rightarrow> ('w, unit) prog" where
  "whatsapp_valid_check srv =
     bind (requests_post srv whatsapp_url
             [(''to'', JStr ''+12345678901''), (''message'', JStr ''Test message from automated test.'')]
             whatsapp_headers TIMEOUT)
       (\<lambda>response.
     seq (py_assert (Inr (status_code response = 200))
            (''Expected 200 OK for valid message, got '' @ str_int (status_code response)))
    (bind (response_json response)
       (\<lambda>resp_json.
     py_assert (cond_or
                  (cond_and (py_in ''success'' resp_json)
                     (ebind (py_getitem resp_json ''success'') (\<lambda>v. Inr (v = JBool True))))
                  (py_in ''messageId'' resp_json))
       ''Expected success response content'')))"

text \<open>Lines 25-53: the four calls with a missing or empty field; \<open>what\<close> is the text
  the message names the case with.\<close>

definition whatsapp_bad_payload_check ::
  "'w backend \<Rightarrow> (string \<times> json) list \<Rightarrow> string \<Rightarrow> ('w, unit) prog" where
  "whatsapp_bad_payload_check srv payload what =
     bind (requests_post srv whatsapp_url payload whatsapp_headers TIMEOUT)
       (\<lambda>response.
     py_assert (Inr (status_code response = 400 \<or> status_code response = 422))
       (''Expected 400 or 422 for '' @ what @ '', got '' @ str_int (status_code response)))"

definition test_whatsapp_message_sending :: "'w backend \<Rightarrow> ('w, unit) prog" where
  "test_whatsapp_message_sending srv =
     seq (whatsapp_valid_check srv)
    (seq (whatsapp_bad_payload_check srv
            [(''message'', JStr ''Test message without recipient.'')]
            (''missing '' @ quote @ ''to'' @ quote))
    (seq (whatsapp_bad_payload_check srv
            [(''to'', JStr ''+12345678901'')]
            (''missing '' @ quote @ ''message'' @ quote))
    (seq (whatsapp_bad_payload_check srv
            [(''to'', JStr []), (''message'', JStr ''Message with invalid recipient'')]
            (''invalid '' @ quote @ ''to'' @ quote))
         (whatsapp_bad_payload_check srv
            [(''to'', JStr ''+12345678901''), (''message'', JStr [])]
            (''invalid '' @ quote @ ''message'' @ quote)))))"

subsection \<open>The corpus\<close>

text \<open>
  The eleven scripts, each with the name of its file and the number of HTTP calls a
  complete run of it makes. The inputs the scripts take from their environment are
  parameters: the backend, the clock and float arithmetic of TC009, the uuid of TC002
  and the two dates of TC007.
\<close>

definition corpus ::
  "'w backend \<Rightarrow> ('w, 'f) clock \<Rightarrow> 'f float_ops \<Rightarrow> string \<Rightarrow> string \<Rightarrow> string
   \<Rightarrow> (string \<times> nat \<times> ('w, unit) prog) list" where
  "corpus srv clk fl uuid_hex start_date end_date =
     [(''TC001_user_login_functionality'', 2, test_user_login_functionality srv),
      (''TC002_user_registration_process'', 7, test_user_registration_process srv uuid_hex),
      (''TC003_utm_link_creation_and_validation'', 4, test_utm_link_creation_and_validation srv),
      (''TC004_google_ads_oauth_flow_initiation'', 3, test_google_ads_oauth_flow_initiation srv),
      (''TC005_fetch_google_ads_campaigns'', 3, test_fetch_google_ads_campaigns srv),
      (''TC006_dashboard_metrics_retrieval'', 5, test_dashboard_metrics_retrieval srv),
      (''TC007_metrics_history_data_grouping'', 1,
         test_metrics_history_data_grouping srv start_date end_date),
      (''TC007_metrics_history_data_retrieval'', 4, test_metrics_history_data_retrieval srv),
      (''TC008_roas_roi_analysis_report_generation'', 5,
         test_roas_roi_analysis_report_generation srv),
      (''TC009_billing_subscription_management'', 6,
         test_billing_subscription_management srv clk fl),
      (''TC010_whatsapp_message_sending'', 5, test_whatsapp_message_sending srv)]"

section \<open>Properties of runs\<close>

fun is_response :: "reply \<Rightarrow> bool" where
  "is_response (Response r) = True"
| "is_response (TransportError t) = False"

text \<open>No call of the list failed in transport.\<close>

definition no_failure :: "(request \<times> reply) list \<Rightarrow> bool" where
  "no_failure l = list_all (\<lambda>qr. is_response (snd qr)) l"

text \<open>
  From any state, a piece of a script issues at most \<open>n\<close> calls, and when one of them
  fails in transport it is the last one, and the piece ends with an exception whose
  text contains the text of the transport error.
\<close>

definition fail_fast :: "nat \<Rightarrow> ('w, 'a) prog \<Rightarrow> bool" where
  "fail_fast n m =
     (\<forall>s. \<exists>new. log (snd (m s)) = log s @ new \<and> length new \<le> n \<and>
        (no_failure new \<or>
         (\<exists>pre q t x. new = pre @ [(q, TransportError t)] \<and> no_failure pre \<and>
            fst (m s) = Inl x \<and> str_in t (exn_str x))))"

text \<open>From any state, every call a piece of a script issues satisfies \<open>P\<close>.\<close>

definition calls_satisfy :: "(request \<Rightarrow> bool) \<Rightarrow> ('w, 'a) prog \<Rightarrow> bool" where
  "calls_satisfy P m =
     (\<forall>s. \<exists>new. log (snd (m s)) = log s @ new \<and> list_all (\<lambda>qr. P (fst qr)) new)"

text \<open>\<^verbatim>\<open>key in v\<close> holds (and does not raise).\<close>

definition contains :: "string \<Rightarrow> json \<Rightarrow> bool" where
  "contains key v = (py_in key v = Inr True)"

subsection \<open>Backends to run the scripts against\<close>

text \<open>
  A backend that answers the calls, in order, with a prepared list of replies, and
  refuses the connection once the list is used up.
\<close>

fun replay :: "(reply list) backend" where
  "replay q [] = (TransportError ''Connection refused'', [])"
| "replay q (r # rs) = (r, rs)"

definition json_reply :: "int \<Rightarrow> json \<Rightarrow> reply" where
  "json_reply code v = Response \<lparr>status_code = code, reason = [], final_url = [], body = Inr v\<rparr>"

text \<open>
  The same backend in a world with a wall clock: the world is the list of prepared replies
  and the time of day in seconds, and every call takes \<open>latency\<close> seconds. Reading the
  clock takes no time.
\<close>

definition timed_replay :: "rat \<Rightarrow> (reply list \<times> rat) backend" where
  "timed_replay latency q w =
     (case replay q (fst w) of (r, rs) \<Rightarrow> (r, (rs, snd w + latency)))"

definition wall_clock :: "(reply list \<times> rat, rat) clock" where
  "wall_clock w = (snd w, w)"

text \<open>
  Arithmetic on rational numbers, for running the performance test of \<^verbatim>\<open>TC009\<close> on
  concrete readings: subtraction, \<^verbatim>\<open>sum\<close>, the division by \<^verbatim>\<open>len\<close>, the comparison
  with an integer, and the format \<^verbatim>\<open>:.2f\<close> (two decimals, a tie rounded to the even
  neighbour). Python computes with doubles, which round; these operations do not, so
  they give what Python gives only where no rounding occurs. The theorems about the
  script do not depend on them: there the arithmetic is a parameter.
\<close>

definition round_half_even :: "rat \<Rightarrow> int" where
  "round_half_even y =
     (let f = \<lfloor>y\<rfloor>; d = y - of_int f
      in if d < 1 / 2 then f else if 1 / 2 < d then f + 1 else if even f then f else f + 1)"

definition format_2f :: "rat \<Rightarrow> string" where
  "format_2f x =
     (let c = nat \<bar>round_half_even (x * 100)\<bar>
      in (if x < 0 then ''-'' else []) @ digits (c div 100) @ ''.''
         @ [''0123456789'' ! (c mod 100 div 10), ''0123456789'' ! (c mod 10)])"

definition exact_ops :: "rat float_ops" where
  "exact_ops = \<lparr>fsub = (\<lambda>a b. a - b), fsum = sum_list, fdiv_len = (\<lambda>x n. x / of_nat n),
                flt_int = (\<lambda>x k. x < of_int k), fmt_2f = format_2f\<rparr>"

subsection \<open>The calls of a script, in order\<close>

text \<open>A run that ended without an exception.\<close>

definition passes :: "exn + 'a \<Rightarrow> bool" where
  "passes r = (case r of Inl x \<Rightarrow> False | Inr a \<Rightarrow> True)"

text \<open>
  The plan of a script lists its call statements in the order of the text, a loop
  unrolled: for each one, which request it sends and which replies its check accepts.
\<close>

type_synonym plan = "((request \<Rightarrow> bool) \<times> (reply \<Rightarrow> bool)) list"

text \<open>
  A list of calls follows a plan when its calls are those of the plan's entries, one call
  per entry, in order and from the first entry on; when a call is made after another only
  if the reply to that one was accepted by its entry; and when, in a run that passed,
  no entry is left over. So no entry sends a second request, whatever the reply to
  its first was, and a reply that is not accepted (a transport failure, or a response the
  check refuses) is the last of the run.
\<close>

fun follows :: "plan \<Rightarrow> (request \<times> reply) list \<Rightarrow> bool \<Rightarrow> bool" where
  "follows [] [] passed = True"
| "follows [] (e # es) passed = False"
| "follows (c # p) [] passed = (\<not> passed)"
| "follows (c # p) (e # es) passed =
     (fst c (fst e) \<and> (if snd c (snd e) then follows p es passed else es = [] \<and> \<not> passed))"

text \<open>From any state, the calls a piece of a script adds to the log follow the plan.\<close>

definition orderly :: "plan \<Rightarrow> ('w, 'a) prog \<Rightarrow> bool" where
  "orderly p m =
     (\<forall>s. \<exists>es. log (snd (m s)) = log s @ es \<and> follows p es (passes (fst (m s))))"

text \<open>
  The replies a block of one call accepts are found by running the block itself against
  the backend that gives this reply.
\<close>

definition accepted_by :: "((reply list) backend \<Rightarrow> (reply list, 'a) prog) \<Rightarrow> reply \<Rightarrow> bool" where
  "accepted_by blk rep = passes (fst (blk replay (start [rep])))"

text \<open>The requests that \<^verbatim>\<open>requests.post\<close> and \<^verbatim>\<open>requests.get\<close> send.\<close>

definition post_request ::
  "string \<Rightarrow> (string \<times> json) list \<Rightarrow> (string \<times> string) list \<Rightarrow> nat \<Rightarrow> request" where
  "post_request u payload hs t =
     \<lparr>http_method = POST, url = u, headers = hs, params = [],
      json_payload = Some (JObj payload), timeout = t\<rparr>"

definition get_request ::
  "string \<Rightarrow> (string \<times> string) list \<Rightarrow> (string \<times> string) list \<Rightarrow> nat \<Rightarrow> request" where
  "get_request u hs ps t =
     \<lparr>http_method = GET, url = u, headers = hs, params = ps,
      json_payload = None, timeout = t\<rparr>"

text \<open>The request of \<^verbatim>\<open>get_subscription()\<close> (\<^verbatim>\<open>TC009\<close>, line 14).\<close>

definition subscription_request :: request where
  "subscription_request =
     \<lparr>http_method = GET, url = SUBSCRIPTION_ENDPOINT, headers = subscription_headers,
      params = [], json_payload = None, timeout = TIMEOUT\<rparr>"

text \<open>An entry of a plan: this request, judged as this block judges the reply.\<close>

definition check ::
  "request \<Rightarrow> ((reply list) backend \<Rightarrow> (reply list, 'a) prog) \<Rightarrow> (request \<Rightarrow> bool) \<times> (reply \<Rightarrow> bool)" where
  "check q blk = ((=) q, accepted_by blk)"

text \<open>
  The four dashboard calls of \<^verbatim>\<open>TC006\<close> carry the token of the login reply in their
  \<^verbatim>\<open>Authorization\<close> header. Their entries fix everything of the request but the text
  after \<^verbatim>\<open>Bearer \<close>; what the blocks accept does not depend on the token.
\<close>

definition bearer_headers :: "string \<Rightarrow> (string \<times> string) list" where
  "bearer_headers credentials =
     [(''Accept'', ''application/json''), (''Authorization'', ''Bearer '' @ credentials)]"

definition dashboard_check ::
  "(string \<times> string) list \<Rightarrow> ((reply list) backend \<Rightarrow> (reply list, 'a) prog)
   \<Rightarrow> (request \<Rightarrow> bool) \<times> (reply \<Rightarrow> bool)" where
  "dashboard_check ps blk =
     ((\<lambda>q. q = get_request dashboard_url
                 (bearer_headers (drop 7 (snd (last (headers q))))) ps TIMEOUT),
      accepted_by blk)"

text \<open>
  An iteration of the loop of \<^verbatim>\<open>TC009\<close> goes on to the next one when the response has
  status 200 (line 33).
\<close>

fun answered_200 :: "reply \<Rightarrow> bool" where
  "answered_200 (Response r) = (status_code r = 200)"
| "answered_200 (TransportError t) = False"

text \<open>
  The plans of the eleven scripts. \<^verbatim>\<open>TC009\<close> sends the same request six times: once for
  the subscription details and once in each of the five iterations of its loop.
\<close>

definition login_plan :: "plan" where
  "login_plan =
     [check (post_request (BASE_URL @ LOGIN_ENDPOINT) login_valid_payload login_headers TIMEOUT)
        login_valid_check,
      check (post_request (BASE_URL @ LOGIN_ENDPOINT) login_invalid_payload login_headers TIMEOUT)
        login_invalid_check]"

definition registration_plan :: "string \<Rightarrow> plan" where
  "registration_plan uuid_hex =
     check (post_request (BASE_URL @ REGISTER_ENDPOINT) (register_valid_payload uuid_hex)
              register_headers TIMEOUT)
       (\<lambda>srv. register_valid_check srv uuid_hex)
     # map (\<lambda>missing_field.
              check (post_request (BASE_URL @ REGISTER_ENDPOINT)
                       (dict_pop missing_field (register_valid_payload uuid_hex))
                       register_headers TIMEOUT)
                (\<lambda>srv. missing_field_check srv uuid_hex missing_field))
         required_fields
     @ [check (post_request (BASE_URL @ REGISTER_ENDPOINT)
                 (dict_set ''email'' (JStr ''invalid-email-format'')
                    (register_valid_payload uuid_hex))
                 register_headers TIMEOUT)
          (\<lambda>srv. invalid_email_check srv uuid_hex),
        check (post_request (BASE_URL @ REGISTER_ENDPOINT)
                 (dict_set ''password'' (JStr ''123'') (register_valid_payload uuid_hex))
                 register_headers TIMEOUT)
          (\<lambda>srv. short_password_check srv uuid_hex)]"

definition utm_plan :: "plan" where
  "utm_plan =
     [check (post_request UTM_CREATE_URL valid_payload_minimal utm_headers TIMEOUT)
        utm_minimal_check,
      check (post_request UTM_CREATE_URL valid_payload_full utm_headers TIMEOUT)
        utm_full_check,
      check (post_request UTM_CREATE_URL [(''originalUrl'', JStr ''htp://bad-url'')]
               utm_headers TIMEOUT)
        utm_invalid_url_check,
      check (post_request UTM_CREATE_URL [(''utmSource'', JStr ''newsletter'')]
               utm_headers TIMEOUT)
        utm_missing_url_check]"

definition oauth_plan :: "plan" where
  "oauth_plan =
     [check (post_request oauth_url
               [(''redirect_uri'', JStr ''https://example.com/oauth/callback'')]
               oauth_headers TIMEOUT)
        oauth_valid_check,
      check (post_request oauth_url [] oauth_headers TIMEOUT) oauth_missing_check,
      check (post_request oauth_url [(''redirect_uri'', JStr ''not-a-valid-url'')]
               oauth_headers TIMEOUT)
        oauth_invalid_check]"

definition campaigns_plan :: "plan" where
  "campaigns_plan =
     [check (get_request campaigns_endpoint campaigns_headers
               [(''customer_id'', valid_customer_id)] TIMEOUT)
        campaigns_valid_check,
      check (get_request campaigns_endpoint campaigns_headers [] TIMEOUT)
        campaigns_missing_check,
      check (get_request campaigns_endpoint campaigns_headers
               [(''customer_id'', invalid_customer_id)] TIMEOUT)
        campaigns_invalid_check]"

definition dashboard_plan :: "plan" where
  "dashboard_plan =
     [check (post_request (BASE_URL @ ''/api/v1/auth/login'')
               [(''email'', JStr ''testuser@example.com''),
                (''password'', JStr ''testpassword'')] [] TIMEOUT)
        (\<lambda>srv. get_auth_token srv ''testuser@example.com'' ''testpassword''),
      dashboard_check [(''startDate'', ''2025-01-01''), (''endDate'', ''2025-01-31'')]
        (\<lambda>srv. dashboard_valid_check srv JNull),
      dashboard_check [] (\<lambda>srv. dashboard_missing_check srv JNull),
      dashboard_check [(''startDate'', ''invalid-date''), (''endDate'', ''2025-01-31'')]
        (\<lambda>srv. dashboard_invalid_start_check srv JNull),
      dashboard_check [(''startDate'', ''2025-01-01''), (''endDate'', ''31-01-2025'')]
        (\<lambda>srv. dashboard_invalid_end_check srv JNull)]"

definition grouping_plan :: "string \<Rightarrow> string \<Rightarrow> plan" where
  "grouping_plan start_date end_date =
     [check (get_request grouping_url grouping_headers
               (grouping_params start_date end_date) 10)
        (\<lambda>srv. test_metrics_history_data_grouping srv start_date end_date)]"

definition history_plan :: "plan" where
  "history_plan =
     map (\<lambda>groupby.
            check (get_request history_endpoint history_headers [(''groupBy'', groupby)] TIMEOUT)
              (\<lambda>srv. history_valid_check srv groupby))
       valid_groupbys
     @ [check (get_request history_endpoint history_headers
                 [(''groupBy'', invalid_groupby)] TIMEOUT)
          history_invalid_check]"

definition roas_plan :: "plan" where
  "roas_plan =
     [check (get_request roas_endpoint roas_headers
               [(''startDate'', ''2024-01-01''), (''endDate'', ''2024-01-31'')] TIMEOUT)
        roas_valid_check,
      check (get_request roas_endpoint roas_headers [(''endDate'', ''2024-01-31'')] TIMEOUT)
        (\<lambda>srv. roas_bad_dates_check srv [(''endDate'', ''2024-01-31'')] ''missing startDate''),
      check (get_request roas_endpoint roas_headers [(''startDate'', ''2024-01-01'')] TIMEOUT)
        (\<lambda>srv. roas_bad_dates_check srv [(''startDate'', ''2024-01-01'')] ''missing endDate''),
      check (get_request roas_endpoint roas_headers
               [(''startDate'', ''invalid-date''), (''endDate'', ''2024-01-31'')] TIMEOUT)
        (\<lambda>srv. roas_bad_dates_check srv
                 [(''startDate'', ''invalid-date''), (''endDate'', ''2024-01-31'')]
                 ''invalid startDate format''),
      check (get_request roas_endpoint roas_headers
               [(''startDate'', ''2024-01-01''), (''endDate'', ''invalid-date'')] TIMEOUT)
        (\<lambda>srv. roas_bad_dates_check srv
                 [(''startDate'', ''2024-01-01''), (''endDate'', ''invalid-date'')]
                 ''invalid endDate format'')]"

definition subscription_plan :: "plan" where
  "subscription_plan =
     check subscription_request subscription_details_check
     # replicate 5
         ((=) subscription_request, answered_200)"

definition whatsapp_plan :: "plan" where
  "whatsapp_plan =
     [check (post_request whatsapp_url
               [(''to'', JStr ''+12345678901''),
                (''message'', JStr ''Test message from automated test.'')]
               whatsapp_headers TIMEOUT)
        whatsapp_valid_check,
      check (post_request whatsapp_url
               [(''message'', JStr ''Test message without recipient.'')]
               whatsapp_headers TIMEOUT)
        (\<lambda>srv. whatsapp_bad_payload_check srv
                 [(''message'', JStr ''Test message without recipient.'')]
                 (''missing '' @ quote @ ''to'' @ quote)),
      check (post_request whatsapp_url [(''to'', JStr ''+12345678901'')]
               whatsapp_headers TIMEOUT)
        (\<lambda>srv. whatsapp_bad_payload_check srv [(''to'', JStr ''+12345678901'')]
                 (''missing '' @ quote @ ''message'' @ quote)),
      check (post_request whatsapp_url
               [(''to'', JStr []), (''message'', JStr ''Message with invalid recipient'')]
               whatsapp_headers TIMEOUT)
        (\<lambda>srv. whatsapp_bad_payload_check srv
                 [(''to'', JStr []), (''message'', JStr ''Message with invalid recipient'')]
                 (''invalid '' @ quote @ ''to'' @ quote)),
      check (post_request whatsapp_url
               [(''to'', JStr ''+12345678901''), (''message'', JStr [])]
               whatsapp_headers TIMEOUT)
        (\<lambda>srv. whatsapp_bad_payload_check srv
                 [(''to'', JStr ''+12345678901''), (''message'', JStr [])]
                 (''invalid '' @ quote @ ''message'' @ quote))]"

definition plans :: "string \<Rightarrow> string \<Rightarrow> string \<Rightarrow> (string \<times> plan) list" where
  "plans uuid_hex start_date end_date =
     [(''TC001_user_login_functionality'', login_plan),
      (''TC002_user_registration_process'', registration_plan uuid_hex),
      (''TC003_utm_link_creation_and_validation'', utm_plan),
      (''TC004_google_ads_oauth_flow_initiation'', oauth_plan),
      (''TC005_fetch_google_ads_campaigns'', campaigns_plan),
      (''TC006_dashboard_metrics_retrieval'', dashboard_plan),
      (''TC007_metrics_history_data_grouping'', grouping_plan start_date end_date),
      (''TC007_metrics_history_data_retrieval'', history_plan),
      (''TC008_roas_roi_analysis_report_generation'', roas_plan),
      (''TC009_billing_subscription_management'', subscription_plan),
      (''TC010_whatsapp_message_sending'', whatsapp_plan)]"

definition plan_of :: "string \<Rightarrow> string \<Rightarrow> string \<Rightarrow> string \<Rightarrow> plan" where
  "plan_of uuid_hex start_date end_date name =
     (case map_of (plans uuid_hex start_date end_date) name of Some p \<Rightarrow> p | None \<Rightarrow> [])"

subsection \<open>The durations \<^verbatim>\<open>TC009\<close> measures\<close>

text \<open>
  What the clock shows just before and just after each of \<open>n\<close> calls of
  \<^verbatim>\<open>get_subscription()\<close> made one after the other from the world \<open>w\<close>: the clock is read,
  the backend answers the request, the clock is read again. This is defined on the
  world alone, without the script.
\<close>

primrec readings :: "'w backend \<Rightarrow> ('w, 'f) clock \<Rightarrow> nat \<Rightarrow> 'w \<Rightarrow> ('f \<times> 'f) list" where
  "readings srv clk 0 w = []"
| "readings srv clk (Suc n) w =
     (let w1 = snd (clk w);
          w2 = snd (srv subscription_request w1)
      in (fst (clk w), fst (clk w2)) # readings srv clk n (snd (clk w2)))"

text \<open>The reading after each call minus the reading before it, in the script's arithmetic.\<close>

definition durations :: "'f float_ops \<Rightarrow> ('f \<times> 'f) list \<Rightarrow> 'f list" where
  "durations fl bes = map (\<lambda>be. fsub fl (snd be) (fst be)) bes"

text \<open>The arithmetic mean of the durations between readings given as rational numbers.\<close>

definition mean_duration :: "(rat \<times> rat) list \<Rightarrow> rat" where
  "mean_duration bes = (\<Sum>be\<leftarrow>bes. snd be - fst be) / of_nat (length bes)"

text \<open>
  The script's arithmetic computes without rounding, under a reading \<open>val\<close> of its numbers
  as rational numbers.
\<close>

definition exact :: "('f \<Rightarrow> rat) \<Rightarrow> 'f float_ops \<Rightarrow> bool" where
  "exact val fl =
     ((\<forall>a b. val (fsub fl a b) = val a - val b) \<and>
      (\<forall>xs. val (fsum fl xs) = sum_list (map val xs)) \<and>
      (\<forall>x n. val (fdiv_len fl x n) = val x / of_nat n) \<and>
      (\<forall>x k. flt_int fl x k = (val x < of_int k)))"

section \<open>How runs compose\<close>

lemmas prog_defs = bind_def seq_def return_def lift_def try_except_def py_assert_def send_def
  requests_post_def requests_get_def response_json_def raise_for_status_def time_time_def

lemma no_failure_simps [simp]:
  "no_failure []"
  "no_failure (l @ l') = (no_failure l \<and> no_failure l')"
  "no_failure ((q, r) # l) = (is_response r \<and> no_failure l)"
  by (auto simp: no_failure_def)

lemma fail_fast_pure:
  "fail_fast 0 (return a)" "fail_fast 0 (lift e)" "fail_fast 0 (py_assert c msg)"
  "fail_fast 0 (response_json r)" "fail_fast 0 (raise_for_status r)" "fail_fast 0 (time_time clk)"
  by (auto simp: fail_fast_def prog_defs split: prod.splits)

lemma fail_fast_send: "fail_fast 1 (send srv q)"
  unfolding fail_fast_def
proof
  fix s :: "'a run"
  obtain rep w' where sr: "srv q (world s) = (rep, w')" by (cases "srv q (world s)")
  show "\<exists>new. log (snd (send srv q s)) = log s @ new \<and> length new \<le> 1 \<and>
        (no_failure new \<or>
         (\<exists>pre q' t x. new = pre @ [(q', TransportError t)] \<and> no_failure pre \<and>
            fst (send srv q s) = Inl x \<and> str_in t (exn_str x)))"
  proof (cases rep)
    case (Response r)
    with sr show ?thesis by (auto simp: send_def)
  next
    case (TransportError t)
    with sr have "log (snd (send srv q s)) = log s @ [(q, TransportError t)]"
      and "fst (send srv q s) = Inl (RequestException t)"
      by (auto simp: send_def)
    then show ?thesis
      by (intro exI[of _ "[(q, TransportError t)]"]) (auto simp: str_in_def)
  qed
qed

lemma fail_fast_requests:
  "fail_fast 1 (requests_post srv u p hs t)" "fail_fast 1 (requests_get srv u hs ps t)"
  unfolding requests_post_def requests_get_def by (rule fail_fast_send)+

lemma fail_fast_bind:
  assumes m: "fail_fast n m" and f: "\<And>a. fail_fast k (f a)"
  shows "fail_fast (n + k) (bind m f)"
  unfolding fail_fast_def
proof
  fix s
  from m obtain new1 where n1: "log (snd (m s)) = log s @ new1" "length new1 \<le> n"
    and c1: "no_failure new1 \<or>
         (\<exists>pre q t x. new1 = pre @ [(q, TransportError t)] \<and> no_failure pre \<and>
            fst (m s) = Inl x \<and> str_in t (exn_str x))"
    unfolding fail_fast_def by blast
  let ?goal = "\<exists>new. log (snd (bind m f s)) = log s @ new \<and> length new \<le> n + k \<and>
        (no_failure new \<or>
         (\<exists>pre q t x. new = pre @ [(q, TransportError t)] \<and> no_failure pre \<and>
            fst (bind m f s) = Inl x \<and> str_in t (exn_str x)))"
  show ?goal
  proof (cases "fst (m s)")
    case (Inl x)
    then have "fst (bind m f s) = Inl x" "snd (bind m f s) = snd (m s)"
      by (cases "m s"; auto simp: bind_def)+
    with n1 c1 Inl show ?thesis by (intro exI[of _ new1]) auto
  next
    case (Inr a)
    then have b: "bind m f s = f a (snd (m s))" by (cases "m s") (auto simp: bind_def)
    from Inr c1 have nf1: "no_failure new1" by auto
    from f[of a] obtain new2 where n2: "log (snd (f a (snd (m s)))) = log (snd (m s)) @ new2"
      "length new2 \<le> k"
      and c2: "no_failure new2 \<or>
         (\<exists>pre q t x. new2 = pre @ [(q, TransportError t)] \<and> no_failure pre \<and>
            fst (f a (snd (m s))) = Inl x \<and> str_in t (exn_str x))"
      unfolding fail_fast_def by blast
    from c2 show ?thesis
    proof
      assume "no_failure new2"
      with n1 n2 nf1 b show ?thesis by (intro exI[of _ "new1 @ new2"]) auto
    next
      assume "\<exists>pre q t x. new2 = pre @ [(q, TransportError t)] \<and> no_failure pre \<and>
            fst (f a (snd (m s))) = Inl x \<and> str_in t (exn_str x)"
      then obtain pre q t x where p: "new2 = pre @ [(q, TransportError t)]" "no_failure pre"
        "fst (f a (snd (m s))) = Inl x" "str_in t (exn_str x)" by blast
      have "new1 @ new2 = (new1 @ pre) @ [(q, TransportError t)]" using p by simp
      moreover have "no_failure (new1 @ pre)" using nf1 p by simp
      ultimately have "\<exists>pre q t x. new1 @ new2 = pre @ [(q, TransportError t)] \<and> no_failure pre \<and>
            fst (bind m f s) = Inl x \<and> str_in t (exn_str x)"
        using p b by metis
      with n1 n2 b show ?thesis by (intro exI[of _ "new1 @ new2"]) auto
    qed
  qed
qed

lemma fail_fast_seq:
  "fail_fast n m \<Longrightarrow> fail_fast k m' \<Longrightarrow> fail_fast (n + k) (seq m m')"
  unfolding seq_def by (rule fail_fast_bind)

lemma fail_fast_try:
  assumes m: "fail_fast n m"
    and h: "\<And>x t. catches x \<Longrightarrow> str_in t (exn_str x) \<Longrightarrow> str_in t (exn_str (handler x))"
  shows "fail_fast n (try_except catches handler m)"
  unfolding fail_fast_def
proof
  fix s
  from m obtain new where n1: "log (snd (m s)) = log s @ new" "length new \<le> n"
    and c1: "no_failure new \<or>
         (\<exists>pre q t x. new = pre @ [(q, TransportError t)] \<and> no_failure pre \<and>
            fst (m s) = Inl x \<and> str_in t (exn_str x))"
    unfolding fail_fast_def by blast
  have l: "log (snd (try_except catches handler m s)) = log (snd (m s))"
    by (auto simp: try_except_def split: prod.splits sum.splits)
  have r: "fst (m s) = Inl x \<Longrightarrow>
           fst (try_except catches handler m s) = Inl (if catches x then handler x else x)" for x
    by (auto simp: try_except_def split: prod.splits sum.splits)
  from c1 show "\<exists>new. log (snd (try_except catches handler m s)) = log s @ new \<and> length new \<le> n \<and>
        (no_failure new \<or>
         (\<exists>pre q t x. new = pre @ [(q, TransportError t)] \<and> no_failure pre \<and>
            fst (try_except catches handler m s) = Inl x \<and> str_in t (exn_str x)))"
  proof
    assume "no_failure new"
    with n1 l show ?thesis by (intro exI[of _ new]) auto
  next
    assume "\<exists>pre q t x. new = pre @ [(q, TransportError t)] \<and> no_failure pre \<and>
            fst (m s) = Inl x \<and> str_in t (exn_str x)"
    then obtain pre q t x where p: "new = pre @ [(q, TransportError t)]" "no_failure pre"
        "fst (m s) = Inl x" "str_in t (exn_str x)" by blast
    have "str_in t (exn_str (if catches x then handler x else x))" using p h by auto
    with p r[OF p(3)] have "\<exists>pre q t x. new = pre @ [(q, TransportError t)] \<and> no_failure pre \<and>
            fst (try_except catches handler m s) = Inl x \<and> str_in t (exn_str x)" by metis
    with n1 l show ?thesis by (intro exI[of _ new]) auto
  qed
qed

lemma fail_fast_weaken: "fail_fast n m \<Longrightarrow> n \<le> k \<Longrightarrow> fail_fast k m"
  unfolding fail_fast_def by (meson order_trans)


lemma fail_fast_for_each:
  assumes "\<And>x. fail_fast n (f x)"
  shows "fail_fast (length xs * n) (for_each xs f)"
proof (induction xs)
  case Nil
  show ?case by (simp add: fail_fast_pure)
next
  case (Cons x xs)
  have "fail_fast (n + length xs * n) (seq (f x) (for_each xs f))"
    by (rule fail_fast_seq[OF assms Cons.IH])
  then show ?case by simp
qed

lemma str_in_suffix [simp]: "str_in t (p @ t)" "str_in t t"
  by (simp_all add: str_in_def)

lemma str_in_append2: "str_in t b \<Longrightarrow> str_in t (a @ b)"
  unfolding str_in_def by (metis sublist_append)

lemma str_in_Cons: "str_in t b \<Longrightarrow> str_in t (c # b)"
  using str_in_append2[of t b "[c]"] by simp


lemma fail_fast_if_max:
  "fail_fast n m \<Longrightarrow> fail_fast k m' \<Longrightarrow> fail_fast (max n k) (if c then m else m')"
  by (auto intro: fail_fast_weaken)

lemmas ff_intros = fail_fast_try fail_fast_bind fail_fast_seq fail_fast_for_each
  fail_fast_requests fail_fast_pure fail_fast_if_max

lemma calls_pure:
  "calls_satisfy P (return a)" "calls_satisfy P (lift e)" "calls_satisfy P (py_assert c msg)"
  "calls_satisfy P (response_json r)" "calls_satisfy P (raise_for_status r)"
  "calls_satisfy P (time_time clk)"
  by (auto simp: calls_satisfy_def prog_defs split: prod.splits)

lemma calls_send: "P q \<Longrightarrow> calls_satisfy P (send srv q)"
  by (auto simp: calls_satisfy_def send_def split: prod.splits)

lemma calls_requests:
  "P \<lparr>http_method = POST, url = u, headers = hs, params = [],
      json_payload = Some (JObj p), timeout = t\<rparr> \<Longrightarrow> calls_satisfy P (requests_post srv u p hs t)"
  "P \<lparr>http_method = GET, url = u, headers = hs, params = ps,
      json_payload = None, timeout = t\<rparr> \<Longrightarrow> calls_satisfy P (requests_get srv u hs ps t)"
  unfolding requests_post_def requests_get_def by (rule calls_send, assumption)+

lemma calls_bind:
  assumes m: "calls_satisfy P m" and f: "\<And>a. calls_satisfy P (f a)"
  shows "calls_satisfy P (bind m f)"
  unfolding calls_satisfy_def
proof
  fix s :: "'a run"
  from m obtain new1 where n1: "log (snd (m s)) = log s @ new1" "list_all (\<lambda>qr. P (fst qr)) new1"
    unfolding calls_satisfy_def by blast
  show "\<exists>new. log (snd (bind m f s)) = log s @ new \<and> list_all (\<lambda>qr. P (fst qr)) new"
  proof (cases "fst (m s)")
    case (Inl x)
    then have "snd (bind m f s) = snd (m s)" by (cases "m s") (auto simp: bind_def)
    with n1 show ?thesis by auto
  next
    case (Inr a)
    then have b: "bind m f s = f a (snd (m s))" by (cases "m s") (auto simp: bind_def)
    from f[of a] obtain new2 where "log (snd (f a (snd (m s)))) = log (snd (m s)) @ new2"
      "list_all (\<lambda>qr. P (fst qr)) new2"
      unfolding calls_satisfy_def by blast
    with n1 b show ?thesis by (intro exI[of _ "new1 @ new2"]) auto
  qed
qed

lemma calls_seq: "calls_satisfy P m \<Longrightarrow> calls_satisfy P m' \<Longrightarrow> calls_satisfy P (seq m m')"
  unfolding seq_def by (rule calls_bind)

lemma calls_try: "calls_satisfy P m \<Longrightarrow> calls_satisfy P (try_except catches handler m)"
  unfolding calls_satisfy_def
proof
  fix s :: "'a run"
  assume a: "\<forall>s. \<exists>new. log (snd (m s)) = log s @ new \<and> list_all (\<lambda>qr. P (fst qr)) new"
  have "log (snd (try_except catches handler m s)) = log (snd (m s))"
    by (auto simp: try_except_def split: prod.splits sum.splits)
  with a show "\<exists>new. log (snd (try_except catches handler m s)) = log s @ new \<and>
                  list_all (\<lambda>qr. P (fst qr)) new" by simp
qed

lemma calls_if:
  "calls_satisfy P m \<Longrightarrow> calls_satisfy P m' \<Longrightarrow> calls_satisfy P (if c then m else m')"
  by simp

lemma calls_for_each: "(\<And>x. calls_satisfy P (f x)) \<Longrightarrow> calls_satisfy P (for_each xs f)"
  by (induction xs) (auto intro: calls_pure calls_seq)

lemmas calls_intros = calls_try calls_bind calls_seq calls_for_each calls_requests calls_pure calls_if

subsection \<open>Every block issues one call and fails fast\<close>

lemma login_valid_check_fail_fast: "fail_fast 1 (login_valid_check srv)"
  unfolding login_valid_check_def
  by (rule fail_fast_weaken, (rule ff_intros | (simp only: exn_str.simps, (rule str_in_append2)+, assumption) | simp)+)

lemma login_invalid_check_fail_fast: "fail_fast 1 (login_invalid_check srv)"
  unfolding login_invalid_check_def
  by (rule fail_fast_weaken, (rule ff_intros | (simp only: exn_str.simps, (rule str_in_append2)+, assumption) | simp)+)

lemma register_valid_check_fail_fast: "fail_fast 1 (register_valid_check srv uuid_hex)"
  unfolding register_valid_check_def
  by (rule fail_fast_weaken, (rule ff_intros | (simp only: exn_str.simps, (rule str_in_append2)+, assumption) | simp)+)

lemma missing_field_check_fail_fast: "fail_fast 1 (missing_field_check srv uuid_hex missing_field)"
  unfolding missing_field_check_def
  by (rule fail_fast_weaken, (rule ff_intros | (simp only: exn_str.simps, (rule str_in_append2)+, assumption) | simp)+)

lemma invalid_email_check_fail_fast: "fail_fast 1 (invalid_email_check srv uuid_hex)"
  unfolding invalid_email_check_def
  by (rule fail_fast_weaken, (rule ff_intros | (simp only: exn_str.simps, (rule str_in_append2)+, assumption) | simp)+)

lemma short_password_check_fail_fast: "fail_fast 1 (short_password_check srv uuid_hex)"
  unfolding short_password_check_def
  by (rule fail_fast_weaken, (rule ff_intros | (simp only: exn_str.simps, (rule str_in_append2)+, assumption) | simp)+)

lemma utm_minimal_check_fail_fast: "fail_fast 1 (utm_minimal_check srv)"
  unfolding utm_minimal_check_def
  by (rule fail_fast_weaken, (rule ff_intros | (simp only: exn_str.simps, (rule str_in_append2)+, assumption) | simp)+)

lemma utm_full_check_fail_fast: "fail_fast 1 (utm_full_check srv)"
  unfolding utm_full_check_def
  by (rule fail_fast_weaken, (rule ff_intros | (simp only: exn_str.simps, (rule str_in_append2)+, assumption) | simp)+)

lemma utm_invalid_url_check_fail_fast: "fail_fast 1 (utm_invalid_url_check srv)"
  unfolding utm_invalid_url_check_def
  by (rule fail_fast_weaken, (rule ff_intros | (simp only: exn_str.simps, (rule str_in_append2)+, assumption) | simp)+)

lemma utm_missing_url_check_fail_fast: "fail_fast 1 (utm_missing_url_check srv)"
  unfolding utm_missing_url_check_def
  by (rule fail_fast_weaken, (rule ff_intros | (simp only: exn_str.simps, (rule str_in_append2)+, assumption) | simp)+)

lemma oauth_valid_check_fail_fast: "fail_fast 1 (oauth_valid_check srv)"
  unfolding oauth_valid_check_def
  by (rule fail_fast_weaken, (rule ff_intros | (simp only: exn_str.simps, (rule str_in_append2)+, assumption) | simp)+)

lemma oauth_missing_check_fail_fast: "fail_fast 1 (oauth_missing_check srv)"
  unfolding oauth_missing_check_def
  by (rule fail_fast_weaken, (rule ff_intros | (simp only: exn_str.simps, (rule str_in_append2)+, assumption) | simp)+)

lemma oauth_invalid_check_fail_fast: "fail_fast 1 (oauth_invalid_check srv)"
  unfolding oauth_invalid_check_def
  by (rule fail_fast_weaken, (rule ff_intros | (simp only: exn_str.simps, (rule str_in_append2)+, assumption) | simp)+)

lemma campaigns_valid_check_fail_fast: "fail_fast 1 (campaigns_valid_check srv)"
  unfolding campaigns_valid_check_def
  by (rule fail_fast_weaken, (rule ff_intros | (simp only: exn_str.simps, (rule str_in_append2)+, assumption) | simp)+)

lemma campaigns_missing_check_fail_fast: "fail_fast 1 (campaigns_missing_check srv)"
  unfolding campaigns_missing_check_def
  by (rule fail_fast_weaken, (rule ff_intros | (simp only: exn_str.simps, (rule str_in_append2)+, assumption) | simp)+)

lemma campaigns_invalid_check_fail_fast: "fail_fast 1 (campaigns_invalid_check srv)"
  unfolding campaigns_invalid_check_def
  by (rule fail_fast_weaken, (rule ff_intros | (simp only: exn_str.simps, (rule str_in_append2)+, assumption) | simp)+)

lemma get_auth_token_fail_fast: "fail_fast 1 (get_auth_token srv email password)"
  unfolding get_auth_token_def
  by (rule fail_fast_weaken, (rule ff_intros | (simp only: exn_str.simps, (rule str_in_append2)+, assumption) | simp)+)

lemma dashboard_valid_check_fail_fast: "fail_fast 1 (dashboard_valid_check srv token)"
  unfolding dashboard_valid_check_def
  by (rule fail_fast_weaken, (rule ff_intros | (simp only: exn_str.simps, (rule str_in_append2)+, assumption) | simp)+)

lemma dashboard_missing_check_fail_fast: "fail_fast 1 (dashboard_missing_check srv token)"
  unfolding dashboard_missing_check_def
  by (rule fail_fast_weaken, (rule ff_intros | (simp only: exn_str.simps, (rule str_in_append2)+, assumption) | simp)+)

lemma dashboard_invalid_start_check_fail_fast: "fail_fast 1 (dashboard_invalid_start_check srv token)"
  unfolding dashboard_invalid_start_check_def
  by (rule fail_fast_weaken, (rule ff_intros | (simp only: exn_str.simps, (rule str_in_append2)+, assumption) | simp)+)

lemma dashboard_invalid_end_check_fail_fast: "fail_fast 1 (dashboard_invalid_end_check srv token)"
  unfolding dashboard_invalid_end_check_def
  by (rule fail_fast_weaken, (rule ff_intros | (simp only: exn_str.simps, (rule str_in_append2)+, assumption) | simp)+)

lemma history_valid_check_fail_fast: "fail_fast 1 (history_valid_check srv groupby)"
  unfolding history_valid_check_def
  by (rule fail_fast_weaken, (rule ff_intros | (simp only: exn_str.simps, (rule str_in_append2)+, assumption) | simp)+)

lemma history_invalid_check_fail_fast: "fail_fast 1 (history_invalid_check srv)"
  unfolding history_invalid_check_def
  by (rule fail_fast_weaken, (rule ff_intros | (simp only: exn_str.simps, (rule str_in_append2)+, assumption) | simp)+)

lemma roas_valid_check_fail_fast: "fail_fast 1 (roas_valid_check srv)"
  unfolding roas_valid_check_def
  by (rule fail_fast_weaken, (rule ff_intros | (simp only: exn_str.simps, (rule str_in_append2)+, assumption) | simp)+)

lemma roas_bad_dates_check_fail_fast: "fail_fast 1 (roas_bad_dates_check srv ps what)"
  unfolding roas_bad_dates_check_def
  by (rule fail_fast_weaken, (rule ff_intros | (simp only: exn_str.simps, (rule str_in_append2)+, assumption) | simp)+)

lemma get_subscription_fail_fast: "fail_fast 1 (get_subscription srv)"
  unfolding get_subscription_def
  by (rule fail_fast_weaken, (rule ff_intros | (simp only: exn_str.simps, (rule str_in_append2)+, assumption) | simp)+)

lemma subscription_details_check_fail_fast: "fail_fast 1 (subscription_details_check srv)"
  unfolding subscription_details_check_def
  by (rule fail_fast_weaken, (rule ff_intros get_subscription_fail_fast | simp)+)

lemma whatsapp_valid_check_fail_fast: "fail_fast 1 (whatsapp_valid_check srv)"
  unfolding whatsapp_valid_check_def
  by (rule fail_fast_weaken, (rule ff_intros | (simp only: exn_str.simps, (rule str_in_append2)+, assumption) | simp)+)

lemma whatsapp_bad_payload_check_fail_fast: "fail_fast 1 (whatsapp_bad_payload_check srv payload what)"
  unfolding whatsapp_bad_payload_check_def
  by (rule fail_fast_weaken, (rule ff_intros | (simp only: exn_str.simps, (rule str_in_append2)+, assumption) | simp)+)

lemma timed_calls_fail_fast: "fail_fast n (timed_calls srv clk fl n acc)"
proof (induction n arbitrary: acc)
  case 0
  show ?case by (simp add: fail_fast_pure)
next
  case (Suc n)
  show ?case
    unfolding timed_calls.simps
    by (rule fail_fast_weaken, (rule ff_intros get_subscription_fail_fast Suc.IH | simp)+)
qed

lemma performance_check_fail_fast: "fail_fast 5 (performance_check srv clk fl)"
  unfolding performance_check_def
  by (rule fail_fast_weaken, (rule ff_intros timed_calls_fail_fast | simp)+)

subsection \<open>Every block but one passes a timeout of 30 seconds\<close>

lemma login_valid_check_calls: "calls_satisfy (\<lambda>q. timeout q = 30) (login_valid_check srv)"
  unfolding login_valid_check_def
  by (intro calls_intros) (simp_all add: TIMEOUT_def)

lemma login_invalid_check_calls: "calls_satisfy (\<lambda>q. timeout q = 30) (login_invalid_check srv)"
  unfolding login_invalid_check_def
  by (intro calls_intros) (simp_all add: TIMEOUT_def)

lemma register_valid_check_calls: "calls_satisfy (\<lambda>q. timeout q = 30) (register_valid_check srv uuid_hex)"
  unfolding register_valid_check_def
  by (intro calls_intros) (simp_all add: TIMEOUT_def)

lemma missing_field_check_calls: "calls_satisfy (\<lambda>q. timeout q = 30) (missing_field_check srv uuid_hex missing_field)"
  unfolding missing_field_check_def
  by (intro calls_intros) (simp_all add: TIMEOUT_def)

lemma invalid_email_check_calls: "calls_satisfy (\<lambda>q. timeout q = 30) (invalid_email_check srv uuid_hex)"
  unfolding invalid_email_check_def
  by (intro calls_intros) (simp_all add: TIMEOUT_def)

lemma short_password_check_calls: "calls_satisfy (\<lambda>q. timeout q = 30) (short_password_check srv uuid_hex)"
  unfolding short_password_check_def
  by (intro calls_intros) (simp_all add: TIMEOUT_def)

lemma utm_minimal_check_calls: "calls_satisfy (\<lambda>q. timeout q = 30) (utm_minimal_check srv)"
  unfolding utm_minimal_check_def
  by (intro calls_intros) (simp_all add: TIMEOUT_def)

lemma utm_full_check_calls: "calls_satisfy (\<lambda>q. timeout q = 30) (utm_full_check srv)"
  unfolding utm_full_check_def
  by (intro calls_intros) (simp_all add: TIMEOUT_def)

lemma utm_invalid_url_check_calls: "calls_satisfy (\<lambda>q. timeout q = 30) (utm_invalid_url_check srv)"
  unfolding utm_invalid_url_check_def
  by (intro calls_intros) (simp_all add: TIMEOUT_def)

lemma utm_missing_url_check_calls: "calls_satisfy (\<lambda>q. timeout q = 30) (utm_missing_url_check srv)"
  unfolding utm_missing_url_check_def
  by (intro calls_intros) (simp_all add: TIMEOUT_def)

lemma oauth_valid_check_calls: "calls_satisfy (\<lambda>q. timeout q = 30) (oauth_valid_check srv)"
  unfolding oauth_valid_check_def
  by (intro calls_intros) (simp_all add: TIMEOUT_def)

lemma oauth_missing_check_calls: "calls_satisfy (\<lambda>q. timeout q = 30) (oauth_missing_check srv)"
  unfolding oauth_missing_check_def
  by (intro calls_intros) (simp_all add: TIMEOUT_def)

lemma oauth_invalid_check_calls: "calls_satisfy (\<lambda>q. timeout q = 30) (oauth_invalid_check srv)"
  unfolding oauth_invalid_check_def
  by (intro calls_intros) (simp_all add: TIMEOUT_def)

lemma campaigns_valid_check_calls: "calls_satisfy (\<lambda>q. timeout q = 30) (campaigns_valid_check srv)"
  unfolding campaigns_valid_check_def
  by (intro calls_intros) (simp_all add: TIMEOUT_def)

lemma campaigns_missing_check_calls: "calls_satisfy (\<lambda>q. timeout q = 30) (campaigns_missing_check srv)"
  unfolding campaigns_missing_check_def
  by (intro calls_intros) (simp_all add: TIMEOUT_def)

lemma campaigns_invalid_check_calls: "calls_satisfy (\<lambda>q. timeout q = 30) (campaigns_invalid_check srv)"
  unfolding campaigns_invalid_check_def
  by (intro calls_intros) (simp_all add: TIMEOUT_def)

lemma get_auth_token_calls: "calls_satisfy (\<lambda>q. timeout q = 30) (get_auth_token srv email password)"
  unfolding get_auth_token_def
  by (intro calls_intros) (simp_all add: TIMEOUT_def)

lemma dashboard_valid_check_calls: "calls_satisfy (\<lambda>q. timeout q = 30) (dashboard_valid_check srv token)"
  unfolding dashboard_valid_check_def
  by (intro calls_intros) (simp_all add: TIMEOUT_def)

lemma dashboard_missing_check_calls: "calls_satisfy (\<lambda>q. timeout q = 30) (dashboard_missing_check srv token)"
  unfolding dashboard_missing_check_def
  by (intro calls_intros) (simp_all add: TIMEOUT_def)

lemma dashboard_invalid_start_check_calls: "calls_satisfy (\<lambda>q. timeout q = 30) (dashboard_invalid_start_check srv token)"
  unfolding dashboard_invalid_start_check_def
  by (intro calls_intros) (simp_all add: TIMEOUT_def)

lemma dashboard_invalid_end_check_calls: "calls_satisfy (\<lambda>q. timeout q = 30) (dashboard_invalid_end_check srv token)"
  unfolding dashboard_invalid_end_check_def
  by (intro calls_intros) (simp_all add: TIMEOUT_def)

lemma history_valid_check_calls: "calls_satisfy (\<lambda>q. timeout q = 30) (history_valid_check srv groupby)"
  unfolding history_valid_check_def
  by (intro calls_intros) (simp_all add: TIMEOUT_def)

lemma history_invalid_check_calls: "calls_satisfy (\<lambda>q. timeout q = 30) (history_invalid_check srv)"
  unfolding history_invalid_check_def
  by (intro calls_intros) (simp_all add: TIMEOUT_def)

lemma roas_valid_check_calls: "calls_satisfy (\<lambda>q. timeout q = 30) (roas_valid_check srv)"
  unfolding roas_valid_check_def
  by (intro calls_intros) (simp_all add: TIMEOUT_def)

lemma roas_bad_dates_check_calls: "calls_satisfy (\<lambda>q. timeout q = 30) (roas_bad_dates_check srv ps what)"
  unfolding roas_bad_dates_check_def
  by (intro calls_intros) (simp_all add: TIMEOUT_def)

lemma get_subscription_calls: "calls_satisfy (\<lambda>q. timeout q = 30) (get_subscription srv)"
  unfolding get_subscription_def
  by (intro calls_intros) (simp_all add: TIMEOUT_def)

lemma subscription_details_check_calls: "calls_satisfy (\<lambda>q. timeout q = 30) (subscription_details_check srv)"
  unfolding subscription_details_check_def
  by (intro calls_intros get_subscription_calls)

lemma whatsapp_valid_check_calls: "calls_satisfy (\<lambda>q. timeout q = 30) (whatsapp_valid_check srv)"
  unfolding whatsapp_valid_check_def
  by (intro calls_intros) (simp_all add: TIMEOUT_def)

lemma whatsapp_bad_payload_check_calls: "calls_satisfy (\<lambda>q. timeout q = 30) (whatsapp_bad_payload_check srv payload what)"
  unfolding whatsapp_bad_payload_check_def
  by (intro calls_intros) (simp_all add: TIMEOUT_def)

lemma timed_calls_calls: "calls_satisfy (\<lambda>q. timeout q = 30) (timed_calls srv clk fl n acc)"
proof (induction n arbitrary: acc)
  case 0
  show ?case by (simp add: calls_pure)
next
  case (Suc n)
  show ?case
    unfolding timed_calls.simps
    by (intro calls_intros get_subscription_calls Suc.IH)
qed

lemma performance_check_calls: "calls_satisfy (\<lambda>q. timeout q = 30) (performance_check srv clk fl)"
  unfolding performance_check_def
  by (intro calls_intros timed_calls_calls)

lemma grouping_calls:
  "calls_satisfy (\<lambda>q. timeout q = 10) (test_metrics_history_data_grouping srv start_date end_date)"
  unfolding test_metrics_history_data_grouping_def
  by (intro calls_intros) simp_all

subsection \<open>The scripts as wholes\<close>

lemma test_user_login_functionality_fail_fast: "fail_fast 2 (test_user_login_functionality srv)"
  unfolding test_user_login_functionality_def
  by (rule fail_fast_weaken,
      (rule ff_intros login_valid_check_fail_fast login_invalid_check_fail_fast
       | simp add: required_fields_def valid_groupbys_def)+)

lemma test_user_login_functionality_calls: "calls_satisfy (\<lambda>q. timeout q = 30) (test_user_login_functionality srv)"
  unfolding test_user_login_functionality_def
  by (intro calls_intros login_valid_check_calls login_invalid_check_calls)

lemma test_user_registration_process_fail_fast: "fail_fast 7 (test_user_registration_process srv uuid_hex)"
  unfolding test_user_registration_process_def
  by (rule fail_fast_weaken,
      (rule ff_intros register_valid_check_fail_fast missing_field_check_fail_fast invalid_email_check_fail_fast short_password_check_fail_fast
       | simp add: required_fields_def valid_groupbys_def)+)

lemma test_user_registration_process_calls: "calls_satisfy (\<lambda>q. timeout q = 30) (test_user_registration_process srv uuid_hex)"
  unfolding test_user_registration_process_def
  by (intro calls_intros register_valid_check_calls missing_field_check_calls invalid_email_check_calls short_password_check_calls)

lemma test_utm_link_creation_and_validation_fail_fast: "fail_fast 4 (test_utm_link_creation_and_validation srv)"
  unfolding test_utm_link_creation_and_validation_def
  by (rule fail_fast_weaken,
      (rule ff_intros utm_minimal_check_fail_fast utm_full_check_fail_fast utm_invalid_url_check_fail_fast utm_missing_url_check_fail_fast
       | simp add: required_fields_def valid_groupbys_def)+)

lemma test_utm_link_creation_and_validation_calls: "calls_satisfy (\<lambda>q. timeout q = 30) (test_utm_link_creation_and_validation srv)"
  unfolding test_utm_link_creation_and_validation_def
  by (intro calls_intros utm_minimal_check_calls utm_full_check_calls utm_invalid_url_check_calls utm_missing_url_check_calls)

lemma test_google_ads_oauth_flow_initiation_fail_fast: "fail_fast 3 (test_google_ads_oauth_flow_initiation srv)"
  unfolding test_google_ads_oauth_flow_initiation_def
  by (rule fail_fast_weaken,
      (rule ff_intros oauth_valid_check_fail_fast oauth_missing_check_fail_fast oauth_invalid_check_fail_fast
       | simp add: required_fields_def valid_groupbys_def)+)

lemma test_google_ads_oauth_flow_initiation_calls: "calls_satisfy (\<lambda>q. timeout q = 30) (test_google_ads_oauth_flow_initiation srv)"
  unfolding test_google_ads_oauth_flow_initiation_def
  by (intro calls_intros oauth_valid_check_calls oauth_missing_check_calls oauth_invalid_check_calls)

lemma test_fetch_google_ads_campaigns_fail_fast: "fail_fast 3 (test_fetch_google_ads_campaigns srv)"
  unfolding test_fetch_google_ads_campaigns_def
  by (rule fail_fast_weaken,
      (rule ff_intros campaigns_valid_check_fail_fast campaigns_missing_check_fail_fast campaigns_invalid_check_fail_fast
       | simp add: required_fields_def valid_groupbys_def)+)

lemma test_fetch_google_ads_campaigns_calls: "calls_satisfy (\<lambda>q. timeout q = 30) (test_fetch_google_ads_campaigns srv)"
  unfolding test_fetch_google_ads_campaigns_def
  by (intro calls_intros campaigns_valid_check_calls campaigns_missing_check_calls campaigns_invalid_check_calls)

lemma test_dashboard_metrics_retrieval_fail_fast: "fail_fast 5 (test_dashboard_metrics_retrieval srv)"
  unfolding test_dashboard_metrics_retrieval_def
  by (rule fail_fast_weaken,
      (rule ff_intros get_auth_token_fail_fast dashboard_valid_check_fail_fast dashboard_missing_check_fail_fast dashboard_invalid_start_check_fail_fast dashboard_invalid_end_check_fail_fast
       | simp add: required_fields_def valid_groupbys_def)+)

lemma test_dashboard_metrics_retrieval_calls: "calls_satisfy (\<lambda>q. timeout q = 30) (test_dashboard_metrics_retrieval srv)"
  unfolding test_dashboard_metrics_retrieval_def
  by (intro calls_intros get_auth_token_calls dashboard_valid_check_calls dashboard_missing_check_calls dashboard_invalid_start_check_calls dashboard_invalid_end_check_calls)

lemma test_metrics_history_data_retrieval_fail_fast: "fail_fast 4 (test_metrics_history_data_retrieval srv)"
  unfolding test_metrics_history_data_retrieval_def
  by (rule fail_fast_weaken,
      (rule ff_intros history_valid_check_fail_fast history_invalid_check_fail_fast
       | simp add: required_fields_def valid_groupbys_def)+)

lemma test_metrics_history_data_retrieval_calls: "calls_satisfy (\<lambda>q. timeout q = 30) (test_metrics_history_data_retrieval srv)"
  unfolding test_metrics_history_data_retrieval_def
  by (intro calls_intros history_valid_check_calls history_invalid_check_calls)

lemma test_roas_roi_analysis_report_generation_fail_fast: "fail_fast 5 (test_roas_roi_analysis_report_generation srv)"
  unfolding test_roas_roi_analysis_report_generation_def
  by (rule fail_fast_weaken,
      (rule ff_intros roas_valid_check_fail_fast roas_bad_dates_check_fail_fast
       | simp add: required_fields_def valid_groupbys_def)+)

lemma test_roas_roi_analysis_report_generation_calls: "calls_satisfy (\<lambda>q. timeout q = 30) (test_roas_roi_analysis_report_generation srv)"
  unfolding test_roas_roi_analysis_report_generation_def
  by (intro calls_intros roas_valid_check_calls roas_bad_dates_check_calls)

lemma test_whatsapp_message_sending_fail_fast: "fail_fast 5 (test_whatsapp_message_sending srv)"
  unfolding test_whatsapp_message_sending_def
  by (rule fail_fast_weaken,
      (rule ff_intros whatsapp_valid_check_fail_fast whatsapp_bad_payload_check_fail_fast
       | simp add: required_fields_def valid_groupbys_def)+)

lemma test_whatsapp_message_sending_calls: "calls_satisfy (\<lambda>q. timeout q = 30) (test_whatsapp_message_sending srv)"
  unfolding test_whatsapp_message_sending_def
  by (intro calls_intros whatsapp_valid_check_calls whatsapp_bad_payload_check_calls)

lemma test_billing_subscription_management_fail_fast:
  "fail_fast 6 (test_billing_subscription_management srv clk fl)"
  unfolding test_billing_subscription_management_def
  by (rule fail_fast_weaken,
      (rule ff_intros subscription_details_check_fail_fast performance_check_fail_fast | simp)+)

lemma test_billing_subscription_management_calls:
  "calls_satisfy (\<lambda>q. timeout q = 30) (test_billing_subscription_management srv clk fl)"
  unfolding test_billing_subscription_management_def
  by (intro calls_intros subscription_details_check_calls performance_check_calls)

lemma test_metrics_history_data_grouping_fail_fast:
  "fail_fast 1 (test_metrics_history_data_grouping srv start_date end_date)"
  unfolding test_metrics_history_data_grouping_def
  by (rule fail_fast_weaken,
      (rule ff_intros | (simp only: exn_str.simps, (rule str_in_append2)+, assumption) | simp)+)

lemma corpus_fail_fast_all:
  "list_all (\<lambda>(name, n, T). fail_fast n T) (corpus srv clk fl uuid_hex start_date end_date)"
  unfolding corpus_def
  by (simp del: One_nat_def add: test_user_login_functionality_fail_fast test_user_registration_process_fail_fast
    test_utm_link_creation_and_validation_fail_fast test_google_ads_oauth_flow_initiation_fail_fast
    test_fetch_google_ads_campaigns_fail_fast test_dashboard_metrics_retrieval_fail_fast
    test_metrics_history_data_grouping_fail_fast test_metrics_history_data_retrieval_fail_fast
    test_roas_roi_analysis_report_generation_fail_fast
    test_billing_subscription_management_fail_fast test_whatsapp_message_sending_fail_fast)

lemma corpus_fail_fast:
  assumes "(name, n, T) \<in> set (corpus srv clk fl uuid_hex start_date end_date)"
  shows "fail_fast n T"
  using corpus_fail_fast_all[of srv clk fl uuid_hex start_date end_date] assms
  unfolding list_all_iff by fastforce

lemma corpus_timeouts_all:
  "list_all (\<lambda>(name, n, T).
      calls_satisfy
        (\<lambda>q. timeout q = (if name = ''TC007_metrics_history_data_grouping'' then 10 else 30)) T)
     (corpus srv clk fl uuid_hex start_date end_date)"
  unfolding corpus_def
  by (simp add: test_user_login_functionality_calls test_user_registration_process_calls
      test_utm_link_creation_and_validation_calls test_google_ads_oauth_flow_initiation_calls
      test_fetch_google_ads_campaigns_calls test_dashboard_metrics_retrieval_calls
      grouping_calls test_metrics_history_data_retrieval_calls
      test_roas_roi_analysis_report_generation_calls
      test_billing_subscription_management_calls test_whatsapp_message_sending_calls)

lemma fail_fast_run:
  assumes "fail_fast n T"
  shows "length (log (snd (T (start w)))) \<le> n \<and>
         (\<forall>q t. (q, TransportError t) \<in> set (log (snd (T (start w)))) \<longrightarrow>
            (\<exists>pre x. log (snd (T (start w))) = pre @ [(q, TransportError t)] \<and>
               no_failure pre \<and> fst (T (start w)) = Inl x \<and> str_in t (exn_str x)))"
proof -
  from assms obtain new where n0: "log (snd (T (start w))) = log (start w) @ new"
    and n1: "length new \<le> n"
    and c: "no_failure new \<or>
         (\<exists>pre q t x. new = pre @ [(q, TransportError t)] \<and> no_failure pre \<and>
            fst (T (start w)) = Inl x \<and> str_in t (exn_str x))"
    unfolding fail_fast_def by blast
  from n0 n1 have n: "log (snd (T (start w))) = new" "length new \<le> n"
    by (simp_all add: start_def)
  have "\<exists>pre x. new = pre @ [(q, TransportError t)] \<and>
               no_failure pre \<and> fst (T (start w)) = Inl x \<and> str_in t (exn_str x)"
    if m: "(q, TransportError t) \<in> set new" for q t
    using c
  proof
    assume "no_failure new"
    with m have "is_response (TransportError t)"
      unfolding no_failure_def list_all_iff by fastforce
    then show ?thesis by simp
  next
    assume "\<exists>pre q t x. new = pre @ [(q, TransportError t)] \<and> no_failure pre \<and>
            fst (T (start w)) = Inl x \<and> str_in t (exn_str x)"
    then obtain pre q' t' x where p: "new = pre @ [(q', TransportError t')]" "no_failure pre"
      "fst (T (start w)) = Inl x" "str_in t' (exn_str x)" by blast
    have "(q, TransportError t) \<notin> set pre"
      using p(2) unfolding no_failure_def list_all_iff by fastforce
    with m p(1) have "q' = q" "t' = t" by auto
    with p show ?thesis by blast
  qed
  with n show ?thesis by simp
qed

lemma calls_satisfy_run:
  "calls_satisfy P T \<Longrightarrow> (q, r) \<in> set (log (snd (T (start w)))) \<Longrightarrow> P q"
proof -
  assume c: "calls_satisfy P T" and m: "(q, r) \<in> set (log (snd (T (start w))))"
  from c obtain new where "log (snd (T (start w))) = log (start w) @ new"
    "list_all (\<lambda>qr. P (fst qr)) new"
    unfolding calls_satisfy_def by blast
  with m have "(q, r) \<in> set new" "\<forall>qr\<in>set new. P (fst qr)"
    by (simp_all add: start_def list_all_iff)
  then show "P q" by fastforce
qed

section \<open>Accepting runs\<close>

text \<open>
  What it takes for a block of a script to end without an exception. A block that issues
  no call is an expression; a block of one call is accepted exactly when the backend
  answers with a response on which that expression has a value.
\<close>

subsection \<open>Values\<close>

lemma contains_iff:
  "contains key v \<longleftrightarrow>
     (\<exists>kvs. v = JObj kvs \<and> key \<in> fst ` set kvs)
     \<or> (\<exists>xs. v = JArr xs \<and> JStr key \<in> set xs)
     \<or> (\<exists>s. v = JStr s \<and> sublist key s)"
  by (cases v) (auto simp: contains_def str_in_def)

lemma is_dict_iff: "is_dict v \<longleftrightarrow> (\<exists>kvs. v = JObj kvs)"
  by (cases v) auto

lemma is_list_iff: "is_list v \<longleftrightarrow> (\<exists>xs. v = JArr xs)"
  by (cases v) auto

lemma py_getitem_Inr:
  "py_getitem v key = Inr x \<longleftrightarrow> (\<exists>kvs. v = JObj kvs \<and> map_of kvs key = Some x)"
  by (cases v) (auto split: option.splits)

subsection \<open>Blocks without calls are expressions\<close>

lemma return_lift: "return a = lift (Inr a)"
  by (simp add: return_def lift_def)

lemma bind_lift: "bind (lift e) (\<lambda>a. lift (f a)) = lift (ebind e f)"
  by (auto simp: bind_def lift_def ebind_def fun_eq_iff split: sum.splits)

lemma seq_lift: "seq (lift a) (lift b) = lift (ebind a (\<lambda>u. b))"
  unfolding seq_def by (rule bind_lift)

lemma if_lift: "(if c then lift a else lift b) = lift (if c then a else b)"
  by simp

lemmas to_lift = py_assert_def response_json_def return_lift bind_lift seq_lift if_lift

subsection \<open>One call and its judgement\<close>

lemma judged_call_accepts:
  "fst (bind (send srv q) (\<lambda>r. lift (E r)) s) = Inr a \<longleftrightarrow>
     (\<exists>r. fst (srv q (world s)) = Response r \<and> E r = Inr a)"
  by (auto simp: bind_def send_def lift_def split: prod.splits reply.splits)

lemma judged_call_log:
  "log (snd (bind (send srv q) (\<lambda>r. lift (E r)) s)) = log s @ [(q, fst (srv q (world s)))]"
  by (auto simp: bind_def send_def lift_def split: prod.splits reply.splits)

lemma try_accepts: "fst (try_except c h m s) = Inr a \<longleftrightarrow> fst (m s) = Inr a"
  by (auto simp: try_except_def split: prod.splits sum.splits)

lemma try_snd: "snd (try_except c h m s) = snd (m s)"
  by (auto simp: try_except_def split: prod.splits sum.splits)

lemmas judged = try_accepts try_snd judged_call_accepts judged_call_log

subsection \<open>When an expression has a value\<close>

lemma assert_value: "ebind c (\<lambda>b. if b then Inr () else Inl e) = Inr u \<longleftrightarrow> c = Inr True"
  by (cases c) (auto simp: ebind_def)

lemma seq_value: "ebind a (\<lambda>u. b) = Inr x \<longleftrightarrow> a = Inr () \<and> b = Inr x"
  by (cases a) (auto simp: ebind_def)

lemma json_value:
  "ebind (case body r of Inl t \<Rightarrow> Inl (JSONDecodeError t) | Inr v \<Rightarrow> Inr v) f = Inr x
     \<longleftrightarrow> (\<exists>v. body r = Inr v \<and> f v = Inr x)"
  by (cases "body r") (auto simp: ebind_def)

lemma getitem_value:
  "ebind (py_getitem v key) f = Inr x
     \<longleftrightarrow> (\<exists>kvs y. v = JObj kvs \<and> map_of kvs key = Some y \<and> f y = Inr x)"
  by (cases v) (auto simp: ebind_def split: option.splits)

lemma get_value:
  "ebind (py_get v key d) f = Inr x
     \<longleftrightarrow> (\<exists>kvs. v = JObj kvs \<and> f (case map_of kvs key of Some y \<Rightarrow> y | None \<Rightarrow> d) = Inr x)"
  by (cases v) (auto simp: ebind_def)

lemma cond_or_True:
  "cond_or a b = Inr True \<longleftrightarrow> a = Inr True \<or> (a = Inr False \<and> b = Inr True)"
  by (cases a) (auto simp: cond_or_def ebind_def)

lemma cond_and_True: "cond_and a b = Inr True \<longleftrightarrow> a = Inr True \<and> b = Inr True"
  by (cases a) (auto simp: cond_and_def ebind_def)

lemma ebind_Inr_right: "ebind a Inr = a"
  by (cases a) (auto simp: ebind_def)

lemma map_of_in_keys: "map_of kvs key = Some y \<Longrightarrow> key \<in> fst ` set kvs"
  by (metis map_of_eq_None_iff option.distinct(1))

lemma in_keysI: "(key, y) \<in> set kvs \<Longrightarrow> key \<in> fst ` set kvs"
  by force

lemmas value_rules = assert_value seq_value json_value getitem_value get_value
  cond_or_True cond_and_True

lemma py_any_const_True: "py_any (\<lambda>k. e) xs = Inr True \<longleftrightarrow> xs \<noteq> [] \<and> e = Inr True"
  by (induction xs) (auto simp: ebind_def split: sum.splits)

lemma missing_field_condition:
  "ebind (py_iter v)
     (py_any (\<lambda>key. ebind (py_get v ''message'' d) (\<lambda>m. Inr (P m)))) = Inr True
   \<longleftrightarrow> (\<exists>kvs. v = JObj kvs \<and> kvs \<noteq> [] \<and>
         P (case map_of kvs ''message'' of Some y \<Rightarrow> y | None \<Rightarrow> d))"
  by (cases v) (auto simp: ebind_def py_any_const_True)

lemma message_condition:
  "ebind (py_get v ''message'' d) (\<lambda>m. Inr (P m)) = Inr True
   \<longleftrightarrow> (\<exists>kvs. v = JObj kvs \<and>
         P (case map_of kvs ''message'' of Some y \<Rightarrow> y | None \<Rightarrow> d))"
  by (cases v) (auto simp: ebind_def)

lemma str_in_empty_message:
  assumes "f \<noteq> []"
    and "str_in f (lower (py_str (case map_of kvs ''message'' of Some y \<Rightarrow> y | None \<Rightarrow> JStr [])))"
  shows "\<exists>m. map_of kvs ''message'' = Some m \<and> str_in f (lower (py_str m))"
proof (cases "map_of kvs ''message''")
  case None
  with assms(2) have "str_in f []" by (simp add: py_str_def lower_def)
  with assms(1) show ?thesis by (simp add: str_in_def)
next
  case (Some m)
  with assms(2) show ?thesis by simp
qed

lemma created_link_value:
  "ebind (created_link d) f = Inr x \<longleftrightarrow> (\<exists>a. created_link d = Inr a \<and> f a = Inr x)"
  by (cases "created_link d") (auto simp: ebind_def)

lemma lower_value:
  "ebind (py_lower v) (\<lambda>l. Inr (P l)) = Inr True \<longleftrightarrow> (\<exists>s. v = JStr s \<and> P (lower s))"
  by (cases v) (auto simp: ebind_def)

subsection \<open>Lower case\<close>

text \<open>No upper-case letter survives \<open>lower\<close>, so a text with an upper-case letter
  is never found in a lowered text.\<close>

lemma lower_letters_not_upper:
  "list_all (\<lambda>l. l \<notin> set ''ABCDEFGHIJKLMNOPQRSTUVWXYZ'') ''abcdefghijklmnopqrstuvwxyz''"
  by code_simp

lemma lower_char_not_upper: "lower_char c \<notin> set ''ABCDEFGHIJKLMNOPQRSTUVWXYZ''"
proof (cases "map_of (zip ''ABCDEFGHIJKLMNOPQRSTUVWXYZ'' ''abcdefghijklmnopqrstuvwxyz'') c")
  case None
  have "length ''ABCDEFGHIJKLMNOPQRSTUVWXYZ'' = length ''abcdefghijklmnopqrstuvwxyz''"
    by simp
  then have "dom (map_of (zip ''ABCDEFGHIJKLMNOPQRSTUVWXYZ'' ''abcdefghijklmnopqrstuvwxyz''))
             = set ''ABCDEFGHIJKLMNOPQRSTUVWXYZ''"
    by (rule dom_map_of_zip)
  with None have "c \<notin> set ''ABCDEFGHIJKLMNOPQRSTUVWXYZ''"
    by (metis domIff)
  with None show ?thesis
    by (simp only: lower_char_def option.case simp_thms)
next
  case (Some l)
  then have "(c, l) \<in> set (zip ''ABCDEFGHIJKLMNOPQRSTUVWXYZ'' ''abcdefghijklmnopqrstuvwxyz'')"
    by (rule map_of_SomeD)
  then have "l \<in> set ''abcdefghijklmnopqrstuvwxyz''"
    by (rule set_zip_rightD)
  with lower_letters_not_upper have "l \<notin> set ''ABCDEFGHIJKLMNOPQRSTUVWXYZ''"
    unfolding list_all_iff by blast
  with Some show ?thesis
    by (simp only: lower_char_def option.case simp_thms)
qed

lemma lower_no_upper:
  assumes "u \<in> set ''ABCDEFGHIJKLMNOPQRSTUVWXYZ''"
  shows "u \<notin> set (lower s)"
proof
  assume "u \<in> set (lower s)"
  then obtain c where "u = lower_char c"
    unfolding lower_def by auto
  with lower_char_not_upper[of c] assms show False by simp
qed

lemma str_in_set: "str_in a b \<Longrightarrow> set a \<subseteq> set b"
  unfolding str_in_def by (rule set_mono_sublist)

lemma not_str_in_lower:
  assumes "u \<in> set ''ABCDEFGHIJKLMNOPQRSTUVWXYZ''" and "u \<in> set a"
  shows "\<not> str_in a (lower s)"
  using assms lower_no_upper str_in_set by blast

lemma not_organizationName_in_lower [simp]: "\<not> str_in ''organizationName'' (lower s)"
  by (rule not_str_in_lower[of "CHR ''N''"]) simp_all

lemma not_contentA_in_lower [simp]: "\<not> str_in ''utm_content=contentA'' (lower s)"
  by (rule not_str_in_lower[of "CHR ''A''"]) simp_all

subsection \<open>Sequences of blocks\<close>

lemma seq_accepts:
  "fst (seq m n s) = Inr b \<longleftrightarrow> fst (m s) = Inr () \<and> fst (n (snd (m s))) = Inr b"
  by (cases "m s"; cases "fst (m s)") (auto simp: seq_def bind_def)

lemma bind_accepts:
  "fst (bind m f s) = Inr b \<longleftrightarrow> (\<exists>a. fst (m s) = Inr a \<and> fst (f a (snd (m s))) = Inr b)"
  by (cases "m s"; cases "fst (m s)") (auto simp: bind_def)

lemma bind_snd:
  "snd (bind m f s) = (case fst (m s) of Inl x \<Rightarrow> snd (m s) | Inr a \<Rightarrow> snd (f a (snd (m s))))"
  by (cases "m s"; cases "fst (m s)") (auto simp: bind_def)

lemma seq_snd:
  "snd (seq m n s) = (case fst (m s) of Inl x \<Rightarrow> snd (m s) | Inr a \<Rightarrow> snd (n (snd (m s))))"
  unfolding seq_def by (rule bind_snd)

lemma time_time_run:
  "fst (time_time clk s) = Inr (fst (clk (world s)))"
  "log (snd (time_time clk s)) = log s"
  by (auto simp: time_time_def split: prod.splits)

lemma py_assert_run:
  "fst (py_assert c msg s) = Inr () \<longleftrightarrow> c = Inr True"
  "snd (py_assert c msg s) = s"
  by (cases c; auto simp: py_assert_def lift_def ebind_def)+

lemma py_assert_fst:
  "fst (py_assert c msg s) = ebind c (\<lambda>b. if b then Inr () else Inl (AssertionError msg))"
  by (simp add: py_assert_def lift_def)

lemma get_subscription_run:
  "fst (get_subscription srv s) = Inr r \<longleftrightarrow>
     fst (srv \<lparr>http_method = GET, url = SUBSCRIPTION_ENDPOINT, headers = subscription_headers,
               params = [], json_payload = None, timeout = TIMEOUT\<rparr> (world s)) = Response r"
  "log (snd (get_subscription srv s)) = log s @
     [(\<lparr>http_method = GET, url = SUBSCRIPTION_ENDPOINT, headers = subscription_headers,
        params = [], json_payload = None, timeout = TIMEOUT\<rparr>,
       fst (srv \<lparr>http_method = GET, url = SUBSCRIPTION_ENDPOINT, headers = subscription_headers,
               params = [], json_payload = None, timeout = TIMEOUT\<rparr> (world s)))]"
  by (auto simp: get_subscription_def requests_get_def try_except_def send_def
           split: prod.splits reply.splits)

lemma timed_calls_accepts:
  "fst (timed_calls srv clk fl n acc s) = Inr ts \<Longrightarrow>
     \<exists>rs. length ts = length acc + n \<and> length rs = n \<and> (\<forall>r\<in>set rs. status_code r = 200) \<and>
       log (snd (timed_calls srv clk fl n acc s)) = log s @
         map (\<lambda>r. (\<lparr>http_method = GET, url = SUBSCRIPTION_ENDPOINT, headers = subscription_headers,
                     params = [], json_payload = None, timeout = TIMEOUT\<rparr>, Response r)) rs"
proof (induction n arbitrary: acc s)
  case 0
  then show ?case by (auto simp: return_def)
next
  case (Suc n)
  let ?q = "\<lparr>http_method = GET, url = SUBSCRIPTION_ENDPOINT, headers = subscription_headers,
             params = [], json_payload = None, timeout = TIMEOUT\<rparr>"
  let ?s1 = "snd (time_time clk s)"
  let ?t1 = "fst (clk (world s))"
  let ?s2 = "snd (get_subscription srv ?s1)"
  let ?s3 = "snd (time_time clk ?s2)"
  let ?t2 = "fst (clk (world ?s2))"
  let ?acc = "acc @ [fsub fl ?t2 ?t1]"
  from Suc.prems obtain resp where
    g: "fst (get_subscription srv ?s1) = Inr resp"
    and ok: "status_code resp = 200"
    and rest: "fst (timed_calls srv clk fl n ?acc ?s3) = Inr ts"
    by (auto simp: bind_accepts seq_accepts time_time_run py_assert_run)
  have final: "snd (timed_calls srv clk fl (Suc n) acc s) = snd (timed_calls srv clk fl n ?acc ?s3)"
    using g ok
    by (simp add: bind_snd seq_snd time_time_run py_assert_run py_assert_fst ebind_def)
  from Suc.IH[OF rest] obtain rs where
    rs: "length ts = length ?acc + n" "length rs = n" "\<forall>r\<in>set rs. status_code r = 200"
        "log (snd (timed_calls srv clk fl n ?acc ?s3)) = log ?s3 @ map (\<lambda>r. (?q, Response r)) rs"
    by blast
  have l3: "log ?s3 = log s @ [(?q, Response resp)]"
    using g by (simp add: time_time_run get_subscription_run)
  show ?case
    using rs ok l3 final
    by (intro exI[of _ "resp # rs"]) simp
qed

subsection \<open>Two checks that no response passes\<close>

text \<open>
  \<^verbatim>\<open>TC002\<close>, line 37, looks for the field name as written, \<^verbatim>\<open>organizationName\<close>, in the
  lowered message; \<^verbatim>\<open>TC003\<close>, line 40, looks for \<^verbatim>\<open>utm_content=contentA\<close> in the lowered
  link. Both texts have an upper-case letter, so neither check accepts any response, and
  the registration script as a whole never passes.
\<close>

lemma popped_payload_lacks_field:
  "missing_field \<notin> fst ` set (dict_pop missing_field (register_valid_payload uuid_hex))"
  by (auto simp: dict_pop_def)

lemma organizationName_check_never_passes:
  "fst (missing_field_check srv uuid_hex ''organizationName'' s) \<noteq> Inr ()"
  unfolding missing_field_check_def requests_post_def
  apply (simp only: to_lift judged)
  apply (simp add: value_rules missing_field_condition)
  done

lemma registration_script_never_passes:
  "fst (test_user_registration_process srv uuid_hex s) \<noteq> Inr ()"
  unfolding test_user_registration_process_def required_fields_def for_each.simps
  by (simp add: seq_accepts organizationName_check_never_passes)

lemma utm_full_check_never_passes: "fst (utm_full_check srv s) \<noteq> Inr ()"
  unfolding utm_full_check_def requests_post_def utm_params_def for_each.simps
  apply (simp only: to_lift judged)
  apply (simp add: value_rules ebind_Inr_right created_link_value lower_value not_contentA_in_lower)
  done

section \<open>The durations of the performance test\<close>

lemma time_time_world: "world (snd (time_time clk s)) = snd (clk (world s))"
  by (auto simp: time_time_def split: prod.splits)

lemma get_subscription_world:
  "world (snd (get_subscription srv s)) = snd (srv subscription_request (world s))"
  by (auto simp: get_subscription_def requests_get_def try_except_def send_def
        subscription_request_def split: prod.splits reply.splits)

lemma timed_calls_measures:
  "fst (timed_calls srv clk fl n acc s) = Inr ts \<Longrightarrow>
     ts = acc @ durations fl (readings srv clk n (world s)) \<and>
     (\<exists>rs. length rs = n \<and> (\<forall>r\<in>set rs. status_code r = 200) \<and>
       log (snd (timed_calls srv clk fl n acc s)) = log s @
         map (\<lambda>r. (subscription_request, Response r)) rs)"
proof (induction n arbitrary: acc s)
  case 0
  then show ?case by (auto simp: return_def durations_def)
next
  case (Suc n)
  let ?s1 = "snd (time_time clk s)"
  let ?t1 = "fst (clk (world s))"
  let ?s2 = "snd (get_subscription srv ?s1)"
  let ?s3 = "snd (time_time clk ?s2)"
  let ?t2 = "fst (clk (world ?s2))"
  let ?acc = "acc @ [fsub fl ?t2 ?t1]"
  from Suc.prems obtain resp where
    g: "fst (get_subscription srv ?s1) = Inr resp"
    and ok: "status_code resp = 200"
    and rest: "fst (timed_calls srv clk fl n ?acc ?s3) = Inr ts"
    by (auto simp: bind_accepts seq_accepts time_time_run py_assert_run)
  have final: "snd (timed_calls srv clk fl (Suc n) acc s) = snd (timed_calls srv clk fl n ?acc ?s3)"
    using g ok
    by (simp add: bind_snd seq_snd time_time_run py_assert_run py_assert_fst ebind_def)
  from Suc.IH[OF rest] obtain rs where
    ts: "ts = ?acc @ durations fl (readings srv clk n (world ?s3))"
    and rs: "length rs = n" "\<forall>r\<in>set rs. status_code r = 200"
        "log (snd (timed_calls srv clk fl n ?acc ?s3)) =
           log ?s3 @ map (\<lambda>r. (subscription_request, Response r)) rs"
    by blast
  have w2: "world ?s2 = snd (srv subscription_request (snd (clk (world s))))"
    by (simp add: get_subscription_world time_time_world)
  have w3: "world ?s3 = snd (clk (world ?s2))"
    by (simp add: time_time_world)
  have r: "readings srv clk (Suc n) (world s) = (?t1, ?t2) # readings srv clk n (world ?s3)"
    by (simp add: Let_def w2 w3)
  have l3: "log ?s3 = log s @ [(subscription_request, Response resp)]"
    using g by (simp add: time_time_run get_subscription_run subscription_request_def)
  have "ts = acc @ durations fl (readings srv clk (Suc n) (world s))"
    unfolding r using ts by (simp add: durations_def)
  moreover have "\<exists>rs. length rs = Suc n \<and> (\<forall>r\<in>set rs. status_code r = 200) \<and>
       log (snd (timed_calls srv clk fl (Suc n) acc s)) = log s @
         map (\<lambda>r. (subscription_request, Response r)) rs"
    using rs ok l3 final by (intro exI[of _ "resp # rs"]) simp
  ultimately show ?case by blast
qed

lemma exact_exact_ops: "exact (\<lambda>x. x) exact_ops"
  by (simp add: exact_def exact_ops_def)

lemma length_readings [simp]: "length (readings srv clk n w) = n"
  by (induction n arbitrary: w) (simp_all add: Let_def)

lemma exact_mean:
  assumes "exact val fl"
  shows "flt_int fl (fdiv_len fl (fsum fl (durations fl bes)) (length bes)) k
         = (mean_duration (map (\<lambda>be. (val (fst be), val (snd be))) bes) < of_int k)"
proof -
  have "map val (durations fl bes) = map (\<lambda>be. val (snd be) - val (fst be)) bes"
    using assms by (simp add: durations_def exact_def)
  then show ?thesis
    using assms by (simp add: exact_def mean_duration_def comp_def)
qed

section \<open>The order of the calls\<close>

subsection \<open>Lists of calls that follow a plan\<close>

lemma follows_Nil_failed [simp]: "follows p [] False"
  by (cases p) simp_all

lemma follows_failed_append: "follows p es False \<Longrightarrow> follows (p @ p') es False"
  by (induction p es "False" rule: follows.induct) (auto split: if_splits)

lemma follows_passed_append:
  "follows p es True \<Longrightarrow> follows p' es' b \<Longrightarrow> follows (p @ p') (es @ es') b"
  by (induction p es "True" rule: follows.induct) (auto split: if_splits)

lemma follows_length: "follows p es b \<Longrightarrow> length es \<le> length p"
  by (induction p es b rule: follows.induct) (auto split: if_splits)

lemma passes_simps [simp]: "passes (Inr a)" "\<not> passes (Inl x)"
  by (simp_all add: passes_def)

lemma passes_iff: "passes r \<longleftrightarrow> (\<exists>a. r = Inr a)"
  by (cases r) auto

lemma orderly_pure:
  "orderly [] (return a)" "orderly [] (lift e)" "orderly [] (py_assert c msg)"
  "orderly [] (response_json r)" "orderly [] (raise_for_status r)" "orderly [] (time_time clk)"
  by (auto simp: orderly_def prog_defs split: prod.splits)

lemma orderly_bind:
  assumes m: "orderly p m" and f: "\<And>a. orderly p' (f a)"
  shows "orderly (p @ p') (bind m f)"
  unfolding orderly_def
proof
  fix s :: "'a run"
  from m obtain es where e: "log (snd (m s)) = log s @ es" "follows p es (passes (fst (m s)))"
    unfolding orderly_def by blast
  show "\<exists>es. log (snd (bind m f s)) = log s @ es \<and>
             follows (p @ p') es (passes (fst (bind m f s)))"
  proof (cases "fst (m s)")
    case (Inl x)
    then have b: "fst (bind m f s) = Inl x" "snd (bind m f s) = snd (m s)"
      by (cases "m s"; auto simp: bind_def)+
    from e Inl have "follows (p @ p') es False"
      by (simp add: follows_failed_append)
    with e b show ?thesis by auto
  next
    case (Inr a)
    then have b: "bind m f s = f a (snd (m s))"
      by (cases "m s") (auto simp: bind_def)
    from f[of a] obtain es' where
      e': "log (snd (f a (snd (m s)))) = log (snd (m s)) @ es'"
          "follows p' es' (passes (fst (f a (snd (m s)))))"
      unfolding orderly_def by blast
    from e Inr have "follows p es True" by simp
    from follows_passed_append[OF this e'(2)] e e' b
    show ?thesis by (intro exI[of _ "es @ es'"]) simp
  qed
qed

lemma orderly_seq: "orderly p m \<Longrightarrow> orderly p' m' \<Longrightarrow> orderly (p @ p') (seq m m')"
  unfolding seq_def by (rule orderly_bind)

lemma orderly_try: "orderly p m \<Longrightarrow> orderly p (try_except c h m)"
proof -
  assume a: "orderly p m"
  have "log (snd (try_except c h m s)) = log (snd (m s))"
       "passes (fst (try_except c h m s)) = passes (fst (m s))" for s
    by (auto simp: try_except_def split: prod.splits sum.splits)
  with a show ?thesis unfolding orderly_def by simp
qed

lemma orderly_for_each:
  assumes "\<And>x. orderly [c x] (f x)"
  shows "orderly (map c xs) (for_each xs f)"
proof (induction xs)
  case Nil
  show ?case by (simp add: orderly_pure)
next
  case (Cons x xs)
  from orderly_seq[OF assms[of x] Cons.IH] show ?case by simp
qed

lemma orderly_block_then:
  "orderly [c] m \<Longrightarrow> orderly p' m' \<Longrightarrow> orderly (c # p') (seq m m')"
  using orderly_seq[of "[c]" m p' m'] by simp

lemma orderly_then_pure:
  "orderly p m \<Longrightarrow> (\<And>a. orderly [] (f a)) \<Longrightarrow> orderly p (bind m f)"
  using orderly_bind[of p m "[]" f] by simp

lemma orderly_pure_then:
  "orderly [] m \<Longrightarrow> (\<And>a. orderly p (f a)) \<Longrightarrow> orderly p (bind m f)"
  using orderly_bind[of "[]" m p f] by simp

lemma orderly_block:
  assumes "\<And>s. log (snd (m s)) = log s @ [(q, fst (srv q (world s)))]"
    and "\<And>s. passes (fst (m s)) = acc (fst (srv q (world s)))"
    and "mq q"
  shows "orderly [(mq, acc)] m"
  unfolding orderly_def
proof
  fix s
  show "\<exists>es. log (snd (m s)) = log s @ es \<and> follows [(mq, acc)] es (passes (fst (m s)))"
    using assms by (intro exI[of _ "[(q, fst (srv q (world s)))]"]) simp
qed

lemma judged_call_fst:
  "fst (bind (send srv q) (\<lambda>r. lift (E r)) s) =
     (case fst (srv q (world s)) of Response r \<Rightarrow> E r
      | TransportError t \<Rightarrow> Inl (RequestException t))"
  by (auto simp: bind_def send_def lift_def split: prod.splits reply.splits)

lemma try_fst:
  "fst (try_except c h m s) =
     (case fst (m s) of Inl x \<Rightarrow> Inl (if c x then h x else x) | Inr a \<Rightarrow> Inr a)"
  by (auto simp: try_except_def split: prod.splits sum.splits)

lemma guarded_call_fst:
  "fst (bind (try_except c h (send srv q)) (\<lambda>r. lift (E r)) s) =
     (case fst (srv q (world s)) of Response r \<Rightarrow> E r
      | TransportError t \<Rightarrow>
          Inl (if c (RequestException t) then h (RequestException t) else RequestException t))"
  by (auto simp: bind_def send_def lift_def try_except_def split: prod.splits reply.splits)

lemma guarded_call_log:
  "log (snd (bind (try_except c h (send srv q)) (\<lambda>r. lift (E r)) s)) =
     log s @ [(q, fst (srv q (world s)))]"
  by (auto simp: bind_def send_def lift_def try_except_def split: prod.splits reply.splits)

lemma replay_start: "fst (replay q (world (start [rep]))) = rep"
  by (simp add: start_def)

lemmas verdict_rules = judged_call_fst try_fst guarded_call_fst replay_start
lemmas log_rules = try_snd judged_call_log guarded_call_log

lemma requests_as_send:
  "requests_post srv u payload hs t = send srv (post_request u payload hs t)"
  "requests_get srv u hs ps t = send srv (get_request u hs ps t)"
  by (simp_all add: requests_post_def requests_get_def post_request_def get_request_def)

subsection \<open>Every block follows its entry\<close>

lemma login_valid_check_orderly:
  "orderly
     [check (post_request (BASE_URL @ LOGIN_ENDPOINT) login_valid_payload login_headers TIMEOUT)
        login_valid_check]
     (login_valid_check srv)"
  unfolding check_def
proof (rule orderly_block)
  show "log (snd (login_valid_check srv s)) = log s @
          [(post_request (BASE_URL @ LOGIN_ENDPOINT) login_valid_payload login_headers TIMEOUT,
            fst (srv (post_request (BASE_URL @ LOGIN_ENDPOINT) login_valid_payload login_headers TIMEOUT)
                   (world s)))]" for s
    unfolding login_valid_check_def requests_as_send
    by (simp only: to_lift log_rules)
  show "passes (fst (login_valid_check srv s)) =
        accepted_by login_valid_check
          (fst (srv (post_request (BASE_URL @ LOGIN_ENDPOINT) login_valid_payload login_headers TIMEOUT)
                   (world s)))" for s
    unfolding accepted_by_def login_valid_check_def requests_as_send
    by (simp only: to_lift verdict_rules)
qed simp

lemma login_invalid_check_orderly:
  "orderly
     [check (post_request (BASE_URL @ LOGIN_ENDPOINT) login_invalid_payload login_headers TIMEOUT)
        login_invalid_check]
     (login_invalid_check srv)"
  unfolding check_def
proof (rule orderly_block)
  show "log (snd (login_invalid_check srv s)) = log s @
          [(post_request (BASE_URL @ LOGIN_ENDPOINT) login_invalid_payload login_headers TIMEOUT,
            fst (srv (post_request (BASE_URL @ LOGIN_ENDPOINT) login_invalid_payload login_headers TIMEOUT)
                   (world s)))]" for s
    unfolding login_invalid_check_def requests_as_send
    by (simp only: to_lift log_rules)
  show "passes (fst (login_invalid_check srv s)) =
        accepted_by login_invalid_check
          (fst (srv (post_request (BASE_URL @ LOGIN_ENDPOINT) login_invalid_payload login_headers TIMEOUT)
                   (world s)))" for s
    unfolding accepted_by_def login_invalid_check_def requests_as_send
    by (simp only: to_lift verdict_rules)
qed simp

lemma register_valid_check_orderly:
  "orderly
     [check (post_request (BASE_URL @ REGISTER_ENDPOINT) (register_valid_payload uuid_hex) register_headers TIMEOUT)
        (\<lambda>srv. register_valid_check srv uuid_hex)]
     (register_valid_check srv uuid_hex)"
  unfolding check_def
proof (rule orderly_block)
  show "log (snd (register_valid_check srv uuid_hex s)) = log s @
          [(post_request (BASE_URL @ REGISTER_ENDPOINT) (register_valid_payload uuid_hex) register_headers TIMEOUT,
            fst (srv (post_request (BASE_URL @ REGISTER_ENDPOINT) (register_valid_payload uuid_hex) register_headers TIMEOUT)
                   (world s)))]" for s
    unfolding register_valid_check_def requests_as_send
    by (simp only: to_lift log_rules)
  show "passes (fst (register_valid_check srv uuid_hex s)) =
        accepted_by (\<lambda>srv. register_valid_check srv uuid_hex)
          (fst (srv (post_request (BASE_URL @ REGISTER_ENDPOINT) (register_valid_payload uuid_hex) register_headers TIMEOUT)
                   (world s)))" for s
    unfolding accepted_by_def register_valid_check_def requests_as_send
    by (simp only: to_lift verdict_rules)
qed simp

lemma missing_field_check_orderly:
  "orderly
     [check (post_request (BASE_URL @ REGISTER_ENDPOINT) (dict_pop missing_field (register_valid_payload uuid_hex)) register_headers TIMEOUT)
        (\<lambda>srv. missing_field_check srv uuid_hex missing_field)]
     (missing_field_check srv uuid_hex missing_field)"
  unfolding check_def
proof (rule orderly_block)
  show "log (snd (missing_field_check srv uuid_hex missing_field s)) = log s @
          [(post_request (BASE_URL @ REGISTER_ENDPOINT) (dict_pop missing_field (register_valid_payload uuid_hex)) register_headers TIMEOUT,
            fst (srv (post_request (BASE_URL @ REGISTER_ENDPOINT) (dict_pop missing_field (register_valid_payload uuid_hex)) register_headers TIMEOUT)
                   (world s)))]" for s
    unfolding missing_field_check_def requests_as_send
    by (simp only: to_lift log_rules)
  show "passes (fst (missing_field_check srv uuid_hex missing_field s)) =
        accepted_by (\<lambda>srv. missing_field_check srv uuid_hex missing_field)
          (fst (srv (post_request (BASE_URL @ REGISTER_ENDPOINT) (dict_pop missing_field (register_valid_payload uuid_hex)) register_headers TIMEOUT)
                   (world s)))" for s
    unfolding accepted_by_def missing_field_check_def requests_as_send
    by (simp only: to_lift verdict_rules)
qed simp

lemma invalid_email_check_orderly:
  "orderly
     [check (post_request (BASE_URL @ REGISTER_ENDPOINT) (dict_set ''email'' (JStr ''invalid-email-format'') (register_valid_payload uuid_hex)) register_headers TIMEOUT)
        (\<lambda>srv. invalid_email_check srv uuid_hex)]
     (invalid_email_check srv uuid_hex)"
  unfolding check_def
proof (rule orderly_block)
  show "log (snd (invalid_email_check srv uuid_hex s)) = log s @
          [(post_request (BASE_URL @ REGISTER_ENDPOINT) (dict_set ''email'' (JStr ''invalid-email-format'') (register_valid_payload uuid_hex)) register_headers TIMEOUT,
            fst (srv (post_request (BASE_URL @ REGISTER_ENDPOINT) (dict_set ''email'' (JStr ''invalid-email-format'') (register_valid_payload uuid_hex)) register_headers TIMEOUT)
                   (world s)))]" for s
    unfolding invalid_email_check_def requests_as_send
    by (simp only: to_lift log_rules)
  show "passes (fst (invalid_email_check srv uuid_hex s)) =
        accepted_by (\<lambda>srv. invalid_email_check srv uuid_hex)
          (fst (srv (post_request (BASE_URL @ REGISTER_ENDPOINT) (dict_set ''email'' (JStr ''invalid-email-format'') (register_valid_payload uuid_hex)) register_headers TIMEOUT)
                   (world s)))" for s
    unfolding accepted_by_def invalid_email_check_def requests_as_send
    by (simp only: to_lift verdict_rules)
qed simp

lemma short_password_check_orderly:
  "orderly
     [check (post_request (BASE_URL @ REGISTER_ENDPOINT) (dict_set ''password'' (JStr ''123'') (register_valid_payload uuid_hex)) register_headers TIMEOUT)
        (\<lambda>srv. short_password_check srv uuid_hex)]
     (short_password_check srv uuid_hex)"
  unfolding check_def
proof (rule orderly_block)
  show "log (snd (short_password_check srv uuid_hex s)) = log s @
          [(post_request (BASE_URL @ REGISTER_ENDPOINT) (dict_set ''password'' (JStr ''123'') (register_valid_payload uuid_hex)) register_headers TIMEOUT,
            fst (srv (post_request (BASE_URL @ REGISTER_ENDPOINT) (dict_set ''password'' (JStr ''123'') (register_valid_payload uuid_hex)) register_headers TIMEOUT)
                   (world s)))]" for s
    unfolding short_password_check_def requests_as_send
    by (simp only: to_lift log_rules)
  show "passes (fst (short_password_check srv uuid_hex s)) =
        accepted_by (\<lambda>srv. short_password_check srv uuid_hex)
          (fst (srv (post_request (BASE_URL @ REGISTER_ENDPOINT) (dict_set ''password'' (JStr ''123'') (register_valid_payload uuid_hex)) register_headers TIMEOUT)
                   (world s)))" for s
    unfolding accepted_by_def short_password_check_def requests_as_send
    by (simp only: to_lift verdict_rules)
qed simp

lemma utm_minimal_check_orderly:
  "orderly
     [check (post_request UTM_CREATE_URL valid_payload_minimal utm_headers TIMEOUT)
        utm_minimal_check]
     (utm_minimal_check srv)"
  unfolding check_def
proof (rule orderly_block)
  show "log (snd (utm_minimal_check srv s)) = log s @
          [(post_request UTM_CREATE_URL valid_payload_minimal utm_headers TIMEOUT,
            fst (srv (post_request UTM_CREATE_URL valid_payload_minimal utm_headers TIMEOUT)
                   (world s)))]" for s
    unfolding utm_minimal_check_def requests_as_send
    by (simp only: to_lift log_rules)
  show "passes (fst (utm_minimal_check srv s)) =
        accepted_by utm_minimal_check
          (fst (srv (post_request UTM_CREATE_URL valid_payload_minimal utm_headers TIMEOUT)
                   (world s)))" for s
    unfolding accepted_by_def utm_minimal_check_def requests_as_send
    by (simp only: to_lift verdict_rules)
qed simp

lemma utm_full_check_orderly:
  "orderly
     [check (post_request UTM_CREATE_URL valid_payload_full utm_headers TIMEOUT)
        utm_full_check]
     (utm_full_check srv)"
  unfolding check_def
proof (rule orderly_block)
  show "log (snd (utm_full_check srv s)) = log s @
          [(post_request UTM_CREATE_URL valid_payload_full utm_headers TIMEOUT,
            fst (srv (post_request UTM_CREATE_URL valid_payload_full utm_headers TIMEOUT)
                   (world s)))]" for s
    unfolding utm_full_check_def requests_as_send utm_params_def for_each.simps
    by (simp only: to_lift log_rules)
  show "passes (fst (utm_full_check srv s)) =
        accepted_by utm_full_check
          (fst (srv (post_request UTM_CREATE_URL valid_payload_full utm_headers TIMEOUT)
                   (world s)))" for s
    unfolding accepted_by_def utm_full_check_def requests_as_send utm_params_def for_each.simps
    by (simp only: to_lift verdict_rules)
qed simp

lemma utm_invalid_url_check_orderly:
  "orderly
     [check (post_request UTM_CREATE_URL [(''originalUrl'', JStr ''htp://bad-url'')] utm_headers TIMEOUT)
        utm_invalid_url_check]
     (utm_invalid_url_check srv)"
  unfolding check_def
proof (rule orderly_block)
  show "log (snd (utm_invalid_url_check srv s)) = log s @
          [(post_request UTM_CREATE_URL [(''originalUrl'', JStr ''htp://bad-url'')] utm_headers TIMEOUT,
            fst (srv (post_request UTM_CREATE_URL [(''originalUrl'', JStr ''htp://bad-url'')] utm_headers TIMEOUT)
                   (world s)))]" for s
    unfolding utm_invalid_url_check_def requests_as_send
    by (simp only: to_lift log_rules)
  show "passes (fst (utm_invalid_url_check srv s)) =
        accepted_by utm_invalid_url_check
          (fst (srv (post_request UTM_CREATE_URL [(''originalUrl'', JStr ''htp://bad-url'')] utm_headers TIMEOUT)
                   (world s)))" for s
    unfolding accepted_by_def utm_invalid_url_check_def requests_as_send
    by (simp only: to_lift verdict_rules)
qed simp

lemma utm_missing_url_check_orderly:
  "orderly
     [check (post_request UTM_CREATE_URL [(''utmSource'', JStr ''newsletter'')] utm_headers TIMEOUT)
        utm_missing_url_check]
     (utm_missing_url_check srv)"
  unfolding check_def
proof (rule orderly_block)
  show "log (snd (utm_missing_url_check srv s)) = log s @
          [(post_request UTM_CREATE_URL [(''utmSource'', JStr ''newsletter'')] utm_headers TIMEOUT,
            fst (srv (post_request UTM_CREATE_URL [(''utmSource'', JStr ''newsletter'')] utm_headers TIMEOUT)
                   (world s)))]" for s
    unfolding utm_missing_url_check_def requests_as_send
    by (simp only: to_lift log_rules)
  show "passes (fst (utm_missing_url_check srv s)) =
        accepted_by utm_missing_url_check
          (fst (srv (post_request UTM_CREATE_URL [(''utmSource'', JStr ''newsletter'')] utm_headers TIMEOUT)
                   (world s)))" for s
    unfolding accepted_by_def utm_missing_url_check_def requests_as_send
    by (simp only: to_lift verdict_rules)
qed simp

lemma oauth_valid_check_orderly:
  "orderly
     [check (post_request oauth_url [(''redirect_uri'', JStr ''https://example.com/oauth/callback'')] oauth_headers TIMEOUT)
        oauth_valid_check]
     (oauth_valid_check srv)"
  unfolding check_def
proof (rule orderly_block)
  show "log (snd (oauth_valid_check srv s)) = log s @
          [(post_request oauth_url [(''redirect_uri'', JStr ''https://example.com/oauth/callback'')] oauth_headers TIMEOUT,
            fst (srv (post_request oauth_url [(''redirect_uri'', JStr ''https://example.com/oauth/callback'')] oauth_headers TIMEOUT)
                   (world s)))]" for s
    unfolding oauth_valid_check_def requests_as_send
    by (simp only: to_lift log_rules)
  show "passes (fst (oauth_valid_check srv s)) =
        accepted_by oauth_valid_check
          (fst (srv (post_request oauth_url [(''redirect_uri'', JStr ''https://example.com/oauth/callback'')] oauth_headers TIMEOUT)
                   (world s)))" for s
    unfolding accepted_by_def oauth_valid_check_def requests_as_send
    by (simp only: to_lift verdict_rules)
qed simp

lemma oauth_missing_check_orderly:
  "orderly
     [check (post_request oauth_url [] oauth_headers TIMEOUT)
        oauth_missing_check]
     (oauth_missing_check srv)"
  unfolding check_def
proof (rule orderly_block)
  show "log (snd (oauth_missing_check srv s)) = log s @
          [(post_request oauth_url [] oauth_headers TIMEOUT,
            fst (srv (post_request oauth_url [] oauth_headers TIMEOUT)
                   (world s)))]" for s
    unfolding oauth_missing_check_def requests_as_send
    by (simp only: to_lift log_rules)
  show "passes (fst (oauth_missing_check srv s)) =
        accepted_by oauth_missing_check
          (fst (srv (post_request oauth_url [] oauth_headers TIMEOUT)
                   (world s)))" for s
    unfolding accepted_by_def oauth_missing_check_def requests_as_send
    by (simp only: to_lift verdict_rules)
qed simp

lemma oauth_invalid_check_orderly:
  "orderly
     [check (post_request oauth_url [(''redirect_uri'', JStr ''not-a-valid-url'')] oauth_headers TIMEOUT)
        oauth_invalid_check]
     (oauth_invalid_check srv)"
  unfolding check_def
proof (rule orderly_block)
  show "log (snd (oauth_invalid_check srv s)) = log s @
          [(post_request oauth_url [(''redirect_uri'', JStr ''not-a-valid-url'')] oauth_headers TIMEOUT,
            fst (srv (post_request oauth_url [(''redirect_uri'', JStr ''not-a-valid-url'')] oauth_headers TIMEOUT)
                   (world s)))]" for s
    unfolding oauth_invalid_check_def requests_as_send
    by (simp only: to_lift log_rules)
  show "passes (fst (oauth_invalid_check srv s)) =
        accepted_by oauth_invalid_check
          (fst (srv (post_request oauth_url [(''redirect_uri'', JStr ''not-a-valid-url'')] oauth_headers TIMEOUT)
                   (world s)))" for s
    unfolding accepted_by_def oauth_invalid_check_def requests_as_send
    by (simp only: to_lift verdict_rules)
qed simp

lemma campaigns_valid_check_orderly:
  "orderly
     [check (get_request campaigns_endpoint campaigns_headers [(''customer_id'', valid_customer_id)] TIMEOUT)
        campaigns_valid_check]
     (campaigns_valid_check srv)"
  unfolding check_def
proof (rule orderly_block)
  show "log (snd (campaigns_valid_check srv s)) = log s @
          [(get_request campaigns_endpoint campaigns_headers [(''customer_id'', valid_customer_id)] TIMEOUT,
            fst (srv (get_request campaigns_endpoint campaigns_headers [(''customer_id'', valid_customer_id)] TIMEOUT)
                   (world s)))]" for s
    unfolding campaigns_valid_check_def requests_as_send
    by (simp only: to_lift log_rules)
  show "passes (fst (campaigns_valid_check srv s)) =
        accepted_by campaigns_valid_check
          (fst (srv (get_request campaigns_endpoint campaigns_headers [(''customer_id'', valid_customer_id)] TIMEOUT)
                   (world s)))" for s
    unfolding accepted_by_def campaigns_valid_check_def requests_as_send
    by (simp only: to_lift verdict_rules)
qed simp

lemma campaigns_missing_check_orderly:
  "orderly
     [check (get_request campaigns_endpoint campaigns_headers [] TIMEOUT)
        campaigns_missing_check]
     (campaigns_missing_check srv)"
  unfolding check_def
proof (rule orderly_block)
  show "log (snd (campaigns_missing_check srv s)) = log s @
          [(get_request campaigns_endpoint campaigns_headers [] TIMEOUT,
            fst (srv (get_request campaigns_endpoint campaigns_headers [] TIMEOUT)
                   (world s)))]" for s
    unfolding campaigns_missing_check_def requests_as_send
    by (simp only: to_lift log_rules)
  show "passes (fst (campaigns_missing_check srv s)) =
        accepted_by campaigns_missing_check
          (fst (srv (get_request campaigns_endpoint campaigns_headers [] TIMEOUT)
                   (world s)))" for s
    unfolding accepted_by_def campaigns_missing_check_def requests_as_send
    by (simp only: to_lift verdict_rules)
qed simp

lemma campaigns_invalid_check_orderly:
  "orderly
     [check (get_request campaigns_endpoint campaigns_headers [(''customer_id'', invalid_customer_id)] TIMEOUT)
        campaigns_invalid_check]
     (campaigns_invalid_check srv)"
  unfolding check_def
proof (rule orderly_block)
  show "log (snd (campaigns_invalid_check srv s)) = log s @
          [(get_request campaigns_endpoint campaigns_headers [(''customer_id'', invalid_customer_id)] TIMEOUT,
            fst (srv (get_request campaigns_endpoint campaigns_headers [(''customer_id'', invalid_customer_id)] TIMEOUT)
                   (world s)))]" for s
    unfolding campaigns_invalid_check_def requests_as_send
    by (simp only: to_lift log_rules)
  show "passes (fst (campaigns_invalid_check srv s)) =
        accepted_by campaigns_invalid_check
          (fst (srv (get_request campaigns_endpoint campaigns_headers [(''customer_id'', invalid_customer_id)] TIMEOUT)
                   (world s)))" for s
    unfolding accepted_by_def campaigns_invalid_check_def requests_as_send
    by (simp only: to_lift verdict_rules)
qed simp

lemma get_auth_token_orderly:
  "orderly
     [check (post_request (BASE_URL @ ''/api/v1/auth/login'') [(''email'', JStr email), (''password'', JStr password)] [] TIMEOUT)
        (\<lambda>srv. get_auth_token srv email password)]
     (get_auth_token srv email password)"
  unfolding check_def
proof (rule orderly_block)
  show "log (snd (get_auth_token srv email password s)) = log s @
          [(post_request (BASE_URL @ ''/api/v1/auth/login'') [(''email'', JStr email), (''password'', JStr password)] [] TIMEOUT,
            fst (srv (post_request (BASE_URL @ ''/api/v1/auth/login'') [(''email'', JStr email), (''password'', JStr password)] [] TIMEOUT)
                   (world s)))]" for s
    unfolding get_auth_token_def requests_as_send raise_for_status_def
    by (simp only: to_lift log_rules)
  show "passes (fst (get_auth_token srv email password s)) =
        accepted_by (\<lambda>srv. get_auth_token srv email password)
          (fst (srv (post_request (BASE_URL @ ''/api/v1/auth/login'') [(''email'', JStr email), (''password'', JStr password)] [] TIMEOUT)
                   (world s)))" for s
    unfolding accepted_by_def get_auth_token_def requests_as_send raise_for_status_def
    by (simp only: to_lift verdict_rules)
qed simp

lemma test_metrics_history_data_grouping_orderly:
  "orderly
     [check (get_request grouping_url grouping_headers (grouping_params start_date end_date) 10)
        (\<lambda>srv. test_metrics_history_data_grouping srv start_date end_date)]
     (test_metrics_history_data_grouping srv start_date end_date)"
  unfolding check_def
proof (rule orderly_block)
  show "log (snd (test_metrics_history_data_grouping srv start_date end_date s)) = log s @
          [(get_request grouping_url grouping_headers (grouping_params start_date end_date) 10,
            fst (srv (get_request grouping_url grouping_headers (grouping_params start_date end_date) 10)
                   (world s)))]" for s
    unfolding test_metrics_history_data_grouping_def requests_as_send
    by (simp only: to_lift log_rules)
  show "passes (fst (test_metrics_history_data_grouping srv start_date end_date s)) =
        accepted_by (\<lambda>srv. test_metrics_history_data_grouping srv start_date end_date)
          (fst (srv (get_request grouping_url grouping_headers (grouping_params start_date end_date) 10)
                   (world s)))" for s
    unfolding accepted_by_def test_metrics_history_data_grouping_def requests_as_send
    by (simp only: to_lift verdict_rules)
qed simp

lemma history_valid_check_orderly:
  "orderly
     [check (get_request history_endpoint history_headers [(''groupBy'', groupby)] TIMEOUT)
        (\<lambda>srv. history_valid_check srv groupby)]
     (history_valid_check srv groupby)"
  unfolding check_def
proof (rule orderly_block)
  show "log (snd (history_valid_check srv groupby s)) = log s @
          [(get_request history_endpoint history_headers [(''groupBy'', groupby)] TIMEOUT,
            fst (srv (get_request history_endpoint history_headers [(''groupBy'', groupby)] TIMEOUT)
                   (world s)))]" for s
    unfolding history_valid_check_def requests_as_send
    by (simp only: to_lift log_rules)
  show "passes (fst (history_valid_check srv groupby s)) =
        accepted_by (\<lambda>srv. history_valid_check srv groupby)
          (fst (srv (get_request history_endpoint history_headers [(''groupBy'', groupby)] TIMEOUT)
                   (world s)))" for s
    unfolding accepted_by_def history_valid_check_def requests_as_send
    by (simp only: to_lift verdict_rules)
qed simp

lemma history_invalid_check_orderly:
  "orderly
     [check (get_request history_endpoint history_headers [(''groupBy'', invalid_groupby)] TIMEOUT)
        history_invalid_check]
     (history_invalid_check srv)"
  unfolding check_def
proof (rule orderly_block)
  show "log (snd (history_invalid_check srv s)) = log s @
          [(get_request history_endpoint history_headers [(''groupBy'', invalid_groupby)] TIMEOUT,
            fst (srv (get_request history_endpoint history_headers [(''groupBy'', invalid_groupby)] TIMEOUT)
                   (world s)))]" for s
    unfolding history_invalid_check_def requests_as_send
    by (simp only: to_lift log_rules)
  show "passes (fst (history_invalid_check srv s)) =
        accepted_by history_invalid_check
          (fst (srv (get_request history_endpoint history_headers [(''groupBy'', invalid_groupby)] TIMEOUT)
                   (world s)))" for s
    unfolding accepted_by_def history_invalid_check_def requests_as_send
    by (simp only: to_lift verdict_rules)
qed simp

lemma roas_valid_check_orderly:
  "orderly
     [check (get_request roas_endpoint roas_headers [(''startDate'', ''2024-01-01''), (''endDate'', ''2024-01-31'')] TIMEOUT)
        roas_valid_check]
     (roas_valid_check srv)"
  unfolding check_def
proof (rule orderly_block)
  show "log (snd (roas_valid_check srv s)) = log s @
          [(get_request roas_endpoint roas_headers [(''startDate'', ''2024-01-01''), (''endDate'', ''2024-01-31'')] TIMEOUT,
            fst (srv (get_request roas_endpoint roas_headers [(''startDate'', ''2024-01-01''), (''endDate'', ''2024-01-31'')] TIMEOUT)
                   (world s)))]" for s
    unfolding roas_valid_check_def requests_as_send raise_for_status_def
    by (simp only: to_lift log_rules)
  show "passes (fst (roas_valid_check srv s)) =
        accepted_by roas_valid_check
          (fst (srv (get_request roas_endpoint roas_headers [(''startDate'', ''2024-01-01''), (''endDate'', ''2024-01-31'')] TIMEOUT)
                   (world s)))" for s
    unfolding accepted_by_def roas_valid_check_def requests_as_send raise_for_status_def
    by (simp only: to_lift verdict_rules)
qed simp

lemma roas_bad_dates_check_orderly:
  "orderly
     [check (get_request roas_endpoint roas_headers ps TIMEOUT)
        (\<lambda>srv. roas_bad_dates_check srv ps what)]
     (roas_bad_dates_check srv ps what)"
  unfolding check_def
proof (rule orderly_block)
  show "log (snd (roas_bad_dates_check srv ps what s)) = log s @
          [(get_request roas_endpoint roas_headers ps TIMEOUT,
            fst (srv (get_request roas_endpoint roas_headers ps TIMEOUT)
                   (world s)))]" for s
    unfolding roas_bad_dates_check_def requests_as_send
    by (simp only: to_lift log_rules)
  show "passes (fst (roas_bad_dates_check srv ps what s)) =
        accepted_by (\<lambda>srv. roas_bad_dates_check srv ps what)
          (fst (srv (get_request roas_endpoint roas_headers ps TIMEOUT)
                   (world s)))" for s
    unfolding accepted_by_def roas_bad_dates_check_def requests_as_send
    by (simp only: to_lift verdict_rules)
qed simp

lemma subscription_details_check_orderly:
  "orderly
     [check (get_request SUBSCRIPTION_ENDPOINT subscription_headers [] TIMEOUT)
        subscription_details_check]
     (subscription_details_check srv)"
  unfolding check_def
proof (rule orderly_block)
  show "log (snd (subscription_details_check srv s)) = log s @
          [(get_request SUBSCRIPTION_ENDPOINT subscription_headers [] TIMEOUT,
            fst (srv (get_request SUBSCRIPTION_ENDPOINT subscription_headers [] TIMEOUT)
                   (world s)))]" for s
    unfolding subscription_details_check_def requests_as_send get_subscription_def
    by (simp only: to_lift log_rules)
  show "passes (fst (subscription_details_check srv s)) =
        accepted_by subscription_details_check
          (fst (srv (get_request SUBSCRIPTION_ENDPOINT subscription_headers [] TIMEOUT)
                   (world s)))" for s
    unfolding accepted_by_def subscription_details_check_def requests_as_send get_subscription_def
    by (simp only: to_lift verdict_rules)
qed simp

lemma whatsapp_valid_check_orderly:
  "orderly
     [check (post_request whatsapp_url [(''to'', JStr ''+12345678901''), (''message'', JStr ''Test message from automated test.'')] whatsapp_headers TIMEOUT)
        whatsapp_valid_check]
     (whatsapp_valid_check srv)"
  unfolding check_def
proof (rule orderly_block)
  show "log (snd (whatsapp_valid_check srv s)) = log s @
          [(post_request whatsapp_url [(''to'', JStr ''+12345678901''), (''message'', JStr ''Test message from automated test.'')] whatsapp_headers TIMEOUT,
            fst (srv (post_request whatsapp_url [(''to'', JStr ''+12345678901''), (''message'', JStr ''Test message from automated test.'')] whatsapp_headers TIMEOUT)
                   (world s)))]" for s
    unfolding whatsapp_valid_check_def requests_as_send
    by (simp only: to_lift log_rules)
  show "passes (fst (whatsapp_valid_check srv s)) =
        accepted_by whatsapp_valid_check
          (fst (srv (post_request whatsapp_url [(''to'', JStr ''+12345678901''), (''message'', JStr ''Test message from automated test.'')] whatsapp_headers TIMEOUT)
                   (world s)))" for s
    unfolding accepted_by_def whatsapp_valid_check_def requests_as_send
    by (simp only: to_lift verdict_rules)
qed simp

lemma whatsapp_bad_payload_check_orderly:
  "orderly
     [check (post_request whatsapp_url payload whatsapp_headers TIMEOUT)
        (\<lambda>srv. whatsapp_bad_payload_check srv payload what)]
     (whatsapp_bad_payload_check srv payload what)"
  unfolding check_def
proof (rule orderly_block)
  show "log (snd (whatsapp_bad_payload_check srv payload what s)) = log s @
          [(post_request whatsapp_url payload whatsapp_headers TIMEOUT,
            fst (srv (post_request whatsapp_url payload whatsapp_headers TIMEOUT)
                   (world s)))]" for s
    unfolding whatsapp_bad_payload_check_def requests_as_send
    by (simp only: to_lift log_rules)
  show "passes (fst (whatsapp_bad_payload_check srv payload what s)) =
        accepted_by (\<lambda>srv. whatsapp_bad_payload_check srv payload what)
          (fst (srv (post_request whatsapp_url payload whatsapp_headers TIMEOUT)
                   (world s)))" for s
    unfolding accepted_by_def whatsapp_bad_payload_check_def requests_as_send
    by (simp only: to_lift verdict_rules)
qed simp

lemma dashboard_valid_check_orderly:
  "orderly
     [dashboard_check [(''startDate'', ''2025-01-01''), (''endDate'', ''2025-01-31'')]
        (\<lambda>srv. dashboard_valid_check srv JNull)]
     (dashboard_valid_check srv token)"
  unfolding dashboard_check_def
proof (rule orderly_block)
  show "log (snd (dashboard_valid_check srv token s)) = log s @
          [(get_request dashboard_url (dashboard_headers token) [(''startDate'', ''2025-01-01''), (''endDate'', ''2025-01-31'')] TIMEOUT,
            fst (srv (get_request dashboard_url (dashboard_headers token) [(''startDate'', ''2025-01-01''), (''endDate'', ''2025-01-31'')] TIMEOUT)
                   (world s)))]" for s
    unfolding dashboard_valid_check_def requests_as_send raise_for_status_def
    by (simp only: to_lift log_rules)
  show "passes (fst (dashboard_valid_check srv token s)) =
        accepted_by (\<lambda>srv. dashboard_valid_check srv JNull)
          (fst (srv (get_request dashboard_url (dashboard_headers token) [(''startDate'', ''2025-01-01''), (''endDate'', ''2025-01-31'')] TIMEOUT)
                   (world s)))" for s
    unfolding accepted_by_def dashboard_valid_check_def requests_as_send raise_for_status_def
    by (simp only: to_lift verdict_rules)
  show "get_request dashboard_url (dashboard_headers token) [(''startDate'', ''2025-01-01''), (''endDate'', ''2025-01-31'')] TIMEOUT
          = get_request dashboard_url
              (bearer_headers (drop 7 (snd (last (headers
                 (get_request dashboard_url (dashboard_headers token) [(''startDate'', ''2025-01-01''), (''endDate'', ''2025-01-31'')] TIMEOUT))))))
              [(''startDate'', ''2025-01-01''), (''endDate'', ''2025-01-31'')] TIMEOUT"
    by (simp add: get_request_def dashboard_headers_def bearer_headers_def)
qed

lemma dashboard_missing_check_orderly:
  "orderly
     [dashboard_check []
        (\<lambda>srv. dashboard_missing_check srv JNull)]
     (dashboard_missing_check srv token)"
  unfolding dashboard_check_def
proof (rule orderly_block)
  show "log (snd (dashboard_missing_check srv token s)) = log s @
          [(get_request dashboard_url (dashboard_headers token) [] TIMEOUT,
            fst (srv (get_request dashboard_url (dashboard_headers token) [] TIMEOUT)
                   (world s)))]" for s
    unfolding dashboard_missing_check_def requests_as_send
    by (simp only: to_lift log_rules)
  show "passes (fst (dashboard_missing_check srv token s)) =
        accepted_by (\<lambda>srv. dashboard_missing_check srv JNull)
          (fst (srv (get_request dashboard_url (dashboard_headers token) [] TIMEOUT)
                   (world s)))" for s
    unfolding accepted_by_def dashboard_missing_check_def requests_as_send
    by (simp only: to_lift verdict_rules)
  show "get_request dashboard_url (dashboard_headers token) [] TIMEOUT
          = get_request dashboard_url
              (bearer_headers (drop 7 (snd (last (headers
                 (get_request dashboard_url (dashboard_headers token) [] TIMEOUT))))))
              [] TIMEOUT"
    by (simp add: get_request_def dashboard_headers_def bearer_headers_def)
qed

lemma dashboard_invalid_start_check_orderly:
  "orderly
     [dashboard_check [(''startDate'', ''invalid-date''), (''endDate'', ''2025-01-31'')]
        (\<lambda>srv. dashboard_invalid_start_check srv JNull)]
     (dashboard_invalid_start_check srv token)"
  unfolding dashboard_check_def
proof (rule orderly_block)
  show "log (snd (dashboard_invalid_start_check srv token s)) = log s @
          [(get_request dashboard_url (dashboard_headers token) [(''startDate'', ''invalid-date''), (''endDate'', ''2025-01-31'')] TIMEOUT,
            fst (srv (get_request dashboard_url (dashboard_headers token) [(''startDate'', ''invalid-date''), (''endDate'', ''2025-01-31'')] TIMEOUT)
                   (world s)))]" for s
    unfolding dashboard_invalid_start_check_def requests_as_send
    by (simp only: to_lift log_rules)
  show "passes (fst (dashboard_invalid_start_check srv token s)) =
        accepted_by (\<lambda>srv. dashboard_invalid_start_check srv JNull)
          (fst (srv (get_request dashboard_url (dashboard_headers token) [(''startDate'', ''invalid-date''), (''endDate'', ''2025-01-31'')] TIMEOUT)
                   (world s)))" for s
    unfolding accepted_by_def dashboard_invalid_start_check_def requests_as_send
    by (simp only: to_lift verdict_rules)
  show "get_request dashboard_url (dashboard_headers token) [(''startDate'', ''invalid-date''), (''endDate'', ''2025-01-31'')] TIMEOUT
          = get_request dashboard_url
              (bearer_headers (drop 7 (snd (last (headers
                 (get_request dashboard_url (dashboard_headers token) [(''startDate'', ''invalid-date''), (''endDate'', ''2025-01-31'')] TIMEOUT))))))
              [(''startDate'', ''invalid-date''), (''endDate'', ''2025-01-31'')] TIMEOUT"
    by (simp add: get_request_def dashboard_headers_def bearer_headers_def)
qed

lemma dashboard_invalid_end_check_orderly:
  "orderly
     [dashboard_check [(''startDate'', ''2025-01-01''), (''endDate'', ''31-01-2025'')]
        (\<lambda>srv. dashboard_invalid_end_check srv JNull)]
     (dashboard_invalid_end_check srv token)"
  unfolding dashboard_check_def
proof (rule orderly_block)
  show "log (snd (dashboard_invalid_end_check srv token s)) = log s @
          [(get_request dashboard_url (dashboard_headers token) [(''startDate'', ''2025-01-01''), (''endDate'', ''31-01-2025'')] TIMEOUT,
            fst (srv (get_request dashboard_url (dashboard_headers token) [(''startDate'', ''2025-01-01''), (''endDate'', ''31-01-2025'')] TIMEOUT)
                   (world s)))]" for s
    unfolding dashboard_invalid_end_check_def requests_as_send
    by (simp only: to_lift log_rules)
  show "passes (fst (dashboard_invalid_end_check srv token s)) =
        accepted_by (\<lambda>srv. dashboard_invalid_end_check srv JNull)
          (fst (srv (get_request dashboard_url (dashboard_headers token) [(''startDate'', ''2025-01-01''), (''endDate'', ''31-01-2025'')] TIMEOUT)
                   (world s)))" for s
    unfolding accepted_by_def dashboard_invalid_end_check_def requests_as_send
    by (simp only: to_lift verdict_rules)
  show "get_request dashboard_url (dashboard_headers token) [(''startDate'', ''2025-01-01''), (''endDate'', ''31-01-2025'')] TIMEOUT
          = get_request dashboard_url
              (bearer_headers (drop 7 (snd (last (headers
                 (get_request dashboard_url (dashboard_headers token) [(''startDate'', ''2025-01-01''), (''endDate'', ''31-01-2025'')] TIMEOUT))))))
              [(''startDate'', ''2025-01-01''), (''endDate'', ''31-01-2025'')] TIMEOUT"
    by (simp add: get_request_def dashboard_headers_def bearer_headers_def)
qed

subsection \<open>The loop of \<^verbatim>\<open>TC009\<close>\<close>

lemma subscription_request_eq:
  "subscription_request = get_request SUBSCRIPTION_ENDPOINT subscription_headers [] TIMEOUT"
  by (simp add: subscription_request_def get_request_def)

lemma orderly_pure_seq: "orderly [] m \<Longrightarrow> orderly p n \<Longrightarrow> orderly p (seq m n)"
  using orderly_seq[of "[]" m p n] by simp

lemma orderly_call_then:
  fixes m :: "('w, response) prog"
  assumes lg: "\<And>s. log (snd (m s)) = log s @ [(q, fst (srv q (world s)))]"
    and res: "\<And>s r. fst (srv q (world s)) = Response r \<Longrightarrow> fst (m s) = Inr r"
    and err: "\<And>s t. fst (srv q (world s)) = TransportError t \<Longrightarrow> \<not> passes (fst (m s))"
    and ok: "\<And>r. acc (Response r) \<Longrightarrow> orderly p (f r)"
    and bad: "\<And>r s. \<not> acc (Response r) \<Longrightarrow> \<not> passes (fst (f r s)) \<and> log (snd (f r s)) = log s"
    and mq: "mq q"
  shows "orderly ((mq, acc) # p) (bind m f)"
  unfolding orderly_def
proof
  fix s :: "'w run"
  let ?rep = "fst (srv q (world s))"
  show "\<exists>es. log (snd (bind m f s)) = log s @ es \<and>
             follows ((mq, acc) # p) es (passes (fst (bind m f s)))"
  proof (cases ?rep)
    case (TransportError t)
    from err[OF this] obtain x where x: "fst (m s) = Inl x"
      by (cases "fst (m s)") simp_all
    then have b: "fst (bind m f s) = Inl x" "snd (bind m f s) = snd (m s)"
      by (cases "m s"; simp add: bind_def)+
    show ?thesis
      using lg[of s] mq by (intro exI[of _ "[(q, ?rep)]"]) (simp add: b)
  next
    case (Response r)
    from res[OF this] have r: "fst (m s) = Inr r" .
    then have b: "bind m f s = f r (snd (m s))"
      by (cases "m s") (simp add: bind_def)
    show ?thesis
    proof (cases "acc (Response r)")
      case True
      from ok[OF this] obtain es where
        es: "log (snd (f r (snd (m s)))) = log (snd (m s)) @ es"
            "follows p es (passes (fst (f r (snd (m s)))))"
        unfolding orderly_def by blast
      show ?thesis
        using es lg[of s] mq True Response
        by (intro exI[of _ "(q, ?rep) # es"]) (simp add: b)
    next
      case False
      from bad[OF this, of "snd (m s)"] show ?thesis
        using lg[of s] mq False Response
        by (intro exI[of _ "[(q, ?rep)]"]) (simp add: b)
    qed
  qed
qed

lemma get_subscription_fst:
  "fst (srv subscription_request (world s)) = Response r \<Longrightarrow> fst (get_subscription srv s) = Inr r"
  "fst (srv subscription_request (world s)) = TransportError t \<Longrightarrow>
     \<not> passes (fst (get_subscription srv s))"
  by (auto simp: get_subscription_def requests_get_def try_except_def send_def
        subscription_request_def split: prod.splits reply.splits)

lemma get_subscription_log:
  "log (snd (get_subscription srv s)) = log s @
     [(subscription_request, fst (srv subscription_request (world s)))]"
  by (auto simp: get_subscription_def requests_get_def try_except_def send_def
        subscription_request_def split: prod.splits reply.splits)

lemma timed_calls_orderly:
  "orderly (replicate n ((=) subscription_request, answered_200))
     (timed_calls srv clk fl n acc)"
proof (induction n arbitrary: acc)
  case 0
  show ?case by (simp add: orderly_pure)
next
  case (Suc n)
  have rest: "orderly (replicate n ((=) subscription_request, answered_200))
      (bind (time_time clk)
         (\<lambda>end_time. seq (py_assert (Inr (status_code r = 200)) msg)
            (timed_calls srv clk fl n (acc' end_time))))" for r msg acc'
    by (intro orderly_pure_then orderly_pure_seq orderly_pure Suc.IH)
  show ?case
    unfolding timed_calls.simps replicate_Suc
  proof (rule orderly_pure_then, rule orderly_pure, rule orderly_call_then)
    show "log (snd (get_subscription srv s)) = log s @
            [(subscription_request, fst (srv subscription_request (world s)))]" for s
      by (rule get_subscription_log)
    show "fst (srv subscription_request (world s)) = Response r \<Longrightarrow>
          fst (get_subscription srv s) = Inr r" for s r
      by (rule get_subscription_fst)
    show "fst (srv subscription_request (world s)) = TransportError t \<Longrightarrow>
          \<not> passes (fst (get_subscription srv s))" for s t
      by (rule get_subscription_fst)
    show "answered_200 (Response r) \<Longrightarrow>
          orderly (replicate n ((=) subscription_request, answered_200))
            (bind (time_time clk)
               (\<lambda>end_time. seq (py_assert (Inr (status_code r = 200))
                    (''Expected 200 during performance test, got '' @ str_int (status_code r)))
                  (timed_calls srv clk fl n (acc @ [fsub fl end_time start_time]))))"
      for r start_time
      by (rule rest)
    show "\<not> answered_200 (Response r) \<Longrightarrow>
          \<not> passes (fst (bind (time_time clk)
               (\<lambda>end_time. seq (py_assert (Inr (status_code r = 200))
                    (''Expected 200 during performance test, got '' @ str_int (status_code r)))
                  (timed_calls srv clk fl n (acc @ [fsub fl end_time start_time]))) s)) \<and>
          log (snd (bind (time_time clk)
               (\<lambda>end_time. seq (py_assert (Inr (status_code r = 200))
                    (''Expected 200 during performance test, got '' @ str_int (status_code r)))
                  (timed_calls srv clk fl n (acc @ [fsub fl end_time start_time]))) s)) = log s"
      for r s start_time
      by (simp add: bind_def seq_def time_time_def py_assert_def lift_def ebind_def
            split: prod.splits)
  qed simp
qed

lemma performance_check_orderly:
  "orderly (replicate 5 ((=) subscription_request, answered_200)) (performance_check srv clk fl)"
  unfolding performance_check_def
  by (rule orderly_then_pure, rule timed_calls_orderly, rule orderly_pure)

subsection \<open>Every script follows its plan\<close>

lemma orderly_block_bind:
  "orderly [c] m \<Longrightarrow> (\<And>a. orderly p' (f a)) \<Longrightarrow> orderly (c # p') (bind m f)"
  using orderly_bind[of "[c]" m p' f] by simp

lemmas orderly_intros = orderly_block_then orderly_block_bind orderly_seq orderly_for_each

lemma test_user_login_functionality_orderly:
  "orderly login_plan (test_user_login_functionality srv)"
  unfolding login_plan_def test_user_login_functionality_def
  by (intro orderly_intros login_valid_check_orderly login_invalid_check_orderly)

lemma test_user_registration_process_orderly:
  "orderly (registration_plan uuid_hex) (test_user_registration_process srv uuid_hex)"
  unfolding registration_plan_def test_user_registration_process_def
  by (intro orderly_intros register_valid_check_orderly missing_field_check_orderly
        invalid_email_check_orderly short_password_check_orderly)

lemma test_utm_link_creation_and_validation_orderly:
  "orderly utm_plan (test_utm_link_creation_and_validation srv)"
  unfolding utm_plan_def test_utm_link_creation_and_validation_def
  by (intro orderly_intros utm_minimal_check_orderly utm_full_check_orderly
        utm_invalid_url_check_orderly utm_missing_url_check_orderly)

lemma test_google_ads_oauth_flow_initiation_orderly:
  "orderly oauth_plan (test_google_ads_oauth_flow_initiation srv)"
  unfolding oauth_plan_def test_google_ads_oauth_flow_initiation_def
  by (intro orderly_intros oauth_valid_check_orderly oauth_missing_check_orderly
        oauth_invalid_check_orderly)

lemma test_fetch_google_ads_campaigns_orderly:
  "orderly campaigns_plan (test_fetch_google_ads_campaigns srv)"
  unfolding campaigns_plan_def test_fetch_google_ads_campaigns_def
  by (intro orderly_intros campaigns_valid_check_orderly campaigns_missing_check_orderly
        campaigns_invalid_check_orderly)

lemma test_dashboard_metrics_retrieval_orderly:
  "orderly dashboard_plan (test_dashboard_metrics_retrieval srv)"
  unfolding dashboard_plan_def test_dashboard_metrics_retrieval_def
  by (intro orderly_intros get_auth_token_orderly dashboard_valid_check_orderly
        dashboard_missing_check_orderly dashboard_invalid_start_check_orderly
        dashboard_invalid_end_check_orderly)

lemma grouping_plan_orderly:
  "orderly (grouping_plan start_date end_date)
     (test_metrics_history_data_grouping srv start_date end_date)"
  unfolding grouping_plan_def by (rule test_metrics_history_data_grouping_orderly)

lemma test_metrics_history_data_retrieval_orderly:
  "orderly history_plan (test_metrics_history_data_retrieval srv)"
  unfolding history_plan_def test_metrics_history_data_retrieval_def
  by (intro orderly_intros history_valid_check_orderly history_invalid_check_orderly)

lemma test_roas_roi_analysis_report_generation_orderly:
  "orderly roas_plan (test_roas_roi_analysis_report_generation srv)"
  unfolding roas_plan_def test_roas_roi_analysis_report_generation_def
  by (intro orderly_intros roas_valid_check_orderly roas_bad_dates_check_orderly)

lemma test_billing_subscription_management_orderly:
  "orderly subscription_plan (test_billing_subscription_management srv clk fl)"
  unfolding subscription_plan_def test_billing_subscription_management_def
  by (intro orderly_intros subscription_details_check_orderly[folded subscription_request_eq]
        performance_check_orderly)

lemma test_whatsapp_message_sending_orderly:
  "orderly whatsapp_plan (test_whatsapp_message_sending srv)"
  unfolding whatsapp_plan_def test_whatsapp_message_sending_def
  by (intro orderly_intros whatsapp_valid_check_orderly whatsapp_bad_payload_check_orderly)

lemma plan_of_simps:
  "plan_of u s e ''TC001_user_login_functionality'' = login_plan"
  "plan_of u s e ''TC002_user_registration_process'' = registration_plan u"
  "plan_of u s e ''TC003_utm_link_creation_and_validation'' = utm_plan"
  "plan_of u s e ''TC004_google_ads_oauth_flow_initiation'' = oauth_plan"
  "plan_of u s e ''TC005_fetch_google_ads_campaigns'' = campaigns_plan"
  "plan_of u s e ''TC006_dashboard_metrics_retrieval'' = dashboard_plan"
  "plan_of u s e ''TC007_metrics_history_data_grouping'' = grouping_plan s e"
  "plan_of u s e ''TC007_metrics_history_data_retrieval'' = history_plan"
  "plan_of u s e ''TC008_roas_roi_analysis_report_generation'' = roas_plan"
  "plan_of u s e ''TC009_billing_subscription_management'' = subscription_plan"
  "plan_of u s e ''TC010_whatsapp_message_sending'' = whatsapp_plan"
  by (simp_all add: plan_of_def plans_def)

lemma plan_lengths:
  "length login_plan = 2"
  "length (registration_plan u) = 7"
  "length utm_plan = 4"
  "length oauth_plan = 3"
  "length campaigns_plan = 3"
  "length dashboard_plan = 5"
  "length (grouping_plan s e) = 1"
  "length history_plan = 4"
  "length roas_plan = 5"
  "length subscription_plan = 6"
  "length whatsapp_plan = 5"
  by (simp_all add: login_plan_def registration_plan_def utm_plan_def oauth_plan_def
        campaigns_plan_def dashboard_plan_def grouping_plan_def history_plan_def roas_plan_def
        subscription_plan_def whatsapp_plan_def required_fields_def valid_groupbys_def)

lemmas scripts_orderly =
  test_user_login_functionality_orderly test_user_registration_process_orderly
  test_utm_link_creation_and_validation_orderly test_google_ads_oauth_flow_initiation_orderly
  test_fetch_google_ads_campaigns_orderly test_dashboard_metrics_retrieval_orderly
  grouping_plan_orderly test_metrics_history_data_retrieval_orderly
  test_roas_roi_analysis_report_generation_orderly test_billing_subscription_management_orderly
  test_whatsapp_message_sending_orderly

lemma corpus_orderly_all:
  "list_all (\<lambda>(name, n, T).
       orderly (plan_of uuid_hex start_date end_date name) T \<and>
       length (plan_of uuid_hex start_date end_date name) = n)
     (corpus srv clk fl uuid_hex start_date end_date)"
  unfolding corpus_def
  by (simp only: list.pred_inject prod.case plan_of_simps plan_lengths scripts_orderly simp_thms)

lemma corpus_orderly:
  assumes "(name, n, T) \<in> set (corpus srv clk fl uuid_hex start_date end_date)"
  shows "orderly (plan_of uuid_hex start_date end_date name) T"
    and "length (plan_of uuid_hex start_date end_date name) = n"
  using corpus_orderly_all[of uuid_hex start_date end_date srv clk fl] assms
  unfolding list_all_iff by fastforce+

lemma orderly_run:
  "orderly p m \<Longrightarrow> follows p (log (snd (m (start w)))) (passes (fst (m (start w))))"
  unfolding orderly_def
proof -
  assume "\<forall>s. \<exists>es. log (snd (m s)) = log s @ es \<and> follows p es (passes (fst (m s)))"
  then obtain es where "log (snd (m (start w))) = log (start w) @ es"
    "follows p es (passes (fst (m (start w))))" by blast
  then show ?thesis by (simp add: start_def)
qed

subsection \<open>Runs on a backend with a clock\<close>

text \<open>Five calls that take half a second each, from midnight.\<close>

lemma five_ok_readings:
  "readings (timed_replay (1 / 2)) wall_clock 5
     (world (start ([json_reply 200 JNull, json_reply 200 JNull, json_reply 200 JNull,
                   json_reply 200 JNull, json_reply 200 JNull], 0)))
   = [(0, 1 / 2), (1 / 2, 1), (1, 3 / 2), (3 / 2, 2), (2, 5 / 2)]"
  by code_simp

lemma five_ok_mean:
  "mean_duration [(0, 1 / 2), (1 / 2, 1), (1, 3 / 2), (3 / 2, 2), (2, 5 / 2)] = 1 / 2"
  by (simp add: mean_duration_def)

text \<open>
  Five answers with status 200 that take 2.2 seconds each: the performance test of
  \<^verbatim>\<open>TC009\<close> fails, on the average it prints.
\<close>

lemma slow_backend_is_rejected:
  "fst (performance_check (timed_replay (11 / 5)) wall_clock exact_ops
          (start ([json_reply 200 JNull, json_reply 200 JNull, json_reply 200 JNull,
                   json_reply 200 JNull, json_reply 200 JNull], 0)))
   = Inl (AssertionError ''Average response time too high: 2.20s'')"
  by code_simp

text \<open>
  A list of calls in which the valid login is sent again after a reply that its check
  refuses does not follow the plan of \<^verbatim>\<open>TC001\<close>, whether the run passed or not.
\<close>

lemma retried_login_is_not_orderly:
  "\<not> follows login_plan
       [(post_request (BASE_URL @ LOGIN_ENDPOINT) login_valid_payload login_headers TIMEOUT,
         json_reply 500 JNull),
        (post_request (BASE_URL @ LOGIN_ENDPOINT) login_valid_payload login_headers TIMEOUT,
         json_reply 200 (JObj [(''token'', JStr ''t'')])),
        (post_request (BASE_URL @ LOGIN_ENDPOINT) login_invalid_payload login_headers TIMEOUT,
         json_reply 401 (JObj [(''error'', JStr ''e'')]))]
       passed"
  by (cases passed; code_simp)

section \<open>The claims\<close>

text \<open>
  C1. For each of the four required fields, the body of the loop of \<^verbatim>\<open>TC002\<close> (lines
  30-37) posts the valid payload without that field, and ends without an exception only
  if the backend answers with status 400 or 422 and a JSON object whose \<^verbatim>\<open>message\<close>
  entry, printed with \<^verbatim>\<open>str\<close> and lowered, contains the field's name as a substring.
\<close>

theorem missing_field_check_accepts_only:
  assumes "missing_field \<in> set required_fields"
    and "fst (missing_field_check srv uuid_hex missing_field s) = Inr ()"
  shows "\<exists>r kvs m.
           fst (srv \<lparr>http_method = POST, url = BASE_URL @ REGISTER_ENDPOINT,
                     headers = register_headers, params = [],
                     json_payload = Some (JObj (dict_pop missing_field
                                                  (register_valid_payload uuid_hex))),
                     timeout = TIMEOUT\<rparr> (world s)) = Response r
         \<and> (status_code r = 400 \<or> status_code r = 422)
         \<and> body r = Inr (JObj kvs)
         \<and> map_of kvs ''message'' = Some m
         \<and> str_in missing_field (lower (py_str m))"
proof -
  from assms(1) have ne: "missing_field \<noteq> []"
    by (auto simp: required_fields_def)
  from assms(2) obtain r kvs where
    r: "fst (srv \<lparr>http_method = POST, url = BASE_URL @ REGISTER_ENDPOINT,
                     headers = register_headers, params = [],
                     json_payload = Some (JObj (dict_pop missing_field
                                                  (register_valid_payload uuid_hex))),
                     timeout = TIMEOUT\<rparr> (world s)) = Response r"
       "status_code r = 400 \<or> status_code r = 422" "body r = Inr (JObj kvs)"
    and c: "str_in missing_field
              (lower (py_str (case map_of kvs ''message'' of Some y \<Rightarrow> y | None \<Rightarrow> JStr [])))"
    unfolding missing_field_check_def requests_post_def
    apply (simp only: to_lift judged)
    apply (simp add: value_rules missing_field_condition)
    apply blast
    done
  from str_in_empty_message[OF ne c] r show ?thesis by blast
qed

text \<open>The check for \<^verbatim>\<open>email\<close> against a backend that answers 400 with a message
  naming the field.\<close>

theorem missing_field_check_accepts_only_witness:
  "''email'' \<in> set required_fields
   \<and> fst (missing_field_check replay ''0f''  ''email''
            (start [json_reply 400 (JObj [(''message'', JStr ''Email is required'')])])) = Inr ()
   \<and> (\<exists>r kvs m.
           fst (replay \<lparr>http_method = POST, url = BASE_URL @ REGISTER_ENDPOINT,
                     headers = register_headers, params = [],
                     json_payload = Some (JObj (dict_pop ''email'' (register_valid_payload ''0f''))),
                     timeout = TIMEOUT\<rparr>
                  (world (start [json_reply 400 (JObj [(''message'', JStr ''Email is required'')])])))
             = Response r
         \<and> (status_code r = 400 \<or> status_code r = 422)
         \<and> body r = Inr (JObj kvs)
         \<and> map_of kvs ''message'' = Some m
         \<and> str_in ''email'' (lower (py_str m)))"
proof -
  have a: "''email'' \<in> set required_fields"
    by (simp add: required_fields_def)
  have b: "fst (missing_field_check replay ''0f''  ''email''
            (start [json_reply 400 (JObj [(''message'', JStr ''Email is required'')])])) = Inr ()"
    by code_simp
  from a b missing_field_check_accepts_only[OF a b] show ?thesis by blast
qed

text \<open>
  C2, as amended. Every call of every script carries a timeout: 30 seconds in ten of the
  eleven scripts, 10 seconds in \<^verbatim>\<open>TC007_metrics_history_data_grouping.py\<close>.
\<close>

theorem every_call_carries_a_timeout:
  assumes "(name, n, T) \<in> set (corpus srv clk fl uuid_hex start_date end_date)"
    and "(q, r) \<in> set (log (snd (T (start w))))"
  shows "timeout q = (if name = ''TC007_metrics_history_data_grouping'' then 10 else 30)"
proof -
  have "calls_satisfy
          (\<lambda>q. timeout q = (if name = ''TC007_metrics_history_data_grouping'' then 10 else 30)) T"
    using corpus_timeouts_all[of srv clk fl uuid_hex start_date end_date] assms(1)
    unfolding list_all_iff by fastforce
  from calls_satisfy_run[OF this assms(2)] show ?thesis .
qed

text \<open>The first call of \<^verbatim>\<open>TC007_metrics_history_data_retrieval.py\<close>.\<close>

theorem every_call_carries_a_timeout_witness:
  "(''TC007_metrics_history_data_retrieval'', 4, test_metrics_history_data_retrieval (timed_replay (1 / 2)))
     \<in> set (corpus (timed_replay (1 / 2)) wall_clock exact_ops ''0f'' ''2026-10-04'' ''2026-11-03'')
   \<and> (\<lparr>http_method = GET, url = ''http://localhost:3001/api/v1/metrics/history'',
          headers = [(''Content-Type'', ''application/json'')], params = [(''groupBy'', ''day'')],
          json_payload = None, timeout = 30\<rparr>,
        json_reply 200 (JArr []))
       \<in> set (log (snd (test_metrics_history_data_retrieval (timed_replay (1 / 2))
                  (start ([json_reply 200 (JArr [])], 0)))))
   \<and> timeout \<lparr>http_method = GET, url = ''http://localhost:3001/api/v1/metrics/history'',
          headers = [(''Content-Type'', ''application/json'')], params = [(''groupBy'', ''day'')],
          json_payload = None, timeout = 30\<rparr>
       = (if ''TC007_metrics_history_data_retrieval'' = ''TC007_metrics_history_data_grouping''
          then 10 else 30)"
proof -
  have m: "(''TC007_metrics_history_data_retrieval'', 4,
            test_metrics_history_data_retrieval (timed_replay (1 / 2)))
     \<in> set (corpus (timed_replay (1 / 2)) wall_clock exact_ops ''0f'' ''2026-10-04'' ''2026-11-03'')"
    by (simp add: corpus_def)
  have l: "(\<lparr>http_method = GET, url = ''http://localhost:3001/api/v1/metrics/history'',
          headers = [(''Content-Type'', ''application/json'')], params = [(''groupBy'', ''day'')],
          json_payload = None, timeout = 30\<rparr>,
        json_reply 200 (JArr []))
       \<in> set (log (snd (test_metrics_history_data_retrieval (timed_replay (1 / 2))
                  (start ([json_reply 200 (JArr [])], 0)))))"
    by code_simp
  from m l every_call_carries_a_timeout[OF m l] show ?thesis by blast
qed

text \<open>
  C2 as stated fails: the one call of \<^verbatim>\<open>TC007_metrics_history_data_grouping.py\<close>, here in
  a run that passes, has a timeout of 10 seconds.
\<close>

theorem grouping_call_has_timeout_10:
  "fst (test_metrics_history_data_grouping replay ''2026-10-04'' ''2026-11-03''
          (start [json_reply 401 (JObj [(''error'', JObj [(''code'', JStr ''INVALID_TOKEN'')])])]))
     = Inr ()
   \<and> map timeout (map fst (log (snd
        (test_metrics_history_data_grouping replay ''2026-10-04'' ''2026-11-03''
          (start [json_reply 401 (JObj [(''error'', JObj [(''code'', JStr ''INVALID_TOKEN'')])])])))))
     = [10]"
  by code_simp

text \<open>
  C3. Test case 2 of \<^verbatim>\<open>TC003\<close> (lines 24-40) is meant to accept a link that contains every
  \<^verbatim>\<open>utm_<field>=<value>\<close> text, compared without regard to case. It lowers the link but
  not the text it looks for: a backend that answers 201 with a link holding all five
  parameters exactly as sent is rejected, with the message that
  \<^verbatim>\<open>utm_content=contentA\<close> is missing, although the link contains that text, and also
  contains it when both are lowered.
\<close>

theorem utm_full_check_rejects_complete_link:
  "fst (utm_full_check replay
          (start [json_reply 201 (JObj [(''utmLink'', JStr
             ''https://www.example.com/page?utm_source=newsletter&utm_medium=email&utm_campaign=launch&utm_term=testterm&utm_content=contentA'')])]))
     = Inl (AssertionError ''UTM parameter utm_content=contentA missing in created URL'')
   \<and> str_in ''utm_content=contentA''
        ''https://www.example.com/page?utm_source=newsletter&utm_medium=email&utm_campaign=launch&utm_term=testterm&utm_content=contentA''
   \<and> str_in (lower ''utm_content=contentA'')
        (lower ''https://www.example.com/page?utm_source=newsletter&utm_medium=email&utm_campaign=launch&utm_term=testterm&utm_content=contentA'')"
  by code_simp

text \<open>
  C4, as amended. The check of \<^verbatim>\<open>TC007_metrics_history_data_retrieval.py\<close> for
  \<^verbatim>\<open>groupBy=year\<close> is accepted only if the status is 400 or 422 and the body is JSON in
  which \<^verbatim>\<open>"error" in body\<close> or \<^verbatim>\<open>"message" in body\<close> holds (\<open>contains\<close>: a key of an
  object, an element of an array, a substring of a string); the check for each of
  \<^verbatim>\<open>day\<close>, \<^verbatim>\<open>week\<close>, \<^verbatim>\<open>month\<close> is accepted only if the status is 200.
\<close>

theorem history_checks_accept_only:
  "(fst (history_invalid_check srv s) = Inr () \<longrightarrow>
      (\<exists>r v. fst (srv \<lparr>http_method = GET, url = history_endpoint, headers = history_headers,
                        params = [(''groupBy'', ''year'')], json_payload = None,
                        timeout = TIMEOUT\<rparr> (world s)) = Response r
          \<and> status_code r \<in> {400, 422} \<and> body r = Inr v
          \<and> (contains ''error'' v \<or> contains ''message'' v)))
   \<and> (groupby \<in> set valid_groupbys \<and> fst (history_valid_check srv groupby s') = Inr () \<longrightarrow>
      (\<exists>r. fst (srv \<lparr>http_method = GET, url = history_endpoint, headers = history_headers,
                      params = [(''groupBy'', groupby)], json_payload = None,
                      timeout = TIMEOUT\<rparr> (world s')) = Response r
          \<and> status_code r = 200))"
  unfolding history_invalid_check_def history_valid_check_def requests_get_def invalid_groupby_def
  apply (simp only: to_lift judged)
  apply (simp add: value_rules contains_def)
  apply blast
  done

theorem history_checks_accept_only_witness:
  "fst (history_invalid_check replay (start [json_reply 422 (JObj [(''message'', JStr ''bad groupBy'')])]))
     = Inr ()
   \<and> ''week'' \<in> set valid_groupbys
   \<and> fst (history_valid_check replay ''week'' (start [json_reply 200 (JArr [])])) = Inr ()
   \<and> (\<exists>r v. fst (replay \<lparr>http_method = GET, url = history_endpoint, headers = history_headers,
                        params = [(''groupBy'', ''year'')], json_payload = None,
                        timeout = TIMEOUT\<rparr>
                    (world (start [json_reply 422 (JObj [(''message'', JStr ''bad groupBy'')])])))
                = Response r
          \<and> status_code r \<in> {400, 422} \<and> body r = Inr v
          \<and> (contains ''error'' v \<or> contains ''message'' v))
   \<and> (\<exists>r. fst (replay \<lparr>http_method = GET, url = history_endpoint, headers = history_headers,
                      params = [(''groupBy'', ''week'')], json_payload = None,
                      timeout = TIMEOUT\<rparr> (world (start [json_reply 200 (JArr [])]))) = Response r
          \<and> status_code r = 200)"
proof -
  have a: "fst (history_invalid_check replay
                 (start [json_reply 422 (JObj [(''message'', JStr ''bad groupBy'')])])) = Inr ()"
    by code_simp
  have b: "''week'' \<in> set valid_groupbys"
    by (simp add: valid_groupbys_def)
  have c: "fst (history_valid_check replay ''week'' (start [json_reply 200 (JArr [])])) = Inr ()"
    by code_simp
  from a b c history_checks_accept_only[of replay
      "start [json_reply 422 (JObj [(''message'', JStr ''bad groupBy'')])]"
      "''week''" "start [json_reply 200 (JArr [])]"]
  show ?thesis by blast
qed

text \<open>
  C4 as stated fails: a 400 whose body is the JSON string \<^verbatim>\<open>"error"\<close>, which has no
  fields, is accepted.
\<close>

theorem history_invalid_check_accepts_text_body:
  "fst (history_invalid_check replay (start [json_reply 400 (JStr ''error'')])) = Inr ()
   \<and> map snd (log (snd (history_invalid_check replay (start [json_reply 400 (JStr ''error'')]))))
     = [json_reply 400 (JStr ''error'')]
   \<and> \<not> is_dict (JStr ''error'')"
  by code_simp

text \<open>
  C5. \<^verbatim>\<open>TC007_metrics_history_data_grouping.py\<close> sends one GET with \<^verbatim>\<open>startDate\<close>,
  \<^verbatim>\<open>endDate\<close>, \<^verbatim>\<open>groupBy=day\<close> and a bearer token, and passes exactly when the backend
  answers either with status 200 and a JSON object that has a \<^verbatim>\<open>success\<close> entry and a
  \<^verbatim>\<open>data\<close> entry that is a list, or with status 401 and a JSON object whose \<^verbatim>\<open>error\<close>
  entry is an object whose \<^verbatim>\<open>code\<close> entry is \<^verbatim>\<open>"INVALID_TOKEN"\<close>.
\<close>

theorem grouping_accepts_exactly:
  "fst (test_metrics_history_data_grouping srv start_date end_date s) = Inr () \<longleftrightarrow>
     (\<exists>r. fst (srv \<lparr>http_method = GET, url = grouping_url, headers = grouping_headers,
                     params = grouping_params start_date end_date, json_payload = None,
                     timeout = 10\<rparr> (world s)) = Response r
        \<and> ((status_code r = 200
             \<and> (\<exists>kvs xs. body r = Inr (JObj kvs) \<and> ''success'' \<in> fst ` set kvs
                          \<and> map_of kvs ''data'' = Some (JArr xs)))
           \<or> (status_code r = 401
             \<and> (\<exists>kvs evs. body r = Inr (JObj kvs) \<and> map_of kvs ''error'' = Some (JObj evs)
                           \<and> map_of evs ''code'' = Some (JStr ''INVALID_TOKEN'')))))"
  unfolding test_metrics_history_data_grouping_def requests_get_def
  apply (simp only: to_lift judged)
  apply (rule ex_cong1)
  apply (rule conj_cong[OF refl])
  apply (simp add: value_rules is_dict_iff is_list_iff split: if_splits)
  apply (auto dest: map_of_in_keys intro: in_keysI)
  done

text \<open>A 200 and a 401 of the right shape pass; the same 401 body under status 403 does
  not.\<close>

theorem grouping_accepts_exactly_witness:
  "fst (test_metrics_history_data_grouping replay ''2026-10-04'' ''2026-11-03''
          (start [json_reply 200 (JObj [(''success'', JBool True), (''data'', JArr [])])])) = Inr ()
   \<and> fst (test_metrics_history_data_grouping replay ''2026-10-04'' ''2026-11-03''
          (start [json_reply 401 (JObj [(''error'', JObj [(''code'', JStr ''INVALID_TOKEN'')])])]))
       = Inr ()
   \<and> fst (test_metrics_history_data_grouping replay ''2026-10-04'' ''2026-11-03''
          (start [json_reply 403 (JObj [(''error'', JObj [(''code'', JStr ''INVALID_TOKEN'')])])]))
       \<noteq> Inr ()"
  unfolding grouping_accepts_exactly
  by (simp add: start_def json_reply_def)

text \<open>
  C6, as amended. In \<^verbatim>\<open>TC005\<close>: with the valid \<^verbatim>\<open>customer_id\<close> the check is accepted only
  on status 200 with a JSON object whose \<^verbatim>\<open>campaigns\<close> entry is a list; without
  \<^verbatim>\<open>customer_id\<close> only on status 400 or 422, and with the invalid one only on status 400
  or 404 (both within 400, 404, 422), each with a JSON body in which \<^verbatim>\<open>"error" in body\<close> or
  \<^verbatim>\<open>"message" in body\<close> holds (\<open>contains\<close>).
\<close>

theorem campaigns_checks_accept_only:
  "(fst (campaigns_valid_check srv s1) = Inr () \<longrightarrow>
      (\<exists>r kvs xs. fst (srv \<lparr>http_method = GET, url = campaigns_endpoint,
                        headers = campaigns_headers, params = [(''customer_id'', ''1234567890'')],
                        json_payload = None, timeout = TIMEOUT\<rparr> (world s1)) = Response r
          \<and> status_code r = 200 \<and> body r = Inr (JObj kvs)
          \<and> map_of kvs ''campaigns'' = Some (JArr xs)))
   \<and> (fst (campaigns_missing_check srv s2) = Inr () \<longrightarrow>
      (\<exists>r v. fst (srv \<lparr>http_method = GET, url = campaigns_endpoint,
                        headers = campaigns_headers, params = [],
                        json_payload = None, timeout = TIMEOUT\<rparr> (world s2)) = Response r
          \<and> status_code r \<in> {400, 422} \<and> body r = Inr v
          \<and> (contains ''error'' v \<or> contains ''message'' v)))
   \<and> (fst (campaigns_invalid_check srv s3) = Inr () \<longrightarrow>
      (\<exists>r v. fst (srv \<lparr>http_method = GET, url = campaigns_endpoint,
                        headers = campaigns_headers, params = [(''customer_id'', ''invalid_id_!@#'')],
                        json_payload = None, timeout = TIMEOUT\<rparr> (world s3)) = Response r
          \<and> status_code r \<in> {400, 404} \<and> body r = Inr v
          \<and> (contains ''error'' v \<or> contains ''message'' v)))"
  unfolding campaigns_valid_check_def campaigns_missing_check_def campaigns_invalid_check_def
    requests_get_def valid_customer_id_def invalid_customer_id_def
  apply (simp only: to_lift judged)
  apply (simp add: value_rules contains_def is_dict_iff is_list_iff)
  apply blast
  done

theorem campaigns_checks_accept_only_witness:
  "fst (campaigns_valid_check replay (start [json_reply 200 (JObj [(''campaigns'', JArr [])])]))
     = Inr ()
   \<and> fst (campaigns_missing_check replay
            (start [json_reply 422 (JObj [(''message'', JStr ''customer_id is required'')])]))
     = Inr ()
   \<and> fst (campaigns_invalid_check replay
            (start [json_reply 404 (JObj [(''error'', JStr ''customer not found'')])]))
     = Inr ()
   \<and> (\<exists>r kvs xs. fst (replay \<lparr>http_method = GET, url = campaigns_endpoint,
                        headers = campaigns_headers, params = [(''customer_id'', ''1234567890'')],
                        json_payload = None, timeout = TIMEOUT\<rparr>
                     (world (start [json_reply 200 (JObj [(''campaigns'', JArr [])])])))
                   = Response r
          \<and> status_code r = 200 \<and> body r = Inr (JObj kvs)
          \<and> map_of kvs ''campaigns'' = Some (JArr xs))
   \<and> (\<exists>r v. fst (replay \<lparr>http_method = GET, url = campaigns_endpoint,
                        headers = campaigns_headers, params = [],
                        json_payload = None, timeout = TIMEOUT\<rparr>
                     (world (start [json_reply 422
                                      (JObj [(''message'', JStr ''customer_id is required'')])])))
                   = Response r
          \<and> status_code r \<in> {400, 422} \<and> body r = Inr v
          \<and> (contains ''error'' v \<or> contains ''message'' v))
   \<and> (\<exists>r v. fst (replay \<lparr>http_method = GET, url = campaigns_endpoint,
                        headers = campaigns_headers, params = [(''customer_id'', ''invalid_id_!@#'')],
                        json_payload = None, timeout = TIMEOUT\<rparr>
                     (world (start [json_reply 404
                                      (JObj [(''error'', JStr ''customer not found'')])])))
                   = Response r
          \<and> status_code r \<in> {400, 404} \<and> body r = Inr v
          \<and> (contains ''error'' v \<or> contains ''message'' v))"
proof -
  have a: "fst (campaigns_valid_check replay
                 (start [json_reply 200 (JObj [(''campaigns'', JArr [])])])) = Inr ()"
    by code_simp
  have b: "fst (campaigns_missing_check replay
            (start [json_reply 422 (JObj [(''message'', JStr ''customer_id is required'')])]))
     = Inr ()"
    by code_simp
  have c: "fst (campaigns_invalid_check replay
            (start [json_reply 404 (JObj [(''error'', JStr ''customer not found'')])]))
     = Inr ()"
    by code_simp
  from a b c campaigns_checks_accept_only[of replay
      "start [json_reply 200 (JObj [(''campaigns'', JArr [])])]"
      "start [json_reply 422 (JObj [(''message'', JStr ''customer_id is required'')])]"
      "start [json_reply 404 (JObj [(''error'', JStr ''customer not found'')])]"]
  show ?thesis by blast
qed

text \<open>
  C6 as stated fails: the two error checks accept a body that is a JSON string or a JSON
  array, which has no fields.
\<close>

theorem campaigns_error_checks_accept_text_body:
  "fst (campaigns_missing_check replay (start [json_reply 400 (JStr ''error'')])) = Inr ()
   \<and> map snd (log (snd (campaigns_missing_check replay (start [json_reply 400 (JStr ''error'')]))))
     = [json_reply 400 (JStr ''error'')]
   \<and> fst (campaigns_invalid_check replay (start [json_reply 404 (JArr [JStr ''message''])])) = Inr ()
   \<and> map snd (log (snd (campaigns_invalid_check replay
                            (start [json_reply 404 (JArr [JStr ''message''])]))))
     = [json_reply 404 (JArr [JStr ''message''])]
   \<and> \<not> is_dict (JStr ''error'') \<and> \<not> is_dict (JArr [JStr ''message''])"
  by code_simp

text \<open>
  C7, as amended. In \<^verbatim>\<open>TC001\<close>: the check with the valid credentials is accepted only on
  status 200 with a JSON body in which \<^verbatim>\<open>"token" in body\<close> or \<^verbatim>\<open>"accessToken" in body\<close>
  holds; the check with the invalid credentials only on status 400 or 401 with a JSON
  body in which \<^verbatim>\<open>"error" in body\<close> or \<^verbatim>\<open>"message" in body\<close> holds (\<open>contains\<close>: a key
  of an object, an element of an array, a substring of a string).
\<close>

theorem login_checks_accept_only:
  "(fst (login_valid_check srv s) = Inr () \<longrightarrow>
      (\<exists>r v. fst (srv \<lparr>http_method = POST, url = BASE_URL @ LOGIN_ENDPOINT,
                        headers = login_headers, params = [],
                        json_payload = Some (JObj login_valid_payload),
                        timeout = TIMEOUT\<rparr> (world s)) = Response r
          \<and> status_code r = 200 \<and> body r = Inr v
          \<and> (contains ''token'' v \<or> contains ''accessToken'' v)))
   \<and> (fst (login_invalid_check srv s') = Inr () \<longrightarrow>
      (\<exists>r v. fst (srv \<lparr>http_method = POST, url = BASE_URL @ LOGIN_ENDPOINT,
                        headers = login_headers, params = [],
                        json_payload = Some (JObj login_invalid_payload),
                        timeout = TIMEOUT\<rparr> (world s')) = Response r
          \<and> status_code r \<in> {400, 401} \<and> body r = Inr v
          \<and> (contains ''error'' v \<or> contains ''message'' v)))"
  unfolding login_valid_check_def login_invalid_check_def requests_post_def
  apply (simp only: to_lift judged)
  apply (simp add: value_rules contains_def)
  apply blast
  done

theorem login_checks_accept_only_witness:
  "fst (login_valid_check replay (start [json_reply 200 (JObj [(''accessToken'', JStr ''abc'')])]))
     = Inr ()
   \<and> fst (login_invalid_check replay
            (start [json_reply 401 (JObj [(''message'', JStr ''Invalid credentials'')])]))
     = Inr ()
   \<and> (\<exists>r v. fst (replay \<lparr>http_method = POST, url = BASE_URL @ LOGIN_ENDPOINT,
                        headers = login_headers, params = [],
                        json_payload = Some (JObj login_valid_payload),
                        timeout = TIMEOUT\<rparr>
                    (world (start [json_reply 200 (JObj [(''accessToken'', JStr ''abc'')])])))
                = Response r
          \<and> status_code r = 200 \<and> body r = Inr v
          \<and> (contains ''token'' v \<or> contains ''accessToken'' v))
   \<and> (\<exists>r v. fst (replay \<lparr>http_method = POST, url = BASE_URL @ LOGIN_ENDPOINT,
                        headers = login_headers, params = [],
                        json_payload = Some (JObj login_invalid_payload),
                        timeout = TIMEOUT\<rparr>
                    (world (start [json_reply 401
                                     (JObj [(''message'', JStr ''Invalid credentials'')])])))
                = Response r
          \<and> status_code r \<in> {400, 401} \<and> body r = Inr v
          \<and> (contains ''error'' v \<or> contains ''message'' v))"
proof -
  have a: "fst (login_valid_check replay
                 (start [json_reply 200 (JObj [(''accessToken'', JStr ''abc'')])])) = Inr ()"
    by code_simp
  have b: "fst (login_invalid_check replay
                 (start [json_reply 401 (JObj [(''message'', JStr ''Invalid credentials'')])]))
           = Inr ()"
    by code_simp
  from a b login_checks_accept_only[of replay
      "start [json_reply 200 (JObj [(''accessToken'', JStr ''abc'')])]"
      "start [json_reply 401 (JObj [(''message'', JStr ''Invalid credentials'')])]"]
  show ?thesis by blast
qed

text \<open>
  C7 as stated fails: the whole script passes against a backend that answers the valid
  login with the JSON string \<^verbatim>\<open>"token"\<close> and the invalid one with the JSON array
  \<^verbatim>\<open>["error"]\<close>, neither of which has keys.
\<close>

theorem login_accepts_bodies_without_keys:
  "fst (test_user_login_functionality replay
          (start [json_reply 200 (JStr ''token''), json_reply 401 (JArr [JStr ''error''])]))
     = Inr ()
   \<and> map snd (log (snd (test_user_login_functionality replay
          (start [json_reply 200 (JStr ''token''), json_reply 401 (JArr [JStr ''error''])]))))
     = [json_reply 200 (JStr ''token''), json_reply 401 (JArr [JStr ''error''])]
   \<and> \<not> is_dict (JStr ''token'') \<and> \<not> is_dict (JArr [JStr ''error''])"
  by code_simp

text \<open>
  C8. For every script of the corpus, against any backend and from any state of the
  world: when a call fails in transport (connection error or timeout), that call is the
  last one the script issues (nothing is retried, nothing is sent after it), and the script
  ends with an exception whose text contains the text of the transport error. And the
  calls of the run follow the plan of the script: they are the requests of its call
  statements, in the order of the text and one for each statement (one for each of the
  five iterations, for the statement in the loop of \<^verbatim>\<open>TC009\<close>); a call is made only after
  the reply to the call before it was accepted by its check; and a run that passes has
  made them all. So no request is sent again, whatever the reply to it was. The plan has
  \<open>n\<close> entries, and the run at most \<open>n\<close> calls.
\<close>

theorem transport_failure_ends_the_script:
  assumes "(name, n, T) \<in> set (corpus srv clk fl uuid_hex start_date end_date)"
  shows "length (log (snd (T (start w)))) \<le> n \<and>
         (\<forall>q t. (q, TransportError t) \<in> set (log (snd (T (start w)))) \<longrightarrow>
            (\<exists>pre x. log (snd (T (start w))) = pre @ [(q, TransportError t)] \<and>
               no_failure pre \<and> fst (T (start w)) = Inl x \<and> str_in t (exn_str x))) \<and>
         length (plan_of uuid_hex start_date end_date name) = n \<and>
         follows (plan_of uuid_hex start_date end_date name) (log (snd (T (start w))))
           (passes (fst (T (start w))))"
  using fail_fast_run[OF corpus_fail_fast[OF assms], of w]
    corpus_orderly(2)[OF assms] orderly_run[OF corpus_orderly(1)[OF assms], of w]
  by blast

text \<open>The login script against a backend that answers the first call and refuses the
  second connection.\<close>

theorem transport_failure_ends_the_script_witness:
  "(''TC001_user_login_functionality'', 2,
      test_user_login_functionality (timed_replay (1 / 2)))
     \<in> set (corpus (timed_replay (1 / 2)) wall_clock exact_ops
              ''0f'' ''2026-10-04'' ''2026-11-03'')
   \<and> (\<lparr>http_method = POST, url = ''http://localhost:3001/api/v1/auth/login'',
          headers = [(''Content-Type'', ''application/json'')], params = [],
          json_payload = Some (JObj login_invalid_payload), timeout = 30\<rparr>,
        TransportError ''Connection refused'')
       \<in> set (log (snd (test_user_login_functionality (timed_replay (1 / 2))
                  (start ([json_reply 200 (JObj [(''token'', JStr ''t'')])], 0)))))
   \<and> length (log (snd (test_user_login_functionality (timed_replay (1 / 2))
                  (start ([json_reply 200 (JObj [(''token'', JStr ''t'')])], 0))))) \<le> 2
   \<and> (\<exists>pre x.
         log (snd (test_user_login_functionality (timed_replay (1 / 2))
                (start ([json_reply 200 (JObj [(''token'', JStr ''t'')])], 0))))
           = pre @ [(\<lparr>http_method = POST, url = ''http://localhost:3001/api/v1/auth/login'',
                        headers = [(''Content-Type'', ''application/json'')], params = [],
                        json_payload = Some (JObj login_invalid_payload), timeout = 30\<rparr>,
                     TransportError ''Connection refused'')]
         \<and> no_failure pre
         \<and> fst (test_user_login_functionality (timed_replay (1 / 2))
                (start ([json_reply 200 (JObj [(''token'', JStr ''t'')])], 0))) = Inl x
         \<and> str_in ''Connection refused'' (exn_str x))
   \<and> length (plan_of ''0f'' ''2026-10-04'' ''2026-11-03'' ''TC001_user_login_functionality'') = 2
   \<and> follows (plan_of ''0f'' ''2026-10-04'' ''2026-11-03'' ''TC001_user_login_functionality'')
       (log (snd (test_user_login_functionality (timed_replay (1 / 2))
                (start ([json_reply 200 (JObj [(''token'', JStr ''t'')])], 0)))))
       (passes (fst (test_user_login_functionality (timed_replay (1 / 2))
                (start ([json_reply 200 (JObj [(''token'', JStr ''t'')])], 0)))))"
proof -
  have m: "(''TC001_user_login_functionality'', 2,
      test_user_login_functionality (timed_replay (1 / 2)))
     \<in> set (corpus (timed_replay (1 / 2)) wall_clock exact_ops
              ''0f'' ''2026-10-04'' ''2026-11-03'')"
    by (simp add: corpus_def)
  have l: "(\<lparr>http_method = POST, url = ''http://localhost:3001/api/v1/auth/login'',
          headers = [(''Content-Type'', ''application/json'')], params = [],
          json_payload = Some (JObj login_invalid_payload), timeout = 30\<rparr>,
        TransportError ''Connection refused'')
       \<in> set (log (snd (test_user_login_functionality (timed_replay (1 / 2))
                  (start ([json_reply 200 (JObj [(''token'', JStr ''t'')])], 0)))))"
    by code_simp
  from m l
    transport_failure_ends_the_script[OF m, of "([json_reply 200 (JObj [(''token'', JStr ''t'')])], 0)"]
  show ?thesis by blast
qed

text \<open>
  C9. The performance test of \<^verbatim>\<open>TC009\<close> (lines 26-35) is accepted only if it issued
  exactly five GET calls to the subscription endpoint, each answered with status 200;
  the five durations it averages are, for each call in turn, the reading of the clock
  just after the call minus the reading just before it; and the average the script
  computes from them, \<^verbatim>\<open>sum(response_times) / len(response_times)\<close>, is below 2 by the
  script's comparison. This holds whatever the arithmetic of the interpreter is. When
  that arithmetic does not round, the arithmetic mean of the five durations is below
  2 seconds.
\<close>

theorem performance_check_accepts_only:
  assumes "fst (performance_check srv clk fl s) = Inr ()"
  shows "(\<exists>rs. log (snd (performance_check srv clk fl s)) = log s @
                 map (\<lambda>r. (subscription_request, Response r)) rs
              \<and> length rs = 5 \<and> (\<forall>r\<in>set rs. status_code r = 200))
         \<and> fst (timed_calls srv clk fl 5 [] s)
             = Inr (durations fl (readings srv clk 5 (world s)))
         \<and> flt_int fl
             (fdiv_len fl (fsum fl (durations fl (readings srv clk 5 (world s)))) 5) 2
         \<and> (exact val fl \<longrightarrow>
              mean_duration (map (\<lambda>be. (val (fst be), val (snd be)))
                               (readings srv clk 5 (world s))) < 2)"
proof -
  from assms obtain ts where
    t: "fst (timed_calls srv clk fl 5 [] s) = Inr ts"
    and a: "flt_int fl (fdiv_len fl (fsum fl ts) (length ts)) 2"
    unfolding performance_check_def by (auto simp: bind_accepts py_assert_run)
  from timed_calls_measures[OF t] obtain rs where
    ts: "ts = durations fl (readings srv clk 5 (world s))"
    and rs: "length rs = 5" "\<forall>r\<in>set rs. status_code r = 200"
        "log (snd (timed_calls srv clk fl 5 [] s)) = log s @
           map (\<lambda>r. (subscription_request, Response r)) rs"
    by auto
  have len: "length ts = 5"
    unfolding ts durations_def by simp
  have a5: "flt_int fl (fdiv_len fl (fsum fl (durations fl (readings srv clk 5 (world s)))) 5) 2"
    using a len unfolding ts by simp
  have s: "snd (performance_check srv clk fl s) = snd (timed_calls srv clk fl 5 [] s)"
    unfolding performance_check_def using t by (simp add: bind_snd py_assert_run)
  have m: "mean_duration (map (\<lambda>be. (val (fst be), val (snd be)))
                               (readings srv clk 5 (world s))) < 2" if "exact val fl"
    using exact_mean[OF that, of "readings srv clk 5 (world s)" 2] a5 by simp
  from rs s have "\<exists>rs. log (snd (performance_check srv clk fl s)) = log s @
                 map (\<lambda>r. (subscription_request, Response r)) rs
              \<and> length rs = 5 \<and> (\<forall>r\<in>set rs. status_code r = 200)"
    by auto
  with t a5 m show ?thesis unfolding ts by blast
qed

text \<open>
  Five answers with status 200 that take half a second each, measured and averaged
  without rounding: the readings are those of lemma \<open>five_ok_readings\<close>, and their mean
  is half a second.
\<close>

theorem performance_check_accepts_only_witness:
  "fst (performance_check (timed_replay (1 / 2)) wall_clock exact_ops
          (start ([json_reply 200 JNull, json_reply 200 JNull, json_reply 200 JNull,
                   json_reply 200 JNull, json_reply 200 JNull], 0))) = Inr ()
   \<and> exact (\<lambda>x. x) exact_ops
   \<and> (\<exists>rs. log (snd (performance_check (timed_replay (1 / 2)) wall_clock exact_ops
                (start ([json_reply 200 JNull, json_reply 200 JNull, json_reply 200 JNull,
                         json_reply 200 JNull, json_reply 200 JNull], 0))))
             = log (start ([json_reply 200 JNull, json_reply 200 JNull, json_reply 200 JNull,
                            json_reply 200 JNull, json_reply 200 JNull], 0 :: rat)) @
               map (\<lambda>r. (subscription_request, Response r)) rs
          \<and> length rs = 5 \<and> (\<forall>r\<in>set rs. status_code r = 200))
   \<and> fst (timed_calls (timed_replay (1 / 2)) wall_clock exact_ops 5 []
            (start ([json_reply 200 JNull, json_reply 200 JNull, json_reply 200 JNull,
                     json_reply 200 JNull, json_reply 200 JNull], 0)))
       = Inr (durations exact_ops (readings (timed_replay (1 / 2)) wall_clock 5
           (world (start ([json_reply 200 JNull, json_reply 200 JNull, json_reply 200 JNull,
                           json_reply 200 JNull, json_reply 200 JNull], 0)))))
   \<and> mean_duration (map (\<lambda>be. (fst be, snd be))
        (readings (timed_replay (1 / 2)) wall_clock 5
          (world (start ([json_reply 200 JNull, json_reply 200 JNull, json_reply 200 JNull,
                   json_reply 200 JNull, json_reply 200 JNull], 0))))) < 2"
proof -
  have a: "fst (performance_check (timed_replay (1 / 2)) wall_clock exact_ops
          (start ([json_reply 200 JNull, json_reply 200 JNull, json_reply 200 JNull,
                   json_reply 200 JNull, json_reply 200 JNull], 0))) = Inr ()"
    by code_simp
  from a exact_exact_ops performance_check_accepts_only[OF a, of "\<lambda>x. x"]
  show ?thesis by blast
qed

text \<open>
  C10. The check of \<^verbatim>\<open>TC002\<close> with the email \<^verbatim>\<open>invalid-email-format\<close> (lines 39-45) is
  accepted only if the backend answers with status 400 or 422 and a JSON object whose
  \<^verbatim>\<open>message\<close> entry, printed with \<^verbatim>\<open>str\<close> and lowered, contains \<^verbatim>\<open>email\<close>; the check with
  the password \<^verbatim>\<open>123\<close> (lines 47-53) likewise with \<^verbatim>\<open>password\<close>.
\<close>

theorem invalid_email_and_short_password_accept_only:
  "(fst (invalid_email_check srv uuid_hex s) = Inr () \<longrightarrow>
      (\<exists>r kvs m.
           fst (srv \<lparr>http_method = POST, url = BASE_URL @ REGISTER_ENDPOINT,
                     headers = register_headers, params = [],
                     json_payload = Some (JObj (dict_set ''email'' (JStr ''invalid-email-format'')
                                                  (register_valid_payload uuid_hex))),
                     timeout = TIMEOUT\<rparr> (world s)) = Response r
         \<and> (status_code r = 400 \<or> status_code r = 422)
         \<and> body r = Inr (JObj kvs)
         \<and> map_of kvs ''message'' = Some m
         \<and> str_in ''email'' (lower (py_str m))))
   \<and> (fst (short_password_check srv uuid_hex s') = Inr () \<longrightarrow>
      (\<exists>r kvs m.
           fst (srv \<lparr>http_method = POST, url = BASE_URL @ REGISTER_ENDPOINT,
                     headers = register_headers, params = [],
                     json_payload = Some (JObj (dict_set ''password'' (JStr ''123'')
                                                  (register_valid_payload uuid_hex))),
                     timeout = TIMEOUT\<rparr> (world s')) = Response r
         \<and> (status_code r = 400 \<or> status_code r = 422)
         \<and> body r = Inr (JObj kvs)
         \<and> map_of kvs ''message'' = Some m
         \<and> str_in ''password'' (lower (py_str m))))"
proof (intro conjI impI)
  assume "fst (invalid_email_check srv uuid_hex s) = Inr ()"
  then obtain r kvs where
    r: "fst (srv \<lparr>http_method = POST, url = BASE_URL @ REGISTER_ENDPOINT,
                     headers = register_headers, params = [],
                     json_payload = Some (JObj (dict_set ''email'' (JStr ''invalid-email-format'')
                                                  (register_valid_payload uuid_hex))),
                     timeout = TIMEOUT\<rparr> (world s)) = Response r"
       "status_code r = 400 \<or> status_code r = 422" "body r = Inr (JObj kvs)"
    and c: "str_in ''email''
              (lower (py_str (case map_of kvs ''message'' of Some y \<Rightarrow> y | None \<Rightarrow> JStr [])))"
    unfolding invalid_email_check_def requests_post_def
    apply (simp only: to_lift judged)
    apply (simp add: value_rules message_condition)
    apply blast
    done
  have "''email'' \<noteq> []" by simp
  from str_in_empty_message[OF this c] r
  show "\<exists>r kvs m.
           fst (srv \<lparr>http_method = POST, url = BASE_URL @ REGISTER_ENDPOINT,
                     headers = register_headers, params = [],
                     json_payload = Some (JObj (dict_set ''email'' (JStr ''invalid-email-format'')
                                                  (register_valid_payload uuid_hex))),
                     timeout = TIMEOUT\<rparr> (world s)) = Response r
         \<and> (status_code r = 400 \<or> status_code r = 422)
         \<and> body r = Inr (JObj kvs)
         \<and> map_of kvs ''message'' = Some m
         \<and> str_in ''email'' (lower (py_str m))" by blast
next
  assume "fst (short_password_check srv uuid_hex s') = Inr ()"
  then obtain r kvs where
    r: "fst (srv \<lparr>http_method = POST, url = BASE_URL @ REGISTER_ENDPOINT,
                     headers = register_headers, params = [],
                     json_payload = Some (JObj (dict_set ''password'' (JStr ''123'')
                                                  (register_valid_payload uuid_hex))),
                     timeout = TIMEOUT\<rparr> (world s')) = Response r"
       "status_code r = 400 \<or> status_code r = 422" "body r = Inr (JObj kvs)"
    and c: "str_in ''password''
              (lower (py_str (case map_of kvs ''message'' of Some y \<Rightarrow> y | None \<Rightarrow> JStr [])))"
    unfolding short_password_check_def requests_post_def
    apply (simp only: to_lift judged)
    apply (simp add: value_rules message_condition)
    apply blast
    done
  have "''password'' \<noteq> []" by simp
  from str_in_empty_message[OF this c] r
  show "\<exists>r kvs m.
           fst (srv \<lparr>http_method = POST, url = BASE_URL @ REGISTER_ENDPOINT,
                     headers = register_headers, params = [],
                     json_payload = Some (JObj (dict_set ''password'' (JStr ''123'')
                                                  (register_valid_payload uuid_hex))),
                     timeout = TIMEOUT\<rparr> (world s')) = Response r
         \<and> (status_code r = 400 \<or> status_code r = 422)
         \<and> body r = Inr (JObj kvs)
         \<and> map_of kvs ''message'' = Some m
         \<and> str_in ''password'' (lower (py_str m))" by blast
qed

theorem invalid_email_and_short_password_accept_only_witness:
  "fst (invalid_email_check replay ''0f''
          (start [json_reply 422 (JObj [(''message'', JStr ''Invalid Email format'')])])) = Inr ()
   \<and> fst (short_password_check replay ''0f''
          (start [json_reply 400 (JObj [(''message'', JStr ''Password too short'')])])) = Inr ()
   \<and> (\<exists>r kvs m.
           fst (replay \<lparr>http_method = POST, url = BASE_URL @ REGISTER_ENDPOINT,
                     headers = register_headers, params = [],
                     json_payload = Some (JObj (dict_set ''email'' (JStr ''invalid-email-format'')
                                                  (register_valid_payload ''0f''))),
                     timeout = TIMEOUT\<rparr>
                  (world (start [json_reply 422 (JObj [(''message'', JStr ''Invalid Email format'')])])))
             = Response r
         \<and> (status_code r = 400 \<or> status_code r = 422)
         \<and> body r = Inr (JObj kvs)
         \<and> map_of kvs ''message'' = Some m
         \<and> str_in ''email'' (lower (py_str m)))
   \<and> (\<exists>r kvs m.
           fst (replay \<lparr>http_method = POST, url = BASE_URL @ REGISTER_ENDPOINT,
                     headers = register_headers, params = [],
                     json_payload = Some (JObj (dict_set ''password'' (JStr ''123'')
                                                  (register_valid_payload ''0f''))),
                     timeout = TIMEOUT\<rparr>
                  (world (start [json_reply 400 (JObj [(''message'', JStr ''Password too short'')])])))
             = Response r
         \<and> (status_code r = 400 \<or> status_code r = 422)
         \<and> body r = Inr (JObj kvs)
         \<and> map_of kvs ''message'' = Some m
         \<and> str_in ''password'' (lower (py_str m)))"
proof -
  have a: "fst (invalid_email_check replay ''0f''
          (start [json_reply 422 (JObj [(''message'', JStr ''Invalid Email format'')])])) = Inr ()"
    by code_simp
  have b: "fst (short_password_check replay ''0f''
          (start [json_reply 400 (JObj [(''message'', JStr ''Password too short'')])])) = Inr ()"
    by code_simp
  from a b invalid_email_and_short_password_accept_only[of replay "''0f''"
      "start [json_reply 422 (JObj [(''message'', JStr ''Invalid Email format'')])]"
      "start [json_reply 400 (JObj [(''message'', JStr ''Password too short'')])]"]
  show ?thesis by blast
qed

end
